(* ===== verification/Prelude.thy ===== *)
theory Prelude
  imports Complex_Main "HOL-Library.AList" "HOL-Library.Multiset"
begin

text \<open>
  Shared vocabulary of the development: the Python values the strategy code passes
  around (prices as \<open>real\<close>, symbols as \<open>string\<close>, timestamps as \<open>int\<close>), the
  Python exceptions the modelled code can raise, Python's negative-start slice
  \<open>xs[-k:]\<close>, and NumPy's mean with its NaN result on an empty slice together with the
  IEEE comparisons that are false on NaN. The lemmas here are the list and arithmetic
  facts the component theories share; the slicing facts are collected in \<open>slice_simps\<close>, the facts about the
  remove-in-a-loop idiom in \<open>remove_simps\<close>.
\<close>

named_theorems slice_simps "rewrite rules for Python slices of price lists"
named_theorems remove_simps "facts about removing collected elements from a list one by one"

type_synonym price = real
type_synonym symbol = string
type_synonym timestamp = int

text \<open>The exceptions the modelled Python code raises, as values.\<close>

datatype py_error =
    KeyError string
  | IndexError
  | ZeroDivisionError
  | AttributeError string
  | TypeError string
  | ValueError string
  | OSError nat
  | OverflowError string
  | ImportError string

text \<open>
  Sequencing of code that may raise: the first exception propagates, as in Python.
\<close>

definition sbind :: "'e + 'a \<Rightarrow> ('a \<Rightarrow> 'e + 'b) \<Rightarrow> 'e + 'b" where
  "sbind r f = (case r of Inl e \<Rightarrow> Inl e | Inr a \<Rightarrow> f a)"

subsection \<open>Python slicing\<close>

text \<open>
  \<open>xs[-k:]\<close> for a Python int \<open>k\<close>: the start index is \<open>-k\<close>. For \<open>k > 0\<close> it
  keeps the last \<open>k\<close> elements (all of them when the list is shorter); for \<open>k = 0\<close> the
  start is \<open>0\<close> and the whole list is kept; for \<open>k < 0\<close> the start \<open>-k\<close> is positive
  and the first \<open>-k\<close> elements are dropped.
\<close>

definition py_tail :: "int \<Rightarrow> 'a list \<Rightarrow> 'a list" where
  "py_tail k xs = (if 0 < k then drop (length xs - nat k) xs else drop (nat (- k)) xs)"

text \<open>\<open>xs[:-1]\<close>: everything but the last element (empty for the empty list).\<close>

definition py_init :: "'a list \<Rightarrow> 'a list" where
  "py_init xs = take (length xs - 1) xs"

subsection \<open>NumPy mean and IEEE comparisons\<close>

text \<open>
  \<open>np.mean\<close> of an empty array is NaN. A float that may be NaN is modelled as
  \<open>real option\<close>, \<open>None\<close> being NaN; every ordered comparison with NaN is false.
\<close>

definition np_mean :: "real list \<Rightarrow> real option" where
  "np_mean xs = (if xs = [] then None else Some (sum_list xs / real (length xs)))"

fun fle :: "real option \<Rightarrow> real option \<Rightarrow> bool" where
  "fle (Some a) (Some b) = (a \<le> b)"
| "fle _ _ = False"

fun flt :: "real option \<Rightarrow> real option \<Rightarrow> bool" where
  "flt (Some a) (Some b) = (a < b)"
| "flt _ _ = False"

text \<open>Evaluating a sequence of expressions that may raise, left to right, as Python
  evaluates the positional arguments of a call: the first exception propagates.\<close>

fun sequence_sum :: "('e + 'a) list \<Rightarrow> 'e + 'a list" where
  "sequence_sum [] = Inr []"
| "sequence_sum (r # rs) = sbind r (\<lambda>a. sbind (sequence_sum rs) (\<lambda>as. Inr (a # as)))"

subsection \<open>Shared lemmas\<close>

lemma sbind_simps [simp]:
  "sbind (Inl e) f = Inl e"
  "sbind (Inr a) f = f a"
  by (simp_all add: sbind_def)

lemma sbind_eq_Inr:
  "sbind r f = Inr b \<longleftrightarrow> (\<exists>a. r = Inr a \<and> f a = Inr b)"
  by (cases r) simp_all

lemma py_tail_rev:
  "0 < k \<Longrightarrow> py_tail k xs = rev (take (nat k) (rev xs))"
  by (simp add: py_tail_def take_rev)

lemma py_tail_py_tail [slice_simps]:
  assumes "0 < k" "k \<le> m"
  shows "py_tail k (py_tail m xs) = py_tail k xs"
proof -
  have "nat k \<le> nat m" using assms(2) by simp
  with assms show ?thesis by (simp add: py_tail_rev min_absorb1)
qed

lemma py_init_py_tail [slice_simps]:
  "1 < m \<Longrightarrow> py_init (py_tail m xs) = py_tail (m - 1) (py_init xs)"
  by (simp add: py_tail_def py_init_def drop_take nat_diff_distrib)

lemma length_py_tail_le [slice_simps]: "0 < k \<Longrightarrow> int (length (py_tail k xs)) \<le> k"
  by (simp add: py_tail_def)

lemma py_tail_snoc_tail:
  assumes "0 < k"
  shows "py_tail k (py_tail k xs @ [x]) = py_tail k (xs @ [x])"
proof -
  obtain j where "nat k = Suc j" using assms by (metis gr0_implies_Suc zero_less_nat_eq)
  then show ?thesis using assms by (simp add: py_tail_rev min_absorb1)
qed

text \<open>Appending to a list capped at its last \<open>k\<close> elements and capping again keeps
  the last \<open>k\<close> elements of the whole sequence.\<close>

lemma py_tail_capped_snoc:
  assumes "0 < k"
  shows "(if k < int (length (py_tail k xs @ [x])) then py_tail k (py_tail k xs @ [x])
          else py_tail k xs @ [x]) = py_tail k (xs @ [x])"
proof (cases "k < int (length (py_tail k xs @ [x]))")
  case True
  with assms show ?thesis by (simp add: py_tail_snoc_tail)
next
  case False
  then have "int (length xs) < k" using assms by (simp add: py_tail_def)
  with assms show ?thesis by (simp add: py_tail_def)
qed

lemma py_init_snoc [simp]: "py_init (xs @ [x]) = xs"
  by (simp add: py_init_def)

lemma py_init_Nil [simp]: "py_init [] = []"
  by (simp add: py_init_def)

lemma length_py_init [simp]: "length (py_init xs) = length xs - 1"
  by (simp add: py_init_def)

lemma np_mean_Nil [simp]: "np_mean [] = None"
  by (simp add: np_mean_def)

lemma fle_flt_None [simp]:
  "\<not> fle None b" "\<not> fle a None" "\<not> flt None b" "\<not> flt a None"
  by (cases a; cases b; simp)+

subsection \<open>Removing list elements one by one\<close>

text \<open>\<open>for x in ys: xs.remove(x)\<close> is \<open>fold remove1 ys xs\<close>: as multisets it
  subtracts \<open>ys\<close>; on a list without duplicates, removing a filtered sublist keeps
  exactly the other elements, in order.\<close>

lemma fold_remove1_Cons_notin:
  "x \<notin> set ys \<Longrightarrow> fold remove1 ys (x # zs) = x # fold remove1 ys zs"
  by (induction ys arbitrary: zs) auto

lemma fold_remove1_filter [remove_simps]:
  "distinct xs \<Longrightarrow> fold remove1 (filter P xs) xs = filter (\<lambda>x. \<not> P x) xs"
  by (induction xs) (auto simp: fold_remove1_Cons_notin)

lemma mset_fold_remove1: "mset (fold remove1 ys xs) = mset xs - mset ys"
  by (induction ys arbitrary: xs) (auto simp: diff_diff_add_mset add.commute)

lemma sum_list_fold_remove1 [remove_simps]:
  fixes f :: "'a \<Rightarrow> 'b::ab_group_add"
  assumes "mset ys \<subseteq># mset xs"
  shows "sum_list (map f (fold remove1 ys xs)) = sum_list (map f xs) - sum_list (map f ys)"
proof -
  let ?s = "\<lambda>M. sum_mset (image_mset f M)"
  have sl: "sum_list (map f zs) = ?s (mset zs)" for zs
    by (metis mset_map sum_mset_sum_list)
  have "?s (mset xs) = ?s ((mset xs - mset ys) + mset ys)"
    using assms by simp
  also have "\<dots> = ?s (mset xs - mset ys) + ?s (mset ys)"
    by simp
  finally have "?s (mset xs - mset ys) = ?s (mset xs) - ?s (mset ys)"
    by (simp add: algebra_simps)
  then show ?thesis by (simp add: sl mset_fold_remove1)
qed

lemma length_fold_remove1 [remove_simps]:
  "mset ys \<subseteq># mset xs \<Longrightarrow> length (fold remove1 ys xs) = length xs - length ys"
  by (metis mset_fold_remove1 size_Diff_submset size_mset)

lemma mset_filter_subseteq [remove_simps]: "mset (filter P xs) \<subseteq># mset xs"
  by (simp add: multiset_filter_subset)
lemma set_fold_remove1_subset [remove_simps]: "set (fold remove1 ys xs) \<subseteq> set xs"
  by (induction ys arbitrary: xs) (simp, metis fold_simps(2) notin_set_remove1 subset_iff)

lemma case_sum_InrI:
  "(\<And>r. x = Inr r \<Longrightarrow> P r) \<Longrightarrow> (\<exists>r. x = Inr r) \<Longrightarrow> (case x of Inl _ \<Rightarrow> False | Inr r \<Rightarrow> P r)"
  by (auto split: sum.split)

end
