(* ===== verification/Base_Strategy.thy ===== *)
theory Base_Strategy
  imports Prelude
begin

text \<open>
  The strategy base class of \<open>src/src/strategies/base_strategy.py\<close>: configuration
  values (the nested dicts a JSON or HJSON file loads into) as the datatype \<open>jval\<close>,
  \<open>BaseStrategy.__init__\<close>'s read of the \<open>strategy\<close> section, the key-path lookup
  \<open>get_config_value\<close>, the order dicts every strategy returns and
  \<open>validate_order\<close>, the record \<open>base_strategy\<close> the constructor builds, and the
  optional callbacks, which do nothing. The kwargs of \<open>calc_entries\<close>/\<open>calc_closes\<close> are a dict
  from names to values, \<open>kwargs\<close>.
\<close>

subsection \<open>Configuration values\<close>

text \<open>
  A loaded configuration: \<open>None\<close>, booleans, ints, floats, strings, lists and dicts.
  A dict is an association list with distinct keys, looked up with \<open>map_of\<close>.
\<close>

datatype jval =
    JNull
  | JBool bool
  | JInt int
  | JFloat real
  | JStr string
  | JList "jval list"
  | JObj "(string \<times> jval) list"

type_synonym kwargs = "(string \<times> jval) list"

text \<open>\<open>d.get(k, default)\<close>: an attribute error when \<open>d\<close> is not a dict.\<close>

fun dict_get :: "jval \<Rightarrow> string \<Rightarrow> jval \<Rightarrow> py_error + jval" where
  "dict_get (JObj kvs) k d = Inr (case map_of kvs k of None \<Rightarrow> d | Some v \<Rightarrow> v)"
| "dict_get _ k d = Inl (AttributeError ''get'')"

text \<open>\<open>d[k]\<close>: a key error when the key is absent, a type error on a non-dict.\<close>

fun dict_index :: "jval \<Rightarrow> string \<Rightarrow> py_error + jval" where
  "dict_index (JObj kvs) k = (case map_of kvs k of None \<Rightarrow> Inl (KeyError k) | Some v \<Rightarrow> Inr v)"
| "dict_index _ k = Inl (TypeError ''not subscriptable'')"

text \<open>
  The loop of \<open>get_config_value\<close> (lines 88--94): follow the path while the current
  value is a dict holding the next key; \<open>None\<close> is the early \<open>return default\<close>.
\<close>

fun config_walk :: "jval \<Rightarrow> string list \<Rightarrow> jval option" where
  "config_walk v [] = Some v"
| "config_walk (JObj kvs) (k # ks) =
     (case map_of kvs k of None \<Rightarrow> None | Some v \<Rightarrow> config_walk v ks)"
| "config_walk _ (k # ks) = None"

definition get_config_value :: "jval \<Rightarrow> string list \<Rightarrow> jval \<Rightarrow> jval" where
  "get_config_value config key_path dflt =
     (case config_walk config key_path of None \<Rightarrow> dflt | Some v \<Rightarrow> v)"

text \<open>\<open>BaseStrategy.__init__\<close>: \<open>self.strategy_params = config.get('strategy', {})\<close>.\<close>

definition base_strategy_params :: "jval \<Rightarrow> py_error + jval" where
  "base_strategy_params config = dict_get config ''strategy'' (JObj [])"

text \<open>The state \<open>BaseStrategy.__init__\<close> (lines 14--28) sets up: the configuration, the
  class name, which also names the logger, and the \<open>strategy\<close> section. A configuration
  that is not a dict makes \<open>config.get\<close> raise.\<close>

record base_strategy =
  bs_config :: jval
  bs_name :: string
  bs_strategy_params :: jval

definition base_strategy_init :: "string \<Rightarrow> jval \<Rightarrow> py_error + base_strategy" where
  "base_strategy_init class_name config =
     sbind (base_strategy_params config) (\<lambda>p.
       Inr \<lparr>bs_config = config, bs_name = class_name, bs_strategy_params = p\<rparr>)"

text \<open>\<open>get_strategy_params\<close> (lines 68--75).\<close>

definition get_strategy_params :: "base_strategy \<Rightarrow> jval" where
  "get_strategy_params s = bs_strategy_params s"

text \<open>\<open>log_strategy_action\<close> (lines 109--119): the INFO record it sends to the logger
  \<open>strategy.<name>\<close>, as the logger's name and the message. \<open>kwargs_repr\<close> is
  Python's \<open>str\<close> of the keyword-argument dict, which is not modelled.\<close>

definition log_strategy_action :: "base_strategy \<Rightarrow> string \<Rightarrow> string \<Rightarrow> string \<Rightarrow> string \<Rightarrow> string \<times> string" where
  "log_strategy_action s action pside symbol kwargs_repr =
     (''strategy.'' @ bs_name s, action @ '' - '' @ pside @ '' '' @ symbol @ '': '' @ kwargs_repr)"

text \<open>The optional callbacks (lines 121--150) are \<open>pass\<close>: a subclass that does not
  override them keeps its state, whatever the strategy state type \<open>'s\<close> is.\<close>

definition on_market_data_update :: "'s \<Rightarrow> string \<Rightarrow> kwargs \<Rightarrow> 's" where
  "on_market_data_update s symbol market_data = s"

definition on_position_update :: "'s \<Rightarrow> string \<Rightarrow> string \<Rightarrow> kwargs \<Rightarrow> 's" where
  "on_position_update s symbol pside position = s"

definition on_order_filled :: "'s \<Rightarrow> string \<Rightarrow> kwargs \<Rightarrow> 's" where
  "on_order_filled s symbol order = s"

text \<open>
  A parameter value used as a slice bound must be an int (a bool is an int in Python);
  one used in float arithmetic may be an int or a float. Any other value makes the
  model's constructor fail where Python would store it and raise at its first use.
\<close>

fun as_int :: "string \<Rightarrow> jval \<Rightarrow> py_error + int" where
  "as_int k (JInt i) = Inr i"
| "as_int k (JBool b) = Inr (of_bool b)"
| "as_int k _ = Inl (TypeError k)"

text \<open>\<open>int(v)\<close>: a float is truncated towards zero. Parsing a numeric string is not
  modelled: a string is a value error.\<close>

fun py_int :: "jval \<Rightarrow> py_error + int" where
  "py_int (JInt i) = Inr i"
| "py_int (JFloat r) = Inr (if 0 \<le> r then \<lfloor>r\<rfloor> else \<lceil>r\<rceil>)"
| "py_int (JBool b) = Inr (of_bool b)"
| "py_int (JStr s) = Inl (ValueError s)"
| "py_int _ = Inl (TypeError ''int'')"

fun as_float :: "string \<Rightarrow> jval \<Rightarrow> py_error + real" where
  "as_float k (JInt i) = Inr (of_int i)"
| "as_float k (JFloat r) = Inr r"
| "as_float k (JBool b) = Inr (of_bool b)"
| "as_float k _ = Inl (TypeError k)"

subsection \<open>Orders\<close>

text \<open>
  An order as the strategies build it: \<open>qty\<close>, \<open>price\<close>, \<open>order_type\<close>,
  \<open>strategy\<close> and, for the moving-average strategy, \<open>signal\<close>.
\<close>

record order =
  o_qty :: real
  o_price :: real
  o_type :: string
  o_strategy :: string
  o_signal :: "string option"

text \<open>The dict the code returns for an order, with the keys in the source's order.\<close>

definition order_dict :: "order \<Rightarrow> (string \<times> jval) list" where
  "order_dict od =
     [(''qty'', JFloat (o_qty od)), (''price'', JFloat (o_price od)),
      (''order_type'', JStr (o_type od)), (''strategy'', JStr (o_strategy od))]
     @ (case o_signal od of None \<Rightarrow> [] | Some s \<Rightarrow> [(''signal'', JStr s)])"

definition required_fields :: "string list" where
  "required_fields = [''qty'', ''price'', ''order_type'']"

text \<open>\<open>validate_order\<close> (lines 106--107): every required key is present.\<close>

definition validate_order :: "(string \<times> jval) list \<Rightarrow> bool" where
  "validate_order order = list_all (\<lambda>field. map_of order field \<noteq> None) required_fields"

end
