(* ===== verification/Default_Strategy.thy ===== *)
theory Default_Strategy
  imports Base_Strategy
begin

text \<open>
  \<open>DefaultStrategy\<close> of \<open>src/src/strategies/default_strategy.py\<close>: the grid and
  trailing strategy whose order ladder is computed by the Rust extension
  \<open>passivbot_rust\<close>. The extension is not part of the repository; it is a parameter
  of the model, a module \<open>pbr\<close> mapping attribute names to functions from the
  positional argument list to the returned objects (or an exception). A returned object is
  the association list of its attributes. What the model fixes is the code's own part:
  which function is looked up, which arguments are assembled in which order from the
  kwargs and the configuration, which returned objects are kept and how they are tagged,
  and that every exception of the block yields the empty list.
\<close>

subsection \<open>State and the extension interface\<close>

text \<open>\<open>BaseStrategy.__init__\<close> as run by \<open>DefaultStrategy.__init__\<close> (lines 14--16).\<close>

record default_strategy =
  ds_config :: jval
  ds_strategy_params :: jval

definition default_strategy_init :: "jval \<Rightarrow> py_error + default_strategy" where
  "default_strategy_init config =
     sbind (base_strategy_params config) (\<lambda>p. Inr \<lparr>ds_config = config, ds_strategy_params = p\<rparr>)"

type_synonym kernel_obj = "(string \<times> jval) list"
type_synonym kernel_fn = "jval list \<Rightarrow> py_error + kernel_obj list"
type_synonym rust_module = "string \<Rightarrow> kernel_fn option"

text \<open>\<open>getattr(pbr, name)\<close>: an attribute error when the module has no such function.\<close>

definition getattr_module :: "rust_module \<Rightarrow> string \<Rightarrow> py_error + kernel_fn" where
  "getattr_module pbr name = (case pbr name of None \<Rightarrow> Inl (AttributeError name) | Some f \<Rightarrow> Inr f)"

text \<open>\<open>kwargs[k]\<close> and \<open>kwargs.get(k, d)\<close>.\<close>

definition kw_index :: "kwargs \<Rightarrow> string \<Rightarrow> py_error + jval" where
  "kw_index kw k = (case map_of kw k of None \<Rightarrow> Inl (KeyError k) | Some v \<Rightarrow> Inr v)"

definition kw_get :: "kwargs \<Rightarrow> string \<Rightarrow> jval \<Rightarrow> jval" where
  "kw_get kw k d = (case map_of kw k of None \<Rightarrow> d | Some v \<Rightarrow> v)"

subsection \<open>Argument assembly\<close>

text \<open>The exchange-rule arrays every call starts with (lines 33--37 and 94--98).\<close>

definition market_arg_keys :: "string list" where
  "market_arg_keys = [''qty_steps'', ''price_steps'', ''min_qtys'', ''min_costs'', ''c_mults'']"

text \<open>The grid parameters read from \<open>config['bot'][pside]\<close> (lines 38--47 and 99--105).\<close>

definition entry_config_keys :: "string list" where
  "entry_config_keys =
     [''entry_grid_double_down_factor'', ''entry_grid_spacing_weight'', ''entry_grid_spacing_pct'',
      ''entry_initial_ema_dist'', ''entry_initial_qty_pct'', ''entry_trailing_double_down_factor'',
      ''entry_trailing_grid_ratio'', ''entry_trailing_retracement_pct'',
      ''entry_trailing_threshold_pct'', ''wallet_exposure_limit'']"

definition close_config_keys :: "string list" where
  "close_config_keys =
     [''close_grid_markup_end'', ''close_grid_markup_start'', ''close_grid_qty_pct'',
      ''close_trailing_grid_ratio'', ''close_trailing_qty_pct'', ''close_trailing_retracement_pct'',
      ''close_trailing_threshold_pct'']"

text \<open>The trailing-state scalars, read with \<open>kwargs.get(k, 0.0)\<close> (lines 51--56 and 108--113).\<close>

definition trailing_arg_keys :: "string list" where
  "trailing_arg_keys =
     [''trailing_min_since_open'', ''trailing_max_since_min'', ''trailing_max_since_open'',
      ''trailing_min_since_max'', ''ema_min'', ''current_price'']"

text \<open>\<open>self.get_config_value(["bot", pside, k])\<close>: \<open>None\<close> when a key is missing.\<close>

definition config_args :: "default_strategy \<Rightarrow> string \<Rightarrow> string list \<Rightarrow> jval list" where
  "config_args ds pside keys = map (\<lambda>k. get_config_value (ds_config ds) [''bot'', pside, k] JNull) keys"

definition trailing_args :: "kwargs \<Rightarrow> jval list" where
  "trailing_args kw = map (\<lambda>k. kw_get kw k (JFloat 0)) trailing_arg_keys"

text \<open>
  The positional arguments of \<open>calc_entries_{pside}_py\<close> (lines 33--56), evaluated left to
  right: the first missing required kwarg raises its key error.
\<close>

definition entry_args :: "default_strategy \<Rightarrow> string \<Rightarrow> kwargs \<Rightarrow> py_error + jval list" where
  "entry_args ds pside kw =
     sbind (sequence_sum (map (kw_index kw) market_arg_keys)) (\<lambda>m.
     sbind (sequence_sum (map (kw_index kw) [''balance'', ''position_size'', ''position_price''])) (\<lambda>p.
     Inr (m @ config_args ds pside entry_config_keys @ p @ trailing_args kw)))"

text \<open>The positional arguments of \<open>calc_closes_{pside}_py\<close> (lines 94--113).\<close>

definition close_args :: "default_strategy \<Rightarrow> string \<Rightarrow> kwargs \<Rightarrow> py_error + jval list" where
  "close_args ds pside kw =
     sbind (sequence_sum (map (kw_index kw) market_arg_keys)) (\<lambda>m.
     sbind (sequence_sum (map (kw_index kw) [''position_size'', ''position_price''])) (\<lambda>p.
     Inr (m @ config_args ds pside close_config_keys @ p @ trailing_args kw)))"

subsection \<open>Formatting the returned objects\<close>

text \<open>
  The \<open>for\<close> loops of lines 60--68 and 117--125: an object with the attributes \<open>qty\<close>,
  \<open>price\<close> and \<open>order_type\<close> becomes an order dict tagged \<open>'default'\<close>; any other
  object is dropped silently.
\<close>

fun format_kernel_orders :: "kernel_obj list \<Rightarrow> (string \<times> jval) list list" where
  "format_kernel_orders [] = []"
| "format_kernel_orders (e # es) =
     (case (map_of e ''qty'', map_of e ''price'', map_of e ''order_type'') of
        (Some q, Some p, Some t) \<Rightarrow>
          [(''qty'', q), (''price'', p), (''order_type'', t), (''strategy'', JStr ''default'')]
          # format_kernel_orders es
      | _ \<Rightarrow> format_kernel_orders es)"

definition has_order_attrs :: "kernel_obj \<Rightarrow> bool" where
  "has_order_attrs e =
     (map_of e ''qty'' \<noteq> None \<and> map_of e ''price'' \<noteq> None \<and> map_of e ''order_type'' \<noteq> None)"

subsection \<open>The two order methods\<close>

text \<open>
  \<open>calc_entries\<close> (lines 18--77): look up the extension function, assemble its arguments,
  call it and format the result; any exception of the \<open>try\<close> block returns \<open>[]\<close>.
  The log calls have no effect on the result.
\<close>

definition default_calc_entries ::
  "rust_module \<Rightarrow> default_strategy \<Rightarrow> string \<Rightarrow> symbol \<Rightarrow> kwargs \<Rightarrow> (string \<times> jval) list list" where
  "default_calc_entries pbr ds pside symbol kw =
     (case sbind (getattr_module pbr (''calc_entries_'' @ pside @ ''_py''))
             (\<lambda>f. sbind (entry_args ds pside kw) f) of
        Inl e \<Rightarrow> []
      | Inr entries \<Rightarrow> format_kernel_orders entries)"

text \<open>\<open>calc_closes\<close> (lines 79--134).\<close>

definition default_calc_closes ::
  "rust_module \<Rightarrow> default_strategy \<Rightarrow> string \<Rightarrow> symbol \<Rightarrow> kwargs \<Rightarrow> (string \<times> jval) list list" where
  "default_calc_closes pbr ds pside symbol kw =
     (case sbind (getattr_module pbr (''calc_closes_'' @ pside @ ''_py''))
             (\<lambda>f. sbind (close_args ds pside kw) f) of
        Inl e \<Rightarrow> []
      | Inr closes \<Rightarrow> format_kernel_orders closes)"

subsection \<open>A stub extension\<close>

text \<open>A deterministic stub for \<open>passivbot_rust\<close>, as the design notes propose for
  testing: \<open>calc_entries_long_py\<close> returns one well-formed order and one object without
  \<open>price\<close>; \<open>calc_closes_long_py\<close> raises; there is no short-side function.\<close>

abbreviation stub_pbr :: rust_module where
  "stub_pbr \<equiv> (\<lambda>name. if name = ''calc_entries_long_py''
      then Some (\<lambda>args. Inr [[(''qty'', JFloat 1), (''price'', JFloat 100), (''order_type'', JStr ''limit_buy'')],
                            [(''qty'', JFloat 2), (''order_type'', JStr ''limit_buy'')]])
      else if name = ''calc_closes_long_py'' then Some (\<lambda>args. Inl (ValueError ''kernel''))
      else None)"

abbreviation stub_kwargs :: kwargs where
  "stub_kwargs \<equiv> [(''qty_steps'', JList []), (''price_steps'', JList []), (''min_qtys'', JList []),
     (''min_costs'', JList []), (''c_mults'', JList []), (''balance'', JFloat 1000),
     (''position_size'', JFloat 0), (''position_price'', JFloat 0)]"

abbreviation stub_strategy :: default_strategy where
  "stub_strategy \<equiv> \<lparr>ds_config = JObj [], ds_strategy_params = JObj []\<rparr>"

subsection \<open>Lemmas\<close>

lemmas default_eval = default_calc_entries_def default_calc_closes_def getattr_module_def entry_args_def
  close_args_def kw_index_def kw_get_def market_arg_keys_def config_args_def entry_config_keys_def
  close_config_keys_def trailing_args_def trailing_arg_keys_def get_config_value_def

lemma format_kernel_orders_valid:
  "o' \<in> set (format_kernel_orders es) \<Longrightarrow>
   validate_order o' \<and> map_of o' ''strategy'' = Some (JStr ''default'')"
  by (induction es rule: format_kernel_orders.induct)
     (auto simp: validate_order_def required_fields_def split: option.splits)

lemma format_kernel_orders_filter:
  "map (\<lambda>o'. (map_of o' ''qty'', map_of o' ''price'', map_of o' ''order_type'')) (format_kernel_orders es) =
   map (\<lambda>e. (map_of e ''qty'', map_of e ''price'', map_of e ''order_type'')) (filter has_order_attrs es)"
  by (induction es rule: format_kernel_orders.induct) (auto simp: has_order_attrs_def split: option.splits)

lemma sequence_kw_index:
  "sequence_sum (map (kw_index kw) ks) =
     (if list_all (\<lambda>k. map_of kw k \<noteq> None) ks then Inr (map (\<lambda>k. the (map_of kw k)) ks)
      else Inl (KeyError (hd (filter (\<lambda>k. map_of kw k = None) ks))))"
  by (induction ks) (auto simp: kw_index_def split: option.splits)

lemma entry_args_Inl:
  "\<not> list_all (\<lambda>k. map_of kw k \<noteq> None) (market_arg_keys @ [''balance'', ''position_size'', ''position_price''])
   \<Longrightarrow> \<exists>e. entry_args ds pside kw = Inl e"
  unfolding entry_args_def sequence_kw_index list_all_append by auto

lemma default_calc_entries_Nil:
  assumes "pbr (''calc_entries_'' @ pside @ ''_py'') = None \<or> (\<exists>e. entry_args ds pside kw = Inl e) \<or>
     (\<exists>f args e. pbr (''calc_entries_'' @ pside @ ''_py'') = Some f \<and> entry_args ds pside kw = Inr args \<and> f args = Inl e)"
  shows "default_calc_entries pbr ds pside symbol kw = []"
  using assms by (auto simp: default_calc_entries_def getattr_module_def split: option.splits)

text \<open>C7: every order \<open>DefaultStrategy\<close> returns, from either method and whatever the
  extension returns or raises, passes \<open>validate_order\<close> and is tagged with the strategy
  name \<open>default\<close>.\<close>

theorem default_orders_validated:
  "\<forall>o' \<in> set (default_calc_entries pbr ds pside symbol kw @ default_calc_closes pbr ds pside symbol kw).
     validate_order o' \<and> map_of o' ''strategy'' = Some (JStr ''default'')"
  by (auto simp: default_calc_entries_def default_calc_closes_def
      dest: format_kernel_orders_valid split: sum.splits)

text \<open>C18: when the extension function exists and returns a list of objects, the entry
  orders are exactly the objects that have \<open>qty\<close>, \<open>price\<close> and \<open>order_type\<close>, with
  those values, in the extension's order; the other objects are dropped.\<close>

theorem default_entries_forward:
  assumes "pbr (''calc_entries_'' @ pside @ ''_py'') = Some f" "entry_args ds pside kw = Inr args"
    and "f args = Inr objs"
  shows "map (\<lambda>o'. (map_of o' ''qty'', map_of o' ''price'', map_of o' ''order_type''))
           (default_calc_entries pbr ds pside symbol kw) =
         map (\<lambda>e. (map_of e ''qty'', map_of e ''price'', map_of e ''order_type'')) (filter has_order_attrs objs)"
  using assms by (simp add: default_calc_entries_def getattr_module_def format_kernel_orders_filter)

text \<open>C12: the entry methods fail soft: a missing required kwarg, a side with no extension
  function, or an extension call that raises gives the empty order list.\<close>

theorem default_entries_fail_soft:
  assumes "\<not> list_all (\<lambda>k. map_of kw k \<noteq> None) (market_arg_keys @ [''balance'', ''position_size'', ''position_price''])
     \<or> pbr (''calc_entries_'' @ pside @ ''_py'') = None
     \<or> (\<exists>f. pbr (''calc_entries_'' @ pside @ ''_py'') = Some f \<and> (\<forall>args. \<exists>e. f args = Inl e))"
  shows "default_calc_entries pbr ds pside symbol kw = []"
proof (rule default_calc_entries_Nil)
  show "pbr (''calc_entries_'' @ pside @ ''_py'') = None \<or> (\<exists>e. entry_args ds pside kw = Inl e) \<or>
     (\<exists>f args e. pbr (''calc_entries_'' @ pside @ ''_py'') = Some f \<and> entry_args ds pside kw = Inr args \<and> f args = Inl e)"
  proof (cases "entry_args ds pside kw")
    case (Inl e)
    then show ?thesis by blast
  next
    case (Inr args)
    have req: "list_all (\<lambda>k. map_of kw k \<noteq> None) (market_arg_keys @ [''balance'', ''position_size'', ''position_price''])"
    proof (rule ccontr)
      assume "\<not> ?thesis"
      then obtain e where "entry_args ds pside kw = Inl e" using entry_args_Inl by blast
      with Inr show False by simp
    qed
    show ?thesis
    proof (cases "pbr (''calc_entries_'' @ pside @ ''_py'')")
      case None
      then show ?thesis by blast
    next
      case (Some f)
      from assms req Some have "\<forall>a. \<exists>e. f a = Inl e" by auto
      then obtain e where "f args = Inl e" by blast
      with Some Inr show ?thesis by blast
    qed
  qed
qed

text \<open>The argument assembly of \<open>calc_entries\<close>: the five exchange arrays, the ten grid
  parameters from \<open>config['bot'][pside]\<close> (\<open>None\<close> when missing), balance and position,
  and the six trailing scalars (0.0 when missing); or the key error of the first missing
  required kwarg, in the order Python evaluates the arguments.\<close>

theorem default_entry_args_spec:
  "entry_args ds pside kw =
     (let req = market_arg_keys @ [''balance'', ''position_size'', ''position_price''] in
      if list_all (\<lambda>k. map_of kw k \<noteq> None) req
      then Inr (map (\<lambda>k. the (map_of kw k)) market_arg_keys @ config_args ds pside entry_config_keys @
                map (\<lambda>k. the (map_of kw k)) [''balance'', ''position_size'', ''position_price''] @ trailing_args kw)
      else Inl (KeyError (hd (filter (\<lambda>k. map_of kw k = None) req))))"
  unfolding entry_args_def sequence_kw_index Let_def list_all_append filter_append
  by (auto simp: list_all_iff filter_empty_conv)

subsection \<open>Witnesses\<close>

theorem default_orders_validated_witness:
  "default_calc_entries stub_pbr stub_strategy ''long'' ''BTCUSDT'' stub_kwargs @
     default_calc_closes stub_pbr stub_strategy ''long'' ''BTCUSDT'' stub_kwargs \<noteq> [] \<and>
   list_all (\<lambda>o'. validate_order o' \<and> map_of o' ''strategy'' = Some (JStr ''default''))
     (default_calc_entries stub_pbr stub_strategy ''long'' ''BTCUSDT'' stub_kwargs @
      default_calc_closes stub_pbr stub_strategy ''long'' ''BTCUSDT'' stub_kwargs)"
  using default_orders_validated[of stub_pbr stub_strategy "''long''" "''BTCUSDT''" stub_kwargs]
  by (simp add: list_all_iff default_eval)

theorem default_entries_forward_witness:
  "stub_pbr (''calc_entries_'' @ ''long'' @ ''_py'') = Some (\<lambda>args. Inr [[(''qty'', JFloat 1), (''price'', JFloat 100), (''order_type'', JStr ''limit_buy'')],
                            [(''qty'', JFloat 2), (''order_type'', JStr ''limit_buy'')]]) \<and>
   map (\<lambda>o'. (map_of o' ''qty'', map_of o' ''price'', map_of o' ''order_type''))
     (default_calc_entries stub_pbr stub_strategy ''long'' ''BTCUSDT'' stub_kwargs) =
   [(Some (JFloat 1), Some (JFloat 100), Some (JStr ''limit_buy''))]"
proof -
  obtain args where a: "entry_args stub_strategy ''long'' stub_kwargs = Inr args"
    by (simp add: default_eval)
  show ?thesis
    using default_entries_forward[OF _ a, of stub_pbr] by (simp add: has_order_attrs_def)
qed

theorem default_entries_fail_soft_witness:
  "\<not> list_all (\<lambda>k. map_of (tl stub_kwargs) k \<noteq> None) (market_arg_keys @ [''balance'', ''position_size'', ''position_price'']) \<and>
   default_calc_entries stub_pbr stub_strategy ''long'' ''BTCUSDT'' (tl stub_kwargs) = [] \<and>
   stub_pbr (''calc_entries_'' @ ''short'' @ ''_py'') = None \<and>
   default_calc_entries stub_pbr stub_strategy ''short'' ''BTCUSDT'' stub_kwargs = []"
  using default_entries_fail_soft[of "tl stub_kwargs" stub_pbr "''long''" stub_strategy "''BTCUSDT''"]
    default_entries_fail_soft[of stub_kwargs stub_pbr "''short''" stub_strategy "''BTCUSDT''"]
  by (simp add: market_arg_keys_def)

end
