(* ===== verification/MA_Crossover.thy ===== *)
theory MA_Crossover
  imports Base_Strategy
begin

text \<open>
  The moving-average crossover strategy, \<open>MACrossoverStrategy\<close> of
  \<open>src/src/strategies/ma_crossover_strategy.py\<close>. Its state is the record
  \<open>ma_strategy\<close>: the five parameters read in \<open>__init__\<close> and the per-symbol price
  history. Each method is one definition: \<open>update_price_history\<close>,
  \<open>calculate_ma\<close>, \<open>detect_crossover\<close>, \<open>ma_calc_entries\<close>,
  \<open>ma_calc_closes\<close>, \<open>ma_on_market_data_update\<close> and \<open>get_strategy_status\<close>.
  Methods that append to the history return the new state with their result.
  Prices are reals: the model has no float rounding, and NaN is \<open>None\<close> (Prelude).
\<close>

subsection \<open>State and construction\<close>

record ma_strategy =
  fast_period :: int
  slow_period :: int
  position_size :: real
  stop_loss_pct :: real
  take_profit_pct :: real
  price_history :: "symbol \<rightharpoonup> real list"

datatype signal = Golden | Death | NoSignal

text \<open>\<open>MACrossoverStrategy.__init__\<close> (lines 14--30, with \<open>BaseStrategy.__init__\<close>):
  the parameters are read from \<open>config['strategy']\<close> with their defaults.\<close>

definition ma_init :: "jval \<Rightarrow> py_error + ma_strategy" where
  "ma_init config =
     sbind (base_strategy_params config) (\<lambda>params.
     sbind (sbind (dict_get params ''fast_period'' (JInt 10)) (as_int ''fast_period'')) (\<lambda>f.
     sbind (sbind (dict_get params ''slow_period'' (JInt 20)) (as_int ''slow_period'')) (\<lambda>sl.
     sbind (sbind (dict_get params ''position_size'' (JFloat (1/10))) (as_float ''position_size'')) (\<lambda>p.
     sbind (sbind (dict_get params ''stop_loss_pct'' (JFloat (2/100))) (as_float ''stop_loss_pct'')) (\<lambda>stl.
     sbind (sbind (dict_get params ''take_profit_pct'' (JFloat (4/100))) (as_float ''take_profit_pct'')) (\<lambda>tp.
     Inr \<lparr>fast_period = f, slow_period = sl, position_size = p, stop_loss_pct = stl,
          take_profit_pct = tp, price_history = Map.empty\<rparr>))))))"

subsection \<open>Price history\<close>

text \<open>\<open>self.price_history.get(symbol, [])\<close>.\<close>

definition history_of :: "ma_strategy \<Rightarrow> symbol \<Rightarrow> real list" where
  "history_of s symbol = (case price_history s symbol of None \<Rightarrow> [] | Some h \<Rightarrow> h)"

text \<open>\<open>_update_price_history\<close> (lines 32--42): append, then keep the last
  \<open>2 * slow_period\<close> prices when the list is longer than that.\<close>

definition update_price_history :: "ma_strategy \<Rightarrow> symbol \<Rightarrow> real \<Rightarrow> ma_strategy" where
  "update_price_history s symbol p =
     (let hist = history_of s symbol @ [p];
          max_length = slow_period s * 2;
          hist' = (if max_length < int (length hist) then py_tail max_length hist else hist)
      in s\<lparr>price_history := (price_history s)(symbol \<mapsto> hist')\<rparr>)"

subsection \<open>Indicators\<close>

text \<open>\<open>_calculate_ma\<close> (lines 44--48): \<open>0.0\<close> when fewer than \<open>period\<close> prices,
  else the mean of \<open>prices[-period:]\<close>.\<close>

definition calculate_ma :: "real list \<Rightarrow> int \<Rightarrow> real option" where
  "calculate_ma prices period =
     (if int (length prices) < period then Some 0 else np_mean (py_tail period prices))"

text \<open>\<open>_detect_crossover\<close> (lines 50--74).\<close>

definition detect_crossover :: "ma_strategy \<Rightarrow> real list \<Rightarrow> signal" where
  "detect_crossover s prices =
     (if int (length prices) < slow_period s + 1 then NoSignal
      else
        let current_fast = calculate_ma prices (fast_period s);
            current_slow = calculate_ma prices (slow_period s);
            prev_prices = py_init prices;
            prev_fast = calculate_ma prev_prices (fast_period s);
            prev_slow = calculate_ma prev_prices (slow_period s)
        in if fle prev_fast prev_slow \<and> flt current_slow current_fast then Golden
           else if fle prev_slow prev_fast \<and> flt current_fast current_slow then Death
           else NoSignal)"

subsection \<open>Order generation\<close>

text \<open>
  The kwargs the strategy reads; a key the caller leaves out has the default \<open>0\<close> of
  \<open>kwargs.get(key, 0)\<close>.
\<close>

record ma_ctx =
  kw_current_price :: real
  kw_balance :: real
  kw_position_size :: real
  kw_position_price :: real

definition ma_order :: "real \<Rightarrow> real \<Rightarrow> string \<Rightarrow> string \<Rightarrow> order" where
  "ma_order q p ty sig =
     \<lparr>o_qty = q, o_price = p, o_type = ty, o_strategy = ''ma_crossover'', o_signal = Some sig\<rparr>"

text \<open>\<open>calc_entries\<close> (lines 76--134).\<close>

definition ma_calc_entries :: "ma_strategy \<Rightarrow> string \<Rightarrow> symbol \<Rightarrow> ma_ctx \<Rightarrow> ma_strategy \<times> order list" where
  "ma_calc_entries s pside symbol kw =
     (let current_price = kw_current_price kw; balance = kw_balance kw in
      if current_price \<le> 0 \<or> balance \<le> 0 then (s, [])
      else
        let s' = update_price_history s symbol current_price;
            prices = history_of s' symbol
        in if int (length prices) < slow_period s' then (s', [])
           else
             let sig = detect_crossover s' prices;
                 qty = balance * position_size s' / current_price
             in if sig = Golden \<and> pside = ''long'' then
                  (s', [ma_order qty current_price ''market_buy'' ''golden_cross''])
                else if sig = Death \<and> pside = ''short'' then
                  (s', [ma_order (- qty) current_price ''market_sell'' ''death_cross''])
                else (s', []))"

text \<open>\<open>calc_closes\<close> (lines 136--248): a long position closes on a death cross, else
  on its stop loss, else on its take profit; a short one symmetrically.\<close>

definition close_long :: "ma_strategy \<Rightarrow> signal \<Rightarrow> real \<Rightarrow> real \<Rightarrow> real \<Rightarrow> order list" where
  "close_long s sig current_price ps pp =
     (let stop_loss_price = pp * (1 - stop_loss_pct s);
          take_profit_price = pp * (1 + take_profit_pct s)
      in if sig = Death then [ma_order (- ps) current_price ''market_sell'' ''death_cross_close'']
         else if current_price \<le> stop_loss_price then
           [ma_order (- ps) current_price ''market_sell'' ''stop_loss'']
         else if take_profit_price \<le> current_price then
           [ma_order (- ps) current_price ''market_sell'' ''take_profit'']
         else [])"

definition close_short :: "ma_strategy \<Rightarrow> signal \<Rightarrow> real \<Rightarrow> real \<Rightarrow> real \<Rightarrow> order list" where
  "close_short s sig current_price ps pp =
     (let stop_loss_price = pp * (1 + stop_loss_pct s);
          take_profit_price = pp * (1 - take_profit_pct s)
      in if sig = Golden then [ma_order \<bar>ps\<bar> current_price ''market_buy'' ''golden_cross_close'']
         else if stop_loss_price \<le> current_price then
           [ma_order \<bar>ps\<bar> current_price ''market_buy'' ''stop_loss'']
         else if current_price \<le> take_profit_price then
           [ma_order \<bar>ps\<bar> current_price ''market_buy'' ''take_profit'']
         else [])"

definition ma_calc_closes :: "ma_strategy \<Rightarrow> string \<Rightarrow> symbol \<Rightarrow> ma_ctx \<Rightarrow> ma_strategy \<times> order list" where
  "ma_calc_closes s pside symbol kw =
     (let current_price = kw_current_price kw;
          ps = kw_position_size kw;
          pp = kw_position_price kw
      in if \<bar>ps\<bar> < 1 / 10 ^ 8 \<or> current_price \<le> 0 then (s, [])
         else
           let s' = update_price_history s symbol current_price;
               prices = history_of s' symbol
           in if int (length prices) < slow_period s' then (s', [])
              else
                let sig = detect_crossover s' prices
                in if 0 < ps then (s', close_long s' sig current_price ps pp)
                   else if ps < 0 then (s', close_short s' sig current_price ps pp)
                   else (s', []))"

subsection \<open>Hooks and status\<close>

text \<open>\<open>on_market_data_update\<close> (lines 250--253): the market data is a dict of
  floats; only its \<open>price\<close> entry is used.\<close>

definition ma_on_market_data_update :: "ma_strategy \<Rightarrow> symbol \<Rightarrow> (string \<times> real) list \<Rightarrow> ma_strategy" where
  "ma_on_market_data_update s symbol market_data =
     (case map_of market_data ''price'' of None \<Rightarrow> s | Some p \<Rightarrow> update_price_history s symbol p)"

datatype ma_status =
    InsufficientData
  | Active "real option" "real option" signal nat

text \<open>\<open>get_strategy_status\<close> (lines 255--271).\<close>

definition get_strategy_status :: "ma_strategy \<Rightarrow> symbol \<Rightarrow> ma_status" where
  "get_strategy_status s symbol =
     (let prices = history_of s symbol in
      if int (length prices) < slow_period s then InsufficientData
      else Active (calculate_ma prices (fast_period s)) (calculate_ma prices (slow_period s))
                  (detect_crossover s prices) (length prices))"

subsection \<open>A strategy's lifetime as a sequence of calls\<close>

text \<open>
  The calls a backtest or the live bot makes on one strategy object, in order. Every
  call that appends to the history is a step of the object's state; the status query
  is a step that leaves it unchanged.
\<close>

datatype ma_event =
    CalcEntries string symbol ma_ctx
  | CalcCloses string symbol ma_ctx
  | MarketData symbol "(string \<times> real) list"
  | Status symbol

fun ma_step :: "ma_strategy \<Rightarrow> ma_event \<Rightarrow> ma_strategy \<times> order list" where
  "ma_step s (CalcEntries pside symbol kw) = ma_calc_entries s pside symbol kw"
| "ma_step s (CalcCloses pside symbol kw) = ma_calc_closes s pside symbol kw"
| "ma_step s (MarketData symbol md) = (ma_on_market_data_update s symbol md, [])"
| "ma_step s (Status symbol) = (s, [])"

fun ma_run :: "ma_strategy \<Rightarrow> ma_event list \<Rightarrow> ma_strategy \<times> order list" where
  "ma_run s [] = (s, [])"
| "ma_run s (e # es) =
     (let (s1, os1) = ma_step s e; (s2, os2) = ma_run s1 es in (s2, os1 @ os2))"

text \<open>Feeding a price series through the market-data hook.\<close>

definition price_feed :: "symbol \<Rightarrow> real list \<Rightarrow> ma_event list" where
  "price_feed symbol ps = map (\<lambda>p. MarketData symbol [(''price'', p)]) ps"

text \<open>The invariant of the state: every history is at most \<open>2 * slow_period\<close> long.\<close>

definition history_bounded :: "ma_strategy \<Rightarrow> bool" where
  "history_bounded s \<longleftrightarrow>
     (\<forall>symbol h. price_history s symbol = Some h \<longrightarrow> int (length h) \<le> slow_period s * 2)"

text \<open>Example states and kwargs used by the witnesses below.\<close>

abbreviation example_ma :: "(symbol \<rightharpoonup> real list) \<Rightarrow> ma_strategy" where
  "example_ma h \<equiv> \<lparr>fast_period = 2, slow_period = 3, position_size = 1/10, stop_loss_pct = 2/100,
      take_profit_pct = 4/100, price_history = h\<rparr>"

abbreviation example_kw :: "real \<Rightarrow> real \<Rightarrow> real \<Rightarrow> real \<Rightarrow> ma_ctx" where
  "example_kw p b ps pp \<equiv> \<lparr>kw_current_price = p, kw_balance = b, kw_position_size = ps,
      kw_position_price = pp\<rparr>"

subsection \<open>Frame and history lemmas\<close>

lemma update_price_history_params [simp]:
  "fast_period (update_price_history s symbol p) = fast_period s"
  "slow_period (update_price_history s symbol p) = slow_period s"
  "position_size (update_price_history s symbol p) = position_size s"
  "stop_loss_pct (update_price_history s symbol p) = stop_loss_pct s"
  "take_profit_pct (update_price_history s symbol p) = take_profit_pct s"
  by (simp_all add: update_price_history_def Let_def)

lemma history_of_update:
  "history_of (update_price_history s symbol p) symbol' =
     (if symbol' = symbol then
        (let h = history_of s symbol @ [p]
         in if slow_period s * 2 < int (length h) then py_tail (slow_period s * 2) h else h)
      else history_of s symbol')"
  by (simp add: update_price_history_def history_of_def Let_def)

lemma ma_step_params [simp]:
  "fast_period (fst (ma_step s e)) = fast_period s"
  "slow_period (fst (ma_step s e)) = slow_period s"
  by (cases e; simp add: ma_calc_entries_def ma_calc_closes_def ma_on_market_data_update_def
        Let_def split: option.splits)+

lemma ma_run_params [simp]:
  "fast_period (fst (ma_run s es)) = fast_period s"
  "slow_period (fst (ma_run s es)) = slow_period s"
  by (induction es arbitrary: s) (simp_all add: split_def Let_def)

lemma ma_run_price_feed:
  "ma_run s (price_feed symbol ps) = (fold (\<lambda>p s. update_price_history s symbol p) ps s, [])"
  by (induction ps arbitrary: s) (simp_all add: price_feed_def ma_on_market_data_update_def)

lemma history_bounded_update:
  assumes "0 < slow_period s" "history_bounded s"
  shows "history_bounded (update_price_history s symbol p)"
proof -
  have "0 < slow_period s * 2" using assms(1) by simp
  then have cap: "int (length (let h = history_of s symbol @ [p]
         in if slow_period s * 2 < int (length h) then py_tail (slow_period s * 2) h else h))
       \<le> slow_period s * 2"
    by (simp add: Let_def slice_simps)
  then show ?thesis using assms(2)
    by (simp add: history_bounded_def update_price_history_def Let_def split: if_split_asm)
qed

lemma history_bounded_step:
  assumes "0 < slow_period s" "history_bounded s"
  shows "history_bounded (fst (ma_step s e))"
  using assms history_bounded_update
  by (cases e) (auto simp: ma_calc_entries_def ma_calc_closes_def ma_on_market_data_update_def
      Let_def split: option.splits)

text \<open>The history as a refinement of the whole price feed: after any feed, the
  strategy holds the feed's last \<open>2 * slow_period\<close> prices.\<close>

lemma history_fold_refines:
  assumes "0 < slow_period s" "history_of s symbol = py_tail (slow_period s * 2) feed"
  shows "history_of (fold (\<lambda>p s. update_price_history s symbol p) ps s) symbol
           = py_tail (slow_period s * 2) (feed @ ps)"
  using assms
proof (induction ps arbitrary: s feed)
  case Nil
  then show ?case by simp
next
  case (Cons p ps)
  have "0 < slow_period s * 2" using Cons.prems(1) by simp
  then have "history_of (update_price_history s symbol p) symbol
      = py_tail (slow_period s * 2) (feed @ [p])"
    using Cons.prems(2) py_tail_capped_snoc[of "slow_period s * 2" feed p]
    by (simp add: history_of_update Let_def)
  then show ?case using Cons.prems(1) Cons.IH[of "update_price_history s symbol p" "feed @ [p]"]
    by simp
qed

subsection \<open>Indicator lemmas\<close>

lemma calculate_ma_py_tail:
  assumes "0 < k" "k \<le> m"
  shows "calculate_ma (py_tail m xs) k = calculate_ma xs k"
proof (cases "int (length xs) < m")
  case True
  then show ?thesis using assms by (simp add: py_tail_def)
next
  case False
  then have "int (length (py_tail m xs)) = m" using assms by (simp add: py_tail_def)
  with False assms show ?thesis by (simp add: calculate_ma_def slice_simps)
qed

lemma detect_crossover_params:
  "fast_period s' = fast_period s \<Longrightarrow> slow_period s' = slow_period s \<Longrightarrow>
   detect_crossover s' = detect_crossover s"
  by (simp add: detect_crossover_def fun_eq_iff)

text \<open>Cutting the prices to their last \<open>2 * slow_period\<close> does not change the signal
  when \<open>0 < fast_period \<le> slow_period\<close>: the signal reads at most \<open>slow_period + 1\<close>
  prices.\<close>

lemma detect_crossover_bounded_history:
  assumes "0 < fast_period s" "fast_period s \<le> slow_period s"
  shows "detect_crossover s (py_tail (slow_period s * 2) prices) = detect_crossover s prices"
proof (cases "int (length prices) \<le> slow_period s * 2")
  case True
  then show ?thesis using assms by (simp add: py_tail_def)
next
  case False
  let ?m = "slow_period s * 2"
  have m: "1 < ?m" "0 < slow_period s" using assms by simp_all
  have len: "int (length (py_tail ?m prices)) = ?m" using False m by (simp add: py_tail_def)
  have cur: "calculate_ma (py_tail ?m prices) k = calculate_ma prices k"
    if "0 < k" "k \<le> slow_period s" for k
    using that m by (intro calculate_ma_py_tail) simp_all
  have prev: "calculate_ma (py_init (py_tail ?m prices)) k = calculate_ma (py_init prices) k"
    if "0 < k" "k \<le> slow_period s" for k
    using that m by (simp add: slice_simps calculate_ma_py_tail)
  show ?thesis
    using False len m assms cur[of "fast_period s"] cur[of "slow_period s"]
      prev[of "fast_period s"] prev[of "slow_period s"]
    by (simp add: detect_crossover_def Let_def)
qed

subsection \<open>Order lemmas\<close>

lemma ma_calc_closes_warm:
  assumes "1 / 10 ^ 8 \<le> \<bar>kw_position_size kw\<bar>" "0 < kw_current_price kw"
    and "slow_period s \<le> int (length (history_of (update_price_history s symbol (kw_current_price kw)) symbol))"
  shows "ma_calc_closes s pside symbol kw =
    (let s' = update_price_history s symbol (kw_current_price kw);
         sig = detect_crossover s' (history_of s' symbol)
     in (s', if 0 < kw_position_size kw
             then close_long s' sig (kw_current_price kw) (kw_position_size kw) (kw_position_price kw)
             else close_short s' sig (kw_current_price kw) (kw_position_size kw) (kw_position_price kw)))"
proof -
  have "kw_position_size kw \<noteq> 0" using assms(1) by auto
  then show ?thesis using assms by (auto simp: ma_calc_closes_def Let_def not_less)
qed

lemmas ma_order_defs = ma_calc_entries_def ma_calc_closes_def close_long_def close_short_def
  ma_order_def Let_def

subsection \<open>Properties of the strategy\<close>

text \<open>C8: whatever sequence of entry, close, market-data and status calls a strategy with a positive slow period receives, every per-symbol price history stays at most 2 * slow_period long.\<close>

theorem ma_run_history_bounded:
  assumes "0 < slow_period s" "history_bounded s"
  shows "history_bounded (fst (ma_run s es))"
  using assms
proof (induction es arbitrary: s)
  case Nil
  then show ?case by simp
next
  case (Cons e es)
  have "0 < slow_period (fst (ma_step s e))" using Cons.prems by simp
  moreover have "history_bounded (fst (ma_step s e))"
    using Cons.prems by (rule history_bounded_step)
  ultimately have "history_bounded (fst (ma_run (fst (ma_step s e)) es))" by (rule Cons.IH)
  then show ?case by (simp add: split_def Let_def)
qed

theorem ma_run_history_bounded_witness:
  "0 < slow_period (example_ma Map.empty) \<and> history_bounded (example_ma Map.empty) \<and>
   history_bounded (fst (ma_run (example_ma Map.empty) (price_feed ''BTC'' [100, 101, 102, 103, 104, 105, 106])))"
proof -
  have h: "history_bounded (example_ma Map.empty)" by (simp add: history_bounded_def)
  show ?thesis using h ma_run_history_bounded[OF _ h, of "price_feed ''BTC'' [100, 101, 102, 103, 104, 105, 106]"]
    by simp
qed

text \<open>With a positive position-size fraction, calc_entries emits for the long side only market buys of positive quantity and for the short side only market sells of negative quantity.\<close>

theorem ma_entries_side_safe:
  assumes "od \<in> set (snd (ma_calc_entries s pside symbol kw))" and "0 < position_size s"
  shows "(pside = ''long'' \<and> o_type od = ''market_buy'' \<and> 0 < o_qty od) \<or>
         (pside = ''short'' \<and> o_type od = ''market_sell'' \<and> o_qty od < 0)"
  using assms
  by (auto simp: ma_calc_entries_def Let_def ma_order_def split: if_splits)

text \<open>Calc_entries emits at most one order per call.\<close>

theorem ma_entries_at_most_one: "length (snd (ma_calc_entries s pside symbol kw)) \<le> 1"
  by (simp add: ma_calc_entries_def Let_def)

text \<open>With a non-positive current price or balance, calc_entries returns no order and leaves the strategy state, its price history included, unchanged.\<close>

theorem ma_entries_guard:
  assumes "kw_current_price kw \<le> 0 \<or> kw_balance kw \<le> 0"
  shows "ma_calc_entries s pside symbol kw = (s, [])"
  using assms by (auto simp: ma_calc_entries_def)

text \<open>Every order calc_closes emits closes the whole position: its quantity is the negated position size and its price the current price.\<close>

theorem ma_close_full_position:
  assumes "od \<in> set (snd (ma_calc_closes s pside symbol kw))"
  shows "o_qty od = - kw_position_size kw \<and> o_price od = kw_current_price kw"
  using assms
  by (auto simp: ma_calc_closes_def close_long_def close_short_def Let_def ma_order_def
      split: if_splits)

text \<open>For a long position, once the history holds slow_period prices, with no death cross and the price above the stop-loss level, a price at or above entry * (1 + take_profit_pct) yields exactly one market-sell take-profit order for the full size.\<close>

theorem ma_close_long_take_profit:
  assumes "1 / 10 ^ 8 \<le> kw_position_size kw" "0 < kw_current_price kw"
    and "slow_period s \<le> int (length (history_of (update_price_history s symbol (kw_current_price kw)) symbol))"
    and "detect_crossover (update_price_history s symbol (kw_current_price kw))
           (history_of (update_price_history s symbol (kw_current_price kw)) symbol) \<noteq> Death"
    and "kw_position_price kw * (1 - stop_loss_pct s) < kw_current_price kw"
    and "kw_position_price kw * (1 + take_profit_pct s) \<le> kw_current_price kw"
  shows "snd (ma_calc_closes s pside symbol kw) =
           [ma_order (- kw_position_size kw) (kw_current_price kw) ''market_sell'' ''take_profit'']"
proof -
  have pos: "0 < kw_position_size kw" "1 / 10 ^ 8 \<le> \<bar>kw_position_size kw\<bar>"
    using assms(1) by (auto simp: order.strict_trans2)
  show ?thesis using ma_calc_closes_warm[OF pos(2) assms(2,3)] pos(1) assms(4-6)
    by (simp add: close_long_def Let_def)
qed


text \<open>C6: for 0 < fast_period <= slow_period, the crossover signal the strategy computes from its bounded history after a price feed equals the signal computed on the whole feed.\<close>

theorem ma_feed_signal_refines:
  assumes "0 < fast_period s" "fast_period s \<le> slow_period s" "history_of s symbol = []"
  shows "detect_crossover (fst (ma_run s (price_feed symbol ps)))
           (history_of (fst (ma_run s (price_feed symbol ps))) symbol) = detect_crossover s ps"
proof -
  have "history_of s symbol = py_tail (slow_period s * 2) []" using assms(3) by (simp add: py_tail_def)
  then have "history_of (fold (\<lambda>p s. update_price_history s symbol p) ps s) symbol
      = py_tail (slow_period s * 2) ps"
    using assms(1,2) history_fold_refines[of s symbol "[]" ps] by simp
  moreover have "detect_crossover (fst (ma_run s (price_feed symbol ps))) = detect_crossover s"
    by (rule detect_crossover_params) simp_all
  ultimately show ?thesis using assms(1,2)
    by (simp add: ma_run_price_feed detect_crossover_bounded_history)
qed

theorem ma_feed_signal_refines_witness:
  "0 < fast_period \<lparr>fast_period = 2, slow_period = 3, position_size = 1/10, stop_loss_pct = 2/100,
        take_profit_pct = 4/100, price_history = Map.empty\<rparr> \<and>
   detect_crossover (fst (ma_run \<lparr>fast_period = 2, slow_period = 3, position_size = 1/10,
        stop_loss_pct = 2/100, take_profit_pct = 4/100, price_history = Map.empty\<rparr>
        (price_feed ''BTC'' [100, 100, 100, 100, 101])))
     (history_of (fst (ma_run \<lparr>fast_period = 2, slow_period = 3, position_size = 1/10,
        stop_loss_pct = 2/100, take_profit_pct = 4/100, price_history = Map.empty\<rparr>
        (price_feed ''BTC'' [100, 100, 100, 100, 101]))) ''BTC'')
   = detect_crossover \<lparr>fast_period = 2, slow_period = 3, position_size = 1/10, stop_loss_pct = 2/100,
        take_profit_pct = 4/100, price_history = Map.empty\<rparr> [100, 100, 100, 100, 101]"
  using ma_feed_signal_refines[of "\<lparr>fast_period = 2, slow_period = 3, position_size = 1/10,
        stop_loss_pct = 2/100, take_profit_pct = 4/100, price_history = Map.empty\<rparr>" "''BTC''"
        "[100, 100, 100, 100, 101]"]
  by (simp add: history_of_def)

text \<open>After the prices 100 (nine times) and 101 with fast 2 and slow 9, the status is active with fast MA 100.5, slow MA 901/9, a golden cross and 10 samples.\<close>

theorem ma_scenario_golden_status:
  "get_strategy_status
     (fst (ma_run \<lparr>fast_period = 2, slow_period = 9, position_size = 1/10, stop_loss_pct = 2/100,
        take_profit_pct = 4/100, price_history = Map.empty\<rparr> (price_feed ''BTC'' (replicate 9 100 @ [101]))))
     ''BTC'' = Active (Some (201 / 2)) (Some (901 / 9)) Golden 10"
  by (simp add: ma_run_price_feed numeral_eq_Suc update_price_history_def history_of_def
      get_strategy_status_def detect_crossover_def calculate_ma_def py_tail_def np_mean_def
      py_init_def Let_def)


text \<open>With slow_period 0 the cap 2 * slow_period does not apply: the history keeps every price fed.\<close>

theorem ma_zero_slow_unbounded:
  assumes "slow_period s = 0"
  shows "history_of (fst (ma_run s (price_feed symbol ps))) symbol = history_of s symbol @ ps"
  using assms
proof (induction ps arbitrary: s)
  case Nil
  then show ?case by (simp add: price_feed_def)
next
  case (Cons p ps)
  have "slow_period (update_price_history s symbol p) = 0" using Cons.prems by simp
  then have "history_of (fst (ma_run (update_price_history s symbol p) (price_feed symbol ps))) symbol
      = history_of (update_price_history s symbol p) symbol @ ps" by (rule Cons.IH)
  moreover have "history_of (update_price_history s symbol p) symbol = history_of s symbol @ [p]"
    using Cons.prems by (simp add: history_of_update py_tail_def)
  ultimately show ?case by (simp add: price_feed_def ma_on_market_data_update_def)
qed

text \<open>C34: while the history after the update holds fewer than slow_period prices, calc_closes emits nothing, even when the price is beyond the stop-loss level.\<close>

theorem ma_closes_warmup_silent:
  assumes "int (length (history_of s symbol)) + 1 < slow_period s"
  shows "snd (ma_calc_closes s pside symbol kw) = []"
proof -
  have "int (length (history_of (update_price_history s symbol p) symbol)) < slow_period s" for p
    using assms by (simp add: history_of_update Let_def)
  then show ?thesis by (simp add: ma_calc_closes_def Let_def)
qed

theorem ma_closes_warmup_silent_witness:
  "int (length (history_of \<lparr>fast_period = 10, slow_period = 20, position_size = 1/10,
       stop_loss_pct = 2/100, take_profit_pct = 4/100, price_history = Map.empty\<rparr> ''BTC'')) + 1 < 20 \<and>
   snd (ma_calc_closes \<lparr>fast_period = 10, slow_period = 20, position_size = 1/10,
       stop_loss_pct = 2/100, take_profit_pct = 4/100, price_history = Map.empty\<rparr> ''long'' ''BTC''
     \<lparr>kw_current_price = 50, kw_balance = 10000, kw_position_size = 1, kw_position_price = 100\<rparr>) = []"
  using ma_closes_warmup_silent[of "\<lparr>fast_period = 10, slow_period = 20, position_size = 1/10,
       stop_loss_pct = 2/100, take_profit_pct = 4/100, price_history = Map.empty\<rparr>" "''BTC''"
       "''long''" "\<lparr>kw_current_price = 50, kw_balance = 10000, kw_position_size = 1, kw_position_price = 100\<rparr>"]
  by (simp add: history_of_def)

text \<open>C33: calling calc_entries and then calc_closes for one price appends that price twice to the history.\<close>

theorem ma_entries_closes_double_append:
  assumes "0 < kw_current_price kw" "0 < kw_balance kw" "1 / 10 ^ 8 \<le> \<bar>kw_position_size kw\<bar>"
    and "int (length (history_of s symbol)) + 2 \<le> slow_period s * 2"
  shows "history_of (fst (ma_calc_closes (fst (ma_calc_entries s pside symbol kw)) pside symbol kw)) symbol
           = history_of s symbol @ [kw_current_price kw, kw_current_price kw]"
proof -
  have ne: "\<not> \<bar>kw_position_size kw\<bar> < 1 / 10 ^ 8" using assms(3) by simp
  have e: "fst (ma_calc_entries s pside symbol kw) = update_price_history s symbol (kw_current_price kw)"
    using assms(1,2) by (simp add: ma_calc_entries_def Let_def)
  have c: "fst (ma_calc_closes s' pside symbol kw) = update_price_history s' symbol (kw_current_price kw)" for s'
    using assms(1) ne by (simp add: ma_calc_closes_def Let_def)
  show ?thesis using assms(4) by (simp add: e c history_of_update Let_def)
qed


theorem ma_entries_side_safe_witness:
  "ma_order (1000 / 101) 101 ''market_buy'' ''golden_cross''
     \<in> set (snd (ma_calc_entries (example_ma [''BTC'' \<mapsto> [100, 100, 100]]) ''long'' ''BTC'' (example_kw 101 10000 0 0))) \<and>
   0 < position_size (example_ma [''BTC'' \<mapsto> [100, 100, 100]]) \<and>
   o_type (ma_order (1000 / 101) 101 ''market_buy'' ''golden_cross'') = ''market_buy'' \<and>
   0 < o_qty (ma_order (1000 / 101) 101 ''market_buy'' ''golden_cross'')"
proof -
  have mem: "ma_order (1000 / 101) 101 ''market_buy'' ''golden_cross''
     \<in> set (snd (ma_calc_entries (example_ma [''BTC'' \<mapsto> [100, 100, 100]]) ''long'' ''BTC'' (example_kw 101 10000 0 0)))"
    by (simp add: ma_calc_entries_def update_price_history_def history_of_def detect_crossover_def
        calculate_ma_def py_tail_def np_mean_def py_init_def Let_def)
  show ?thesis using mem ma_entries_side_safe[OF mem] by simp
qed

theorem ma_entries_guard_witness:
  "(kw_current_price (example_kw 0 10000 0 0) \<le> 0 \<or> kw_balance (example_kw 0 10000 0 0) \<le> 0) \<and>
   ma_calc_entries (example_ma Map.empty) ''long'' ''BTC'' (example_kw 0 10000 0 0) = (example_ma Map.empty, [])"
  using ma_entries_guard[of "example_kw 0 10000 0 0" "example_ma Map.empty" "''long''" "''BTC''"] by simp

theorem ma_close_full_position_witness:
  "ma_order (- 1) (209 / 2) ''market_sell'' ''take_profit''
     \<in> set (snd (ma_calc_closes (example_ma [''BTC'' \<mapsto> [100, 100]]) ''long'' ''BTC'' (example_kw (209 / 2) 10000 1 100))) \<and>
   o_qty (ma_order (- 1) (209 / 2) ''market_sell'' ''take_profit'') = - 1"
proof -
  have mem: "ma_order (- 1) (209 / 2) ''market_sell'' ''take_profit''
     \<in> set (snd (ma_calc_closes (example_ma [''BTC'' \<mapsto> [100, 100]]) ''long'' ''BTC'' (example_kw (209 / 2) 10000 1 100)))"
    by (simp add: ma_calc_closes_def close_long_def update_price_history_def history_of_def
        detect_crossover_def Let_def)
  show ?thesis using mem ma_close_full_position[OF mem] by simp
qed

theorem ma_close_long_take_profit_witness:
  "snd (ma_calc_closes (example_ma [''BTC'' \<mapsto> [100, 100]]) ''long'' ''BTC'' (example_kw (209 / 2) 10000 1 100))
     = [ma_order (- 1) (209 / 2) ''market_sell'' ''take_profit'']"
  using ma_close_long_take_profit[of "example_kw (209 / 2) 10000 1 100" "example_ma [''BTC'' \<mapsto> [100, 100]]" "''BTC''" "''long''"]
  by (simp add: update_price_history_def history_of_def detect_crossover_def Let_def)

theorem ma_zero_slow_unbounded_witness:
  "slow_period ((example_ma Map.empty)\<lparr>slow_period := 0\<rparr>) = 0 \<and>
   history_of (fst (ma_run ((example_ma Map.empty)\<lparr>slow_period := 0\<rparr>) (price_feed ''BTC'' [1, 2, 3, 4, 5]))) ''BTC''
     = [1, 2, 3, 4, 5]"
  using ma_zero_slow_unbounded[of "(example_ma Map.empty)\<lparr>slow_period := 0\<rparr>" "''BTC''" "[1, 2, 3, 4, 5]"]
  by (simp add: history_of_def)

theorem ma_entries_closes_double_append_witness:
  "0 < kw_current_price (example_kw 100 1000 1 100) \<and> 0 < kw_balance (example_kw 100 1000 1 100) \<and>
   1 / 10 ^ 8 \<le> \<bar>kw_position_size (example_kw 100 1000 1 100)\<bar> \<and>
   history_of (fst (ma_calc_closes (fst (ma_calc_entries (example_ma Map.empty) ''long'' ''BTC'' (example_kw 100 1000 1 100)))
      ''long'' ''BTC'' (example_kw 100 1000 1 100))) ''BTC'' = [100, 100]"
  using ma_entries_closes_double_append[of "example_kw 100 1000 1 100" "example_ma Map.empty" "''BTC''" "''long''"]
  by (simp add: history_of_def)

end
