(* ===== verification/Registry.thy ===== *)
theory Registry
  imports Default_Strategy MA_Crossover
begin

text \<open>
  \<open>StrategyManager\<close> of \<open>src/src/strategies/strategy_manager.py\<close>: a dict from names
  to strategy classes and the one active strategy instance. A Python dict keeps its keys
  in insertion order and an assignment to an existing key keeps its position: that is
  \<open>AList.update\<close>; \<open>del\<close> is \<open>AList.delete\<close>. A class is a record of the attributes
  the manager reads (\<open>__name__\<close>, \<open>__module__\<close>, \<open>__doc__\<close>, whether it is a subclass
  of \<open>BaseStrategy\<close>) and its constructor. The manager is generic in the type of
  instances; the two classes of the package are instantiated at the type \<open>strategy\<close>.
  Each method returns its result (an exception being \<open>Inl\<close>) and the manager after the
  call; a method that raises leaves the manager as the code leaves it.
\<close>

subsection \<open>Classes and the manager state\<close>

record 'i strategy_class =
  cls_name :: string
  cls_module :: string
  cls_doc :: "string option"
  cls_is_strategy :: bool
  cls_new :: "jval \<Rightarrow> py_error + 'i"

record 'i strategy_manager =
  strategies :: "(string \<times> 'i strategy_class) list"
  active_strategy :: "'i option"

text \<open>\<open>', '.join(keys)\<close>.\<close>

fun py_join :: "string \<Rightarrow> string list \<Rightarrow> string" where
  "py_join sep [] = []"
| "py_join sep [x] = x"
| "py_join sep (x # xs) = x @ sep @ py_join sep xs"

subsection \<open>The methods\<close>

text \<open>\<open>register_strategy\<close> (lines 31--43).\<close>

definition register_strategy ::
  "'i strategy_manager \<Rightarrow> string \<Rightarrow> 'i strategy_class \<Rightarrow> (py_error + unit) \<times> 'i strategy_manager" where
  "register_strategy m name c =
     (if \<not> cls_is_strategy c
      then (Inl (ValueError ''Strategy class must inherit from BaseStrategy''), m)
      else (Inr (), m\<lparr>strategies := AList.update name c (strategies m)\<rparr>))"

text \<open>\<open>unregister_strategy\<close> (lines 45--54): an unknown name is ignored.\<close>

definition unregister_strategy :: "'i strategy_manager \<Rightarrow> string \<Rightarrow> 'i strategy_manager" where
  "unregister_strategy m name =
     (if map_of (strategies m) name \<noteq> None
      then m\<lparr>strategies := AList.delete name (strategies m)\<rparr> else m)"

text \<open>\<open>list_strategies\<close> (lines 56--63).\<close>

definition list_strategies :: "'i strategy_manager \<Rightarrow> string list" where
  "list_strategies m = map fst (strategies m)"

text \<open>
  \<open>load_strategy\<close> (lines 65--87): an unknown name raises a value error naming the
  registered strategies; an exception of the constructor is re-raised before
  \<open>active_strategy\<close> is assigned.
\<close>

definition load_strategy ::
  "'i strategy_manager \<Rightarrow> string \<Rightarrow> jval \<Rightarrow> (py_error + 'i) \<times> 'i strategy_manager" where
  "load_strategy m name config =
     (case map_of (strategies m) name of
        None \<Rightarrow> (Inl (ValueError (''Strategy '' @ [CHR 0x27] @ name @ [CHR 0x27] @
                   '' not found. Available strategies: '' @ py_join '', '' (map fst (strategies m)))), m)
      | Some c \<Rightarrow>
          (case cls_new c config of
             Inl e \<Rightarrow> (Inl e, m)
           | Inr s \<Rightarrow> (Inr s, m\<lparr>active_strategy := Some s\<rparr>)))"

text \<open>\<open>get_active_strategy\<close> (lines 89--96).\<close>

definition get_active_strategy :: "'i strategy_manager \<Rightarrow> 'i option" where
  "get_active_strategy m = active_strategy m"

text \<open>\<open>reload_strategy\<close> (lines 98--110): a second \<open>load_strategy\<close>.\<close>

definition reload_strategy ::
  "'i strategy_manager \<Rightarrow> string \<Rightarrow> jval \<Rightarrow> (py_error + 'i) \<times> 'i strategy_manager" where
  "reload_strategy m name config = load_strategy m name config"

text \<open>\<open>get_strategy_info\<close> (lines 112--131): the info dict of a registered class.\<close>

definition get_strategy_info :: "'i strategy_manager \<Rightarrow> string \<Rightarrow> py_error + (string \<times> jval) list" where
  "get_strategy_info m name =
     (case map_of (strategies m) name of
        None \<Rightarrow> Inl (ValueError (''Strategy '' @ [CHR 0x27] @ name @ [CHR 0x27] @ '' not found''))
      | Some c \<Rightarrow> Inr [(''name'', JStr name), (''class'', JStr (cls_name c)), (''module'', JStr (cls_module c)),
                      (''doc'', case cls_doc c of None \<Rightarrow> JNull | Some d \<Rightarrow> JStr d)])"

subsection \<open>The package's strategy classes\<close>

text \<open>
  The instances the package's two classes construct. \<open>__module__\<close> is the name under which
  the scripts import the package (they put \<open>src\<close> on \<open>sys.path\<close> and import
  \<open>strategies\<close>); a docstring is the UTF-8 encoding of the source's text.
\<close>

datatype strategy = DefaultStrategyI default_strategy | MACrossoverI ma_strategy

definition default_strategy_class :: "strategy strategy_class" where
  "default_strategy_class =
     \<lparr>cls_name = ''DefaultStrategy'', cls_module = ''strategies.default_strategy'',
      cls_doc = Some (map char_of [233, 187, 152, 232, 174, 164, 231, 189, 145, 230, 160, 188, 43, 232,
                                   191, 189, 232, 184, 170, 231, 173, 150, 231, 149, 165 :: nat]),
      cls_is_strategy = True,
      cls_new = (\<lambda>config. sbind (default_strategy_init config) (\<lambda>s. Inr (DefaultStrategyI s)))\<rparr>"

definition ma_crossover_class :: "strategy strategy_class" where
  "ma_crossover_class =
     \<lparr>cls_name = ''MACrossoverStrategy'', cls_module = ''strategies.ma_crossover_strategy'',
      cls_doc = Some (map char_of [231, 167, 187, 229, 138, 168, 229, 185, 179, 229, 157, 135, 231, 186,
                                   191, 228, 186, 164, 229, 143, 137, 231, 173, 150, 231, 149, 165 :: nat]),
      cls_is_strategy = True,
      cls_new = (\<lambda>config. sbind (ma_init config) (\<lambda>s. Inr (MACrossoverI s)))\<rparr>"

text \<open>
  A user-defined subclass of \<open>BaseStrategy\<close> (\<open>base_strategy.py\<close>, lines 11 and
  30--66). \<open>BaseStrategy\<close> is an \<open>ABC\<close> whose \<open>calc_entries\<close> and
  \<open>calc_closes\<close> are \<open>@abstractmethod\<close>s: calling a subclass that does not override
  both raises \<open>TypeError\<close> before its \<open>__init__\<close> runs, naming the methods left
  abstract in alphabetical order (the message of Python 3.11). The flags say which of the
  two the subclass overrides; \<open>init\<close> is its constructor otherwise. \<open>issubclass\<close> holds
  for every subclass, complete or not.
\<close>

definition abstract_methods_left :: "bool \<Rightarrow> bool \<Rightarrow> string list" where
  "abstract_methods_left has_entries has_closes =
     (if has_closes then [] else [''calc_closes'']) @ (if has_entries then [] else [''calc_entries''])"

definition abc_new ::
  "string \<Rightarrow> bool \<Rightarrow> bool \<Rightarrow> (jval \<Rightarrow> py_error + 'i) \<Rightarrow> jval \<Rightarrow> py_error + 'i" where
  "abc_new name has_entries has_closes init config =
     (let missing = abstract_methods_left has_entries has_closes in
      if missing = [] then init config
      else Inl (TypeError (''Can'' @ [CHR 0x27] @ ''t instantiate abstract class '' @ name @
                           '' with abstract methods '' @ py_join '', '' missing)))"

definition subclass_strategy ::
  "string \<Rightarrow> string \<Rightarrow> bool \<Rightarrow> bool \<Rightarrow> (jval \<Rightarrow> py_error + 'i) \<Rightarrow> 'i strategy_class" where
  "subclass_strategy name modname has_entries has_closes init =
     \<lparr>cls_name = name, cls_module = modname, cls_doc = None, cls_is_strategy = True,
      cls_new = abc_new name has_entries has_closes init\<rparr>"

text \<open>
  \<open>__init__\<close> and \<open>_register_default_strategies\<close> (lines 14--29). Importing
  \<open>default_strategy\<close> imports the Rust extension \<open>passivbot_rust\<close>; when that is not
  installed the import error is caught and the manager starts empty. The flag says
  whether the import succeeds.
\<close>

definition strategy_manager_new :: "bool \<Rightarrow> strategy strategy_manager" where
  "strategy_manager_new rust_available =
     (if rust_available
      then snd (register_strategy \<lparr>strategies = [], active_strategy = None\<rparr> ''default'' default_strategy_class)
      else \<lparr>strategies = [], active_strategy = None\<rparr>)"

text \<open>
  The package \<open>src/src/strategies/__init__.py\<close> (lines 8--16) imports
  \<open>base_strategy\<close>, \<open>strategy_manager\<close> and \<open>default_strategy\<close>, whose
  \<open>import passivbot_rust\<close> (line 8) raises \<open>ImportError\<close> when the extension is
  missing. Python runs the package's \<open>__init__\<close> before any of its modules, so a manager
  can only be created through a successful import of the whole package.
\<close>

definition strategies_all :: "string list" where
  "strategies_all = [''BaseStrategy'', ''StrategyManager'', ''DefaultStrategy'']"

definition import_strategies :: "bool \<Rightarrow> py_error + string list" where
  "import_strategies rust_available =
     (if rust_available then Inr strategies_all
      else Inl (ImportError (''No module named '' @ [CHR 0x27] @ ''passivbot_rust'' @ [CHR 0x27])))"

definition new_manager_via_package :: "bool \<Rightarrow> py_error + strategy strategy_manager" where
  "new_manager_via_package rust_available =
     sbind (import_strategies rust_available) (\<lambda>_. Inr (strategy_manager_new rust_available))"

subsection \<open>Sequences of calls\<close>

text \<open>
  The calls that change the manager, run in sequence; an exception of one call is caught
  by the caller, who goes on with the manager as the call left it.
\<close>

datatype 'i sm_call =
    Register string "'i strategy_class"
  | Unregister string
  | Load string jval
  | Reload string jval

fun sm_step :: "'i strategy_manager \<Rightarrow> 'i sm_call \<Rightarrow> 'i strategy_manager" where
  "sm_step m (Register n c) = snd (register_strategy m n c)"
| "sm_step m (Unregister n) = unregister_strategy m n"
| "sm_step m (Load n config) = snd (load_strategy m n config)"
| "sm_step m (Reload n config) = snd (reload_strategy m n config)"

fun sm_run :: "'i strategy_manager \<Rightarrow> 'i sm_call list \<Rightarrow> 'i strategy_manager" where
  "sm_run m [] = m"
| "sm_run m (c # cs) = sm_run (sm_step m c) cs"

subsection \<open>Abstract registry\<close>

text \<open>
  The registry of the specification (section 4.2): a finite map from names to
  constructors. Registering a non-strategy class is refused; loading never changes it.
\<close>

fun abs_step ::
  "(string \<rightharpoonup> 'i strategy_class) \<Rightarrow> 'i sm_call \<Rightarrow> (string \<rightharpoonup> 'i strategy_class)" where
  "abs_step r (Register n c) = (if cls_is_strategy c then r(n \<mapsto> c) else r)"
| "abs_step r (Unregister n) = r(n := None)"
| "abs_step r (Load n config) = r"
| "abs_step r (Reload n config) = r"

definition abs_run ::
  "(string \<rightharpoonup> 'i strategy_class) \<Rightarrow> 'i sm_call list \<Rightarrow> (string \<rightharpoonup> 'i strategy_class)" where
  "abs_run r cs = fold (\<lambda>c r. abs_step r c) cs r"


text \<open>The configuration of \<open>test_strategy.py\<close>'s \<open>test_strategy_with_manager\<close>
  (lines 112--121): the parameters sit under \<open>strategy.params\<close>.\<close>

abbreviation test_manager_config :: jval where
  "test_manager_config \<equiv> JObj [(''strategy'', JObj [(''name'', JStr ''ma_crossover''),
     (''params'', JObj [(''fast_period'', JInt 5), (''slow_period'', JInt 10), (''position_size'', JFloat (1/10))])])]"

subsection \<open>Lemmas\<close>

lemma package_classes_are_strategies [simp]:
  "cls_is_strategy default_strategy_class" "cls_is_strategy ma_crossover_class"
  by (simp_all add: default_strategy_class_def ma_crossover_class_def)

lemma strategy_manager_new_True:
  "strategy_manager_new True = \<lparr>strategies = [(''default'', default_strategy_class)], active_strategy = None\<rparr>"
  by (simp add: strategy_manager_new_def register_strategy_def)

lemma sm_step_abs:
  "map_of (strategies (sm_step m c)) = abs_step (map_of (strategies m)) c"
proof (cases c)
  case (Unregister n)
  then show ?thesis
    by (auto simp: unregister_strategy_def delete_conv' fun_upd_idem)
qed (auto simp: register_strategy_def load_strategy_def reload_strategy_def update_conv'
          split: option.splits sum.splits)

lemma sm_step_keys:
  "distinct (list_strategies m) \<Longrightarrow> distinct (list_strategies (sm_step m c))"
  by (cases c) (auto simp: list_strategies_def register_strategy_def unregister_strategy_def
      load_strategy_def reload_strategy_def distinct_update distinct_delete split: option.splits sum.splits)

lemma load_strategy_cases:
  obtains (unknown) "map_of (strategies m) n = None" "snd (load_strategy m n config) = m"
  | (raises) c e where "map_of (strategies m) n = Some c" "cls_new c config = Inl e"
      "load_strategy m n config = (Inl e, m)"
  | (loads) c s where "map_of (strategies m) n = Some c" "cls_new c config = Inr s"
      "load_strategy m n config = (Inr s, m\<lparr>active_strategy := Some s\<rparr>)"
  by (cases "map_of (strategies m) n"; cases "cls_new (the (map_of (strategies m) n)) config")
     (auto simp: load_strategy_def)

text \<open>C2: the manager refines the abstract registry: after any sequence of calls, failing
  ones included, its dict, read as a map, is the abstract registry after the same calls.\<close>

theorem sm_run_refines:
  "map_of (strategies (sm_run m cs)) = abs_run (map_of (strategies m)) cs"
  by (induction cs arbitrary: m) (simp_all add: abs_run_def sm_step_abs)

text \<open>The registered names never repeat: \<open>list_strategies\<close> stays free of duplicates
  over any sequence of calls.\<close>

theorem sm_run_distinct_names:
  "distinct (list_strategies m) \<Longrightarrow> distinct (list_strategies (sm_run m cs))"
  by (induction cs arbitrary: m) (simp_all add: sm_step_keys)

text \<open>C9: a load that raises, for an unknown name or because the constructor raises,
  leaves the manager unchanged: registry and active strategy.\<close>

theorem load_strategy_failure_unchanged:
  assumes "fst (load_strategy m n config) = Inl e"
  shows "snd (load_strategy m n config) = m"
  using assms by (cases rule: load_strategy_cases[where m = m and n = n and config = config]) simp_all

text \<open>Loading a registered name whose constructor succeeds returns the new instance,
  makes it the active strategy (replacing any previous one) and leaves the registry as it
  was.\<close>

theorem load_strategy_success:
  assumes "map_of (strategies m) n = Some c" "cls_new c config = Inr s"
  shows "load_strategy m n config = (Inr s, m\<lparr>active_strategy := Some s\<rparr>) \<and>
         get_active_strategy (snd (load_strategy m n config)) = Some s \<and>
         list_strategies (snd (load_strategy m n config)) = list_strategies m"
  using assms by (simp add: load_strategy_def get_active_strategy_def list_strategies_def)

text \<open>Registering a strategy class keeps the insertion order of the names (a known name
  keeps its position, a new one is appended) and does not touch the active strategy.\<close>

theorem register_strategy_order:
  assumes "cls_is_strategy c"
  shows "list_strategies (snd (register_strategy m n c)) =
           (if n \<in> set (list_strategies m) then list_strategies m else list_strategies m @ [n]) \<and>
         active_strategy (snd (register_strategy m n c)) = active_strategy m"
  using assms by (simp add: register_strategy_def list_strategies_def update_keys)



text \<open>C10: A subclass that leaves calc_entries or calc_closes abstract passes
  register_strategy's issubclass check and is registered, but loading it raises the
  TypeError of the abstract-class check and leaves the manager as registration left it.\<close>

theorem incomplete_subclass_fails_at_load:
  assumes "\<not> (has_entries \<and> has_closes)"
  shows "register_strategy m name (subclass_strategy cname modname has_entries has_closes init) =
           (Inr (), m\<lparr>strategies := AList.update name (subclass_strategy cname modname has_entries has_closes init)
                                         (strategies m)\<rparr>) \<and>
         (\<exists>msg. load_strategy (snd (register_strategy m name (subclass_strategy cname modname has_entries has_closes init)))
                   name config =
                 (Inl (TypeError msg),
                  snd (register_strategy m name (subclass_strategy cname modname has_entries has_closes init))))"
  using assms
  by (auto simp: register_strategy_def load_strategy_def subclass_strategy_def abc_new_def
                 abstract_methods_left_def update_conv')

subsection \<open>Witnesses\<close>

theorem sm_run_distinct_names_witness:
  "distinct (list_strategies (strategy_manager_new True)) \<and>
   distinct (list_strategies (sm_run (strategy_manager_new True)
     [Register ''ma_crossover'' ma_crossover_class, Register ''default'' default_strategy_class,
      Unregister ''default'', Register ''default'' default_strategy_class]))"
  using sm_run_distinct_names[of "strategy_manager_new True"]
  by (simp add: strategy_manager_new_def list_strategies_def register_strategy_def unregister_strategy_def
      strategy_manager_new_True)

theorem load_strategy_failure_unchanged_witness:
  "fst (load_strategy (strategy_manager_new True) ''ma_crossover'' test_manager_config) =
     Inl (ValueError (''Strategy '' @ [CHR 0x27] @ ''ma_crossover'' @ [CHR 0x27] @
        '' not found. Available strategies: default'')) \<and>
   snd (load_strategy (strategy_manager_new True) ''ma_crossover'' test_manager_config) = strategy_manager_new True"
  using load_strategy_failure_unchanged[of "strategy_manager_new True" "''ma_crossover''" test_manager_config]
  by (simp add: strategy_manager_new_True load_strategy_def)

theorem load_strategy_success_witness:
  "map_of (strategies (strategy_manager_new True)) ''default'' = Some default_strategy_class \<and>
   cls_new default_strategy_class (JObj []) = Inr (DefaultStrategyI \<lparr>ds_config = JObj [], ds_strategy_params = JObj []\<rparr>) \<and>
   get_active_strategy (snd (load_strategy (strategy_manager_new True) ''default'' (JObj []))) =
     Some (DefaultStrategyI \<lparr>ds_config = JObj [], ds_strategy_params = JObj []\<rparr>)"
proof -
  have r: "map_of (strategies (strategy_manager_new True)) ''default'' = Some default_strategy_class"
    by (simp add: strategy_manager_new_True)
  have c: "cls_new default_strategy_class (JObj []) = Inr (DefaultStrategyI \<lparr>ds_config = JObj [], ds_strategy_params = JObj []\<rparr>)"
    by (simp add: default_strategy_class_def default_strategy_init_def base_strategy_params_def)
  show ?thesis using load_strategy_success[OF r c] r c by (simp add: get_active_strategy_def)
qed

theorem register_strategy_order_witness:
  "cls_is_strategy ma_crossover_class \<and>
   list_strategies (snd (register_strategy (strategy_manager_new True) ''ma_crossover'' ma_crossover_class)) =
     [''default'', ''ma_crossover''] \<and>
   active_strategy (snd (register_strategy (strategy_manager_new True) ''ma_crossover'' ma_crossover_class)) = None"
proof -
  have c: "cls_is_strategy ma_crossover_class" by (simp add: ma_crossover_class_def)
  show ?thesis using register_strategy_order[OF c, of "strategy_manager_new True" "''ma_crossover''"] c
    by (simp add: strategy_manager_new_True register_strategy_def list_strategies_def)
qed

theorem incomplete_subclass_fails_at_load_witness:
  "\<not> (True \<and> False) \<and>
   load_strategy (snd (register_strategy (strategy_manager_new True) ''grid_only''
       (subclass_strategy ''GridOnly'' ''strategies.grid_only'' True False
          (\<lambda>config. sbind (default_strategy_init config) (\<lambda>s. Inr (DefaultStrategyI s))))))
     ''grid_only'' test_manager_config =
   (Inl (TypeError (''Can'' @ [CHR 0x27] @ ''t instantiate abstract class GridOnly with abstract methods calc_closes'')),
    snd (register_strategy (strategy_manager_new True) ''grid_only''
       (subclass_strategy ''GridOnly'' ''strategies.grid_only'' True False
          (\<lambda>config. sbind (default_strategy_init config) (\<lambda>s. Inr (DefaultStrategyI s))))))"
  using incomplete_subclass_fails_at_load[of True False "strategy_manager_new True" "''grid_only''"
      "''GridOnly''" "''strategies.grid_only''" "\<lambda>config. sbind (default_strategy_init config) (\<lambda>s. Inr (DefaultStrategyI s))"
      test_manager_config]
  by (simp add: register_strategy_def load_strategy_def subclass_strategy_def abc_new_def
                abstract_methods_left_def strategy_manager_new_True)

end
