(* ===== verification/Grid_Backtest.thy ===== *)
theory Grid_Backtest
  imports Base_Strategy
begin

text \<open>
  The grid backtest of \<open>src/offline_backtest_demo.py\<close>,
  \<open>simple_grid_strategy_backtest\<close> (lines 73--189): the simulation engine of the spec.
  It reads five configuration values, lays \<open>n_positions\<close> long entry levels below the
  first close, and walks the closes in order. At each bar it first fills every level the
  price is at or below and that has no open position (ascending level index), then
  closes every open position whose markup target the price reached (oldest first), and
  removes the closed ones. At the end it marks the open positions to the last close.
  The state of the loop is the record \<open>bt_state\<close> (balance, trade log, open
  positions); each loop of the source is one recursive function over its list:
  \<open>fill_levels\<close> (lines 116--138), \<open>close_scan\<close> (lines 141--158), the
  removal loop (lines 161--162) as a fold of \<open>remove1\<close>, \<open>grid_step\<close> for one bar
  and \<open>grid_run\<close> for the series. Every exception the function can raise (a missing
  configuration key, an empty series, a zero close at a triggered level, a zero starting
  balance) is an \<open>Inl\<close> value.
\<close>

subsection \<open>Configuration\<close>

record grid_config =
  entry_spacing :: real
  close_markup :: real
  entry_qty_pct :: real
  max_positions :: int
  initial_balance :: real

text \<open>\<open>config[k1][k2]...\<close>: the first missing key raises \<open>KeyError\<close>.\<close>

fun dict_path :: "jval \<Rightarrow> string list \<Rightarrow> py_error + jval" where
  "dict_path v [] = Inr v"
| "dict_path v (k # ks) = sbind (dict_index v k) (\<lambda>w. dict_path w ks)"

text \<open>Lines 87--93, in the source's order of reads.\<close>

definition read_grid_config :: "jval \<Rightarrow> py_error + grid_config" where
  "read_grid_config config =
     sbind (sbind (dict_path config [''bot'', ''long'', ''entry_grid_spacing_pct''])
              (as_float ''entry_grid_spacing_pct'')) (\<lambda>spacing.
     sbind (sbind (dict_path config [''bot'', ''long'', ''close_grid_markup_start''])
              (as_float ''close_grid_markup_start'')) (\<lambda>markup.
     sbind (sbind (dict_path config [''bot'', ''long'', ''entry_initial_qty_pct''])
              (as_float ''entry_initial_qty_pct'')) (\<lambda>qty_pct.
     sbind (sbind (dict_path config [''bot'', ''long'', ''n_positions'']) py_int) (\<lambda>n.
     sbind (sbind (dict_path config [''backtest'', ''starting_balance''])
              (as_float ''starting_balance'')) (\<lambda>bal.
     Inr \<lparr>entry_spacing = spacing, close_markup = markup, entry_qty_pct = qty_pct,
          max_positions = n, initial_balance = bal\<rparr>)))))"

subsection \<open>Ledger\<close>

record grid_position =
  grid_index :: nat
  pos_entry_price :: real
  pos_qty :: real
  entry_time :: timestamp

datatype trade_type = Buy | Sell

record trade =
  tr_type :: trade_type
  tr_price :: real
  tr_qty :: real
  tr_timestamp :: timestamp
  tr_balance :: real
  tr_profit :: "real option"

record bt_state =
  balance :: real
  trades :: "trade list"
  positions :: "grid_position list"

text \<open>A bar of the series: its timestamp and its close.\<close>

type_synonym bar = "timestamp \<times> price"

subsection \<open>The loop\<close>

text \<open>Lines 105--107: level \<open>i\<close> is \<open>p0 * (1 - spacing * (i + 1))\<close>.\<close>

definition grid_prices :: "real \<Rightarrow> real \<Rightarrow> int \<Rightarrow> real list" where
  "grid_prices p0 spacing n = map (\<lambda>i. p0 * (1 - spacing * real (i + 1))) [0..<nat n]"

text \<open>Lines 116--138: the entry scan over \<open>enumerate(grid_prices)\<close>.\<close>

fun fill_levels ::
  "real \<Rightarrow> timestamp \<Rightarrow> real \<Rightarrow> (nat \<times> real) list \<Rightarrow> bt_state \<Rightarrow> py_error + bt_state" where
  "fill_levels qty_pct ts price [] st = Inr st"
| "fill_levels qty_pct ts price ((j, gp) # levels) st =
     (if price \<le> gp \<and> j \<notin> set (map grid_index (positions st)) then
        if price = 0 then Inl ZeroDivisionError
        else
          let qty = balance st * qty_pct / price;
              bal = balance st - qty * price;
              pos = \<lparr>grid_index = j, pos_entry_price = price, pos_qty = qty, entry_time = ts\<rparr>;
              tr = \<lparr>tr_type = Buy, tr_price = price, tr_qty = qty, tr_timestamp = ts,
                    tr_balance = bal, tr_profit = None\<rparr>
          in fill_levels qty_pct ts price levels
               (st\<lparr>balance := bal, trades := trades st @ [tr], positions := positions st @ [pos]\<rparr>)
      else fill_levels qty_pct ts price levels st)"

text \<open>Line 143: the close target of a position.\<close>

definition target_price :: "real \<Rightarrow> grid_position \<Rightarrow> real" where
  "target_price markup pos = pos_entry_price pos * (1 + markup)"

text \<open>Lines 141--158: the close scan over the open positions; it credits the balance,
  logs the sell and collects \<open>positions_to_close\<close>.\<close>

fun close_scan ::
  "real \<Rightarrow> timestamp \<Rightarrow> real \<Rightarrow> grid_position list \<Rightarrow> bt_state \<Rightarrow> grid_position list
     \<Rightarrow> bt_state \<times> grid_position list" where
  "close_scan markup ts price [] st to_close = (st, to_close)"
| "close_scan markup ts price (pos # ps) st to_close =
     (if target_price markup pos \<le> price then
        let bal = balance st + pos_qty pos * price;
            tr = \<lparr>tr_type = Sell, tr_price = price, tr_qty = pos_qty pos, tr_timestamp = ts,
                  tr_balance = bal, tr_profit = Some (pos_qty pos * (price - pos_entry_price pos))\<rparr>
        in close_scan markup ts price ps (st\<lparr>balance := bal, trades := trades st @ [tr]\<rparr>)
             (to_close @ [pos])
      else close_scan markup ts price ps st to_close)"

text \<open>Lines 161--162: \<open>positions.remove(pos)\<close> for each collected position.\<close>

definition remove_closed :: "grid_position list \<Rightarrow> grid_position list \<Rightarrow> grid_position list" where
  "remove_closed to_close ps = fold remove1 to_close ps"

text \<open>One iteration of the loop of line 112.\<close>

definition grid_step :: "grid_config \<Rightarrow> real list \<Rightarrow> bt_state \<Rightarrow> bar \<Rightarrow> py_error + bt_state" where
  "grid_step cfg levels st b =
     (let (ts, price) = b in
      sbind (fill_levels (entry_qty_pct cfg) ts price (enumerate 0 levels) st) (\<lambda>st1.
        let (st2, to_close) = close_scan (close_markup cfg) ts price (positions st1) st1 []
        in Inr (st2\<lparr>positions := remove_closed to_close (positions st2)\<rparr>)))"

fun grid_run :: "grid_config \<Rightarrow> real list \<Rightarrow> bt_state \<Rightarrow> bar list \<Rightarrow> py_error + bt_state" where
  "grid_run cfg levels st [] = Inr st"
| "grid_run cfg levels st (b # bs) = sbind (grid_step cfg levels st b) (\<lambda>st'. grid_run cfg levels st' bs)"

subsection \<open>The result\<close>

record bt_result =
  r_initial_balance :: real
  r_final_balance :: real
  r_total_return_pct :: real
  r_total_trades :: nat
  r_buy_trades :: nat
  r_sell_trades :: nat
  r_total_profit :: real
  r_remaining_positions :: nat
  r_trades :: "trade list"

text \<open>Line 175: the sum of the \<open>profit\<close> fields of the sell trades.\<close>

definition realized_profit :: "trade list \<Rightarrow> real" where
  "realized_profit ts =
     sum_list (map (\<lambda>t. case tr_profit t of None \<Rightarrow> 0 | Some x \<Rightarrow> x) (filter (\<lambda>t. tr_type t = Sell) ts))"

text \<open>Lines 164--167: the balance plus the open positions at the last close.\<close>

definition mark_to_market :: "bt_state \<Rightarrow> real \<Rightarrow> real" where
  "mark_to_market st last_price = balance st + sum_list (map (\<lambda>p. pos_qty p * last_price) (positions st))"

definition init_state :: "real \<Rightarrow> bt_state" where
  "init_state bal = \<lparr>balance = bal, trades = [], positions = []\<rparr>"

text \<open>Lines 164--189: the summary of a finished run; \<open>current_price\<close> is the
  close of the last bar.\<close>

definition backtest_summary :: "grid_config \<Rightarrow> bar list \<Rightarrow> bt_state \<Rightarrow> py_error + bt_result" where
  "backtest_summary cfg bars st =
     (let final_balance = mark_to_market st (snd (last bars))
      in if initial_balance cfg = 0 then Inl ZeroDivisionError
         else Inr \<lparr>r_initial_balance = initial_balance cfg,
           r_final_balance = final_balance,
           r_total_return_pct = (final_balance - initial_balance cfg) / initial_balance cfg * 100,
           r_total_trades = length (trades st),
           r_buy_trades = length (filter (\<lambda>t. tr_type t = Buy) (trades st)),
           r_sell_trades = length (filter (\<lambda>t. tr_type t = Sell) (trades st)),
           r_total_profit = realized_profit (trades st),
           r_remaining_positions = length (positions st),
           r_trades = trades st\<rparr>)"

text \<open>The whole function, lines 73--189: the configuration is read before the first
  close (\<open>iloc[0]\<close> raises \<open>IndexError\<close> on an empty series).\<close>

definition simple_grid_strategy_backtest :: "bar list \<Rightarrow> jval \<Rightarrow> py_error + bt_result" where
  "simple_grid_strategy_backtest bars config =
     sbind (read_grid_config config) (\<lambda>cfg.
       case bars of
         [] \<Rightarrow> Inl IndexError
       | (ts0, p0) # _ \<Rightarrow>
           sbind (grid_run cfg (grid_prices p0 (entry_spacing cfg) (max_positions cfg))
                    (init_state (initial_balance cfg)) bars)
             (backtest_summary cfg bars))"

subsection \<open>Invariants of the ledger\<close>

text \<open>The cost of the open positions at their entry prices, and their unrealised
  profit at a price \<open>p\<close>.\<close>

definition open_cost :: "grid_position list \<Rightarrow> real" where
  "open_cost ps = sum_list (map (\<lambda>q. pos_qty q * pos_entry_price q) ps)"

definition unrealized_pnl :: "grid_position list \<Rightarrow> real \<Rightarrow> real" where
  "unrealized_pnl ps p = sum_list (map (\<lambda>q. pos_qty q * (p - pos_entry_price q)) ps)"

text \<open>Cash plus the cost of what is open equals the starting balance plus the realised
  profit.\<close>

definition ledger_inv :: "real \<Rightarrow> bt_state \<Rightarrow> bool" where
  "ledger_inv b st \<longleftrightarrow> balance st + open_cost (positions st) = b + realized_profit (trades st)"

text \<open>At most one open position per level, and only levels that exist.\<close>

definition index_inv :: "nat \<Rightarrow> bt_state \<Rightarrow> bool" where
  "index_inv n st \<longleftrightarrow>
     distinct (map grid_index (positions st)) \<and> (\<forall>q \<in> set (positions st). grid_index q < n)"

text \<open>Every open position was bought once and not yet sold.\<close>

definition count_inv :: "bt_state \<Rightarrow> bool" where
  "count_inv st \<longleftrightarrow>
     length (filter (\<lambda>t. tr_type t = Buy) (trades st))
       = length (filter (\<lambda>t. tr_type t = Sell) (trades st)) + length (positions st)"

text \<open>No balance in the ledger is negative and no position is short.\<close>

definition solvent :: "bt_state \<Rightarrow> bool" where
  "solvent st \<longleftrightarrow> 0 \<le> balance st \<and> (\<forall>q \<in> set (positions st). 0 \<le> pos_qty q)
     \<and> (\<forall>t \<in> set (trades st). 0 \<le> tr_balance t)"

definition level_inv :: "real list \<Rightarrow> bt_state \<Rightarrow> bool" where
  "level_inv levels st \<longleftrightarrow>
     (\<forall>q \<in> set (positions st). grid_index q < length levels \<and> pos_entry_price q \<le> levels ! grid_index q)"

text \<open>The configuration of \<open>offline_backtest_demo.py\<close>'s fallback (lines 245--257)
  with five levels, and a series that dips through three levels and rebounds.\<close>

abbreviation example_grid_config :: jval where
  "example_grid_config \<equiv> JObj [(''backtest'', JObj [(''starting_balance'', JInt 10000)]),
     (''bot'', JObj [(''long'', JObj [(''entry_grid_spacing_pct'', JFloat (1/100)),
        (''close_grid_markup_start'', JFloat (5/1000)), (''entry_initial_qty_pct'', JFloat (1/10)),
        (''n_positions'', JInt 5)])])]"

abbreviation example_cfg :: grid_config where
  "example_cfg \<equiv> \<lparr>entry_spacing = 1/100, close_markup = 5/1000, entry_qty_pct = 1/10,
     max_positions = 5, initial_balance = 10000\<rparr>"

abbreviation example_bars :: "bar list" where
  "example_bars \<equiv> [(0, 50000), (60000, 49400), (120000, 48400), (180000, 48700)]"

subsection \<open>Lemmas of the entry scan\<close>

lemma fill_levels_skip:
  "\<not> (price \<le> gp \<and> j \<notin> set (map grid_index (positions st))) \<Longrightarrow>
   fill_levels q ts price ((j, gp) # lv) st = fill_levels q ts price lv st"
  by (rule trans[OF fill_levels.simps(2) if_not_P])

lemma fill_levels_ledger:
  "fill_levels q ts price lv st = Inr st' \<Longrightarrow> ledger_inv b st \<Longrightarrow> ledger_inv b st'"
proof (induction q ts price lv st rule: fill_levels.induct)
  case (2 q ts price j gp levels st)
  then show ?case
    by (auto simp: ledger_inv_def open_cost_def realized_profit_def Let_def split: if_splits)
qed simp

lemma fill_levels_count:
  "fill_levels q ts price lv st = Inr st' \<Longrightarrow> count_inv st \<Longrightarrow> count_inv st'"
proof (induction q ts price lv st rule: fill_levels.induct)
  case (2 q ts price j gp levels st)
  then show ?case by (auto simp: count_inv_def Let_def split: if_splits)
qed simp

lemma fill_levels_index:
  "fill_levels q ts price lv st = Inr st' \<Longrightarrow> index_inv n st \<Longrightarrow> \<forall>x \<in> set lv. fst x < n \<Longrightarrow>
   index_inv n st'"
proof (induction q ts price lv st rule: fill_levels.induct)
  case (2 q ts price j gp levels st)
  then show ?case by (auto simp: index_inv_def Let_def split: if_splits)
qed simp

lemma fill_levels_solvent:
  "fill_levels q ts price lv st = Inr st' \<Longrightarrow> 0 \<le> q \<Longrightarrow> q \<le> 1 \<Longrightarrow> 0 \<le> price \<Longrightarrow>
   solvent st \<Longrightarrow> solvent st'"
proof (induction q ts price lv st rule: fill_levels.induct)
  case (2 q ts price j gp levels st)
  show ?case
  proof (cases "price \<le> gp \<and> j \<notin> set (map grid_index (positions st))")
    case True
    let ?st = "st\<lparr>balance := balance st - balance st * q / price * price,
       trades := trades st @ [\<lparr>tr_type = Buy, tr_price = price, tr_qty = balance st * q / price,
         tr_timestamp = ts, tr_balance = balance st - balance st * q / price * price, tr_profit = None\<rparr>],
       positions := positions st @ [\<lparr>grid_index = j, pos_entry_price = price,
         pos_qty = balance st * q / price, entry_time = ts\<rparr>]\<rparr>"
    have ne: "price \<noteq> 0" and r: "fill_levels q ts price levels ?st = Inr st'"
      using "2.prems"(1) True by (auto simp: Let_def split: if_splits)
    have bal: "balance st - balance st * q / price * price = balance st * (1 - q)"
      using ne by (simp add: algebra_simps)
    have p: "0 < price" using ne "2.prems"(4) by simp
    have "0 \<le> balance st * (1 - q)" "0 \<le> balance st * q / price"
      using "2.prems" p by (auto simp: solvent_def)
    then have "solvent ?st"
      using "2.prems"(5) bal by (auto simp: solvent_def)
    then show ?thesis using "2.IH"(1)[OF True ne refl refl refl refl r] "2.prems"(2-4) by simp
  next
    case False
    then have "fill_levels q ts price levels st = Inr st'" using "2.prems"(1) fill_levels_skip[OF False] by simp
    then show ?thesis using False "2.IH"(2) "2.prems"(2-5) by blast
  qed
qed simp

lemma fill_levels_appends:
  "fill_levels q ts price lv st = Inr st' \<Longrightarrow> sorted_wrt (<) (map fst lv) \<Longrightarrow>
   \<exists>new. positions st' = positions st @ new \<and> sorted_wrt (<) (map grid_index new)
     \<and> set (map grid_index new) \<subseteq> set (map fst lv)"
proof (induction q ts price lv st rule: fill_levels.induct)
  case (2 q ts price j gp levels st)
  show ?case
  proof (cases "price \<le> gp \<and> j \<notin> set (map grid_index (positions st))")
    case True
    let ?st = "st\<lparr>balance := balance st - balance st * q / price * price,
       trades := trades st @ [\<lparr>tr_type = Buy, tr_price = price, tr_qty = balance st * q / price,
         tr_timestamp = ts, tr_balance = balance st - balance st * q / price * price, tr_profit = None\<rparr>],
       positions := positions st @ [\<lparr>grid_index = j, pos_entry_price = price,
         pos_qty = balance st * q / price, entry_time = ts\<rparr>]\<rparr>"
    have ne: "price \<noteq> 0" and r: "fill_levels q ts price levels ?st = Inr st'"
      using "2.prems"(1) True by (auto simp: Let_def split: if_splits)
    obtain new where "positions st' = positions ?st @ new" "sorted_wrt (<) (map grid_index new)"
        "set (map grid_index new) \<subseteq> set (map fst levels)"
      using "2.IH"(1)[OF True ne refl refl refl refl r] "2.prems"(2) by (auto simp: Let_def)
    moreover have "\<forall>x \<in> set new. j < grid_index x"
      using calculation(3) "2.prems"(2) by fastforce
    ultimately show ?thesis using "2.prems"(2)
      by (intro exI[of _ "\<lparr>grid_index = j, pos_entry_price = price, pos_qty = balance st * q / price,
          entry_time = ts\<rparr> # new"]) auto
  next
    case False
    then show ?thesis using "2.IH"(2) "2.prems" by fastforce
  qed
qed simp

subsection \<open>Lemmas of the close scan and of one bar\<close>

lemma close_scan_spec:
  "close_scan m ts price ps st acc = (st', acc') \<Longrightarrow>
   positions st' = positions st \<and>
   acc' = acc @ filter (\<lambda>p. target_price m p \<le> price) ps \<and>
   balance st' = balance st + sum_list (map (\<lambda>p. pos_qty p * price) (filter (\<lambda>p. target_price m p \<le> price) ps)) \<and>
   realized_profit (trades st') = realized_profit (trades st)
     + sum_list (map (\<lambda>p. pos_qty p * (price - pos_entry_price p)) (filter (\<lambda>p. target_price m p \<le> price) ps)) \<and>
   length (filter (\<lambda>t. tr_type t = Buy) (trades st')) = length (filter (\<lambda>t. tr_type t = Buy) (trades st)) \<and>
   length (filter (\<lambda>t. tr_type t = Sell) (trades st'))
     = length (filter (\<lambda>t. tr_type t = Sell) (trades st)) + length (filter (\<lambda>p. target_price m p \<le> price) ps)"
proof (induction m ts price ps st acc rule: close_scan.induct)
  case (2 m ts price pos ps st acc)
  then show ?case
    by (auto simp: Let_def realized_profit_def algebra_simps split: if_splits)
qed simp

lemma close_scan_solvent:
  "close_scan m ts price ps st acc = (st', acc') \<Longrightarrow> \<forall>p \<in> set ps. 0 \<le> pos_qty p \<Longrightarrow> 0 \<le> price \<Longrightarrow>
   solvent st \<Longrightarrow> solvent st'"
proof (induction m ts price ps st acc rule: close_scan.induct)
  case (2 m ts price pos ps st acc)
  then show ?case
    by (auto simp: Let_def solvent_def split: if_splits)
qed simp

lemma grid_step_cases:
  assumes "grid_step cfg levels st (ts, price) = Inr st'"
  obtains st1 st2 to_close where
    "fill_levels (entry_qty_pct cfg) ts price (enumerate 0 levels) st = Inr st1"
    "close_scan (close_markup cfg) ts price (positions st1) st1 [] = (st2, to_close)"
    "st' = st2\<lparr>positions := remove_closed to_close (positions st2)\<rparr>"
proof (cases "fill_levels (entry_qty_pct cfg) ts price (enumerate 0 levels) st")
  case (Inl e)
  then show ?thesis using assms by (simp add: grid_step_def)
next
  case (Inr st1)
  obtain st2 to_close where c: "close_scan (close_markup cfg) ts price (positions st1) st1 [] = (st2, to_close)"
    by (cases "close_scan (close_markup cfg) ts price (positions st1) st1 []")
  then have "st' = st2\<lparr>positions := remove_closed to_close (positions st2)\<rparr>"
    using assms Inr by (simp add: grid_step_def)
  with Inr c show ?thesis by (rule that)
qed

lemma distinct_positions: "distinct (map grid_index ps) \<Longrightarrow> distinct ps"
  by (simp add: distinct_map)

lemma grid_step_removes_closed:
  assumes "close_scan m ts price (positions st1) st1 [] = (st2, to_close)"
    and "distinct (map grid_index (positions st1))"
  shows "remove_closed to_close (positions st2) = filter (\<lambda>p. price < target_price m p) (positions st1)"
proof -
  have "positions st2 = positions st1" "to_close = filter (\<lambda>p. target_price m p \<le> price) (positions st1)"
    using close_scan_spec[OF assms(1)] by simp_all
  then show ?thesis using assms(2)
    by (simp add: remove_closed_def remove_simps distinct_positions not_le)
qed

lemma grid_step_ledger:
  assumes "grid_step cfg levels st (ts, price) = Inr st'" "ledger_inv b st"
  shows "ledger_inv b st'"
proof -
  obtain st1 st2 to_close where f: "fill_levels (entry_qty_pct cfg) ts price (enumerate 0 levels) st = Inr st1"
    and c: "close_scan (close_markup cfg) ts price (positions st1) st1 [] = (st2, to_close)"
    and e: "st' = st2\<lparr>positions := remove_closed to_close (positions st2)\<rparr>"
    using assms(1) by (rule grid_step_cases)
  let ?C = "filter (\<lambda>p. target_price (close_markup cfg) p \<le> price) (positions st1)"
  have l1: "ledger_inv b st1" using fill_levels_ledger[OF f assms(2)] .
  note cs = close_scan_spec[OF c]
  have "open_cost (positions st') = open_cost (positions st1) - open_cost ?C"
    using cs by (simp add: e remove_closed_def open_cost_def remove_simps)
  moreover have "sum_list (map (\<lambda>p. pos_qty p * (price - pos_entry_price p)) ?C)
      = sum_list (map (\<lambda>p. pos_qty p * price) ?C) - open_cost ?C"
    by (simp add: open_cost_def algebra_simps sum_list_subtractf)
  ultimately show ?thesis using l1 cs by (simp add: e ledger_inv_def)
qed

lemma grid_step_count:
  assumes "grid_step cfg levels st (ts, price) = Inr st'" "count_inv st"
  shows "count_inv st'"
proof -
  obtain st1 st2 to_close where f: "fill_levels (entry_qty_pct cfg) ts price (enumerate 0 levels) st = Inr st1"
    and c: "close_scan (close_markup cfg) ts price (positions st1) st1 [] = (st2, to_close)"
    and e: "st' = st2\<lparr>positions := remove_closed to_close (positions st2)\<rparr>"
    using assms(1) by (rule grid_step_cases)
  let ?C = "filter (\<lambda>p. target_price (close_markup cfg) p \<le> price) (positions st1)"
  have c1: "count_inv st1" using fill_levels_count[OF f assms(2)] .
  note cs = close_scan_spec[OF c]
  have "length (positions st') = length (positions st1) - length ?C"
    using cs by (simp add: e remove_closed_def remove_simps)
  moreover have "length ?C \<le> length (positions st1)" by simp
  ultimately show ?thesis using c1 cs by (simp add: e count_inv_def)
qed

lemma grid_step_index:
  assumes "grid_step cfg levels st (ts, price) = Inr st'" "index_inv (length levels) st"
  shows "index_inv (length levels) st'"
proof -
  obtain st1 st2 to_close where f: "fill_levels (entry_qty_pct cfg) ts price (enumerate 0 levels) st = Inr st1"
    and c: "close_scan (close_markup cfg) ts price (positions st1) st1 [] = (st2, to_close)"
    and e: "st' = st2\<lparr>positions := remove_closed to_close (positions st2)\<rparr>"
    using assms(1) by (rule grid_step_cases)
  have "\<forall>x \<in> set (enumerate 0 levels). fst x < length levels"
    by (auto simp: in_set_enumerate_eq)
  then have i1: "index_inv (length levels) st1" using fill_levels_index[OF f assms(2)] by blast
  then have "positions st' = filter (\<lambda>p. price < target_price (close_markup cfg) p) (positions st1)"
    using grid_step_removes_closed[OF c] by (simp add: e index_inv_def)
  then show ?thesis using i1 by (auto simp: index_inv_def distinct_map_filter)
qed

lemma grid_step_solvent:
  assumes "grid_step cfg levels st (ts, price) = Inr st'" "solvent st"
    and "0 \<le> entry_qty_pct cfg" "entry_qty_pct cfg \<le> 1" "0 \<le> price"
  shows "solvent st'"
proof -
  obtain st1 st2 to_close where f: "fill_levels (entry_qty_pct cfg) ts price (enumerate 0 levels) st = Inr st1"
    and c: "close_scan (close_markup cfg) ts price (positions st1) st1 [] = (st2, to_close)"
    and e: "st' = st2\<lparr>positions := remove_closed to_close (positions st2)\<rparr>"
    using assms(1) by (rule grid_step_cases)
  have s1: "solvent st1" using fill_levels_solvent[OF f assms(3,4,5,2)] .
  then have s2: "solvent st2" using close_scan_solvent[OF c _ assms(5)] by (simp add: solvent_def)
  have "set (remove_closed to_close (positions st2)) \<subseteq> set (positions st2)"
    by (simp add: remove_closed_def remove_simps)
  then show ?thesis using s2 by (auto simp: e solvent_def)
qed

subsection \<open>Lemmas of the run and of the result\<close>

lemma grid_run_preserves:
  assumes step: "\<And>st st' b. b \<in> set bars \<Longrightarrow> grid_step cfg levels st b = Inr st' \<Longrightarrow> I st \<Longrightarrow> I st'"
    and run: "grid_run cfg levels st bars = Inr st'" and start: "I st"
  shows "I st'"
  using run start step
proof (induction bars arbitrary: st)
  case Nil
  then show ?case by simp
next
  case (Cons b bars)
  from Cons.prems(1) obtain st1 where s1: "grid_step cfg levels st b = Inr st1"
    and r1: "grid_run cfg levels st1 bars = Inr st'"
    by (auto simp: sbind_eq_Inr)
  have "I st1" using Cons.prems(3)[OF _ s1 Cons.prems(2)] by simp
  moreover have "I s'" if "c \<in> set bars" "grid_step cfg levels s c = Inr s'" "I s" for c s s'
    using Cons.prems(3)[of c s s'] that by simp
  ultimately show ?case using Cons.IH[OF r1] by blast
qed

lemma init_state_invs:
  "ledger_inv b (init_state b)" "index_inv n (init_state b)" "count_inv (init_state b)"
  "0 \<le> b \<Longrightarrow> solvent (init_state b)"
  by (simp_all add: init_state_def ledger_inv_def index_inv_def count_inv_def solvent_def
      open_cost_def realized_profit_def)

lemma grid_run_ledger:
  "grid_run cfg levels (init_state b) bars = Inr st \<Longrightarrow> ledger_inv b st"
  by (rule grid_run_preserves[where I = "ledger_inv b"])
     (auto intro: grid_step_ledger simp: init_state_invs)

lemma grid_run_count:
  "grid_run cfg levels (init_state b) bars = Inr st \<Longrightarrow> count_inv st"
  by (rule grid_run_preserves[where I = count_inv]) (auto intro: grid_step_count simp: init_state_invs)

lemma grid_run_index:
  "grid_run cfg levels (init_state b) bars = Inr st \<Longrightarrow> index_inv (length levels) st"
  by (rule grid_run_preserves[where I = "index_inv (length levels)"])
     (auto intro: grid_step_index simp: init_state_invs)

lemma grid_run_solvent:
  assumes "grid_run cfg levels (init_state b) bars = Inr st" "0 \<le> b"
    and "0 \<le> entry_qty_pct cfg" "entry_qty_pct cfg \<le> 1" "\<forall>x \<in> set bars. 0 \<le> snd x"
  shows "solvent st"
proof (rule grid_run_preserves[where I = solvent, OF _ assms(1)])
  fix st st' x
  assume "x \<in> set bars" "grid_step cfg levels st x = Inr st'" "solvent st"
  moreover obtain ts p where "x = (ts, p)" by (cases x)
  ultimately show "solvent st'" using assms(3-5) grid_step_solvent[of cfg levels st ts p st'] by auto
qed (simp add: init_state_invs assms(2))

lemma backtest_cases:
  assumes "simple_grid_strategy_backtest bars config = Inr r"
  obtains cfg ts0 p0 rest st where "read_grid_config config = Inr cfg" "bars = (ts0, p0) # rest"
    "grid_run cfg (grid_prices p0 (entry_spacing cfg) (max_positions cfg)) (init_state (initial_balance cfg)) bars = Inr st"
    "backtest_summary cfg bars st = Inr r"
proof -
  obtain cfg where c: "read_grid_config config = Inr cfg"
    and r: "(case bars of [] \<Rightarrow> Inl IndexError
       | (ts0, p0) # _ \<Rightarrow> sbind (grid_run cfg (grid_prices p0 (entry_spacing cfg) (max_positions cfg))
                    (init_state (initial_balance cfg)) bars) (backtest_summary cfg bars)) = Inr r"
    using assms by (auto simp: simple_grid_strategy_backtest_def sbind_eq_Inr)
  obtain ts0 p0 rest where b: "bars = (ts0, p0) # rest"
    using r by (cases bars) auto
  with r obtain st where "grid_run cfg (grid_prices p0 (entry_spacing cfg) (max_positions cfg))
      (init_state (initial_balance cfg)) bars = Inr st" "backtest_summary cfg bars st = Inr r"
    by (auto simp: sbind_eq_Inr simp del: grid_run.simps)
  with c b show thesis by (rule that)
qed

lemma backtest_summary_fields:
  assumes "backtest_summary cfg bars st = Inr r"
  shows "r_initial_balance r = initial_balance cfg"
    "r_final_balance r = mark_to_market st (snd (last bars))"
    "r_buy_trades r = length (filter (\<lambda>t. tr_type t = Buy) (trades st))"
    "r_sell_trades r = length (filter (\<lambda>t. tr_type t = Sell) (trades st))"
    "r_total_trades r = length (trades st)" "r_total_profit r = realized_profit (trades st)"
    "r_remaining_positions r = length (positions st)" "r_trades r = trades st"
  using assms by (auto simp: backtest_summary_def Let_def split: if_splits)

lemma length_trades_split:
  "length ts = length (filter (\<lambda>t. tr_type t = Buy) ts) + length (filter (\<lambda>t. tr_type t = Sell) ts)"
proof (induction ts)
  case (Cons t ts)
  then show ?case by (cases "tr_type t") auto
qed simp

lemma fill_levels_level:
  "fill_levels q ts price lv st = Inr st' \<Longrightarrow> level_inv levels st \<Longrightarrow>
   \<forall>x \<in> set lv. fst x < length levels \<and> snd x = levels ! fst x \<Longrightarrow> level_inv levels st'"
proof (induction q ts price lv st rule: fill_levels.induct)
  case (2 q ts price j gp levels' st)
  then show ?case by (auto simp: level_inv_def Let_def split: if_splits)
qed simp

lemma grid_step_level:
  assumes "grid_step cfg levels st (ts, price) = Inr st'" "level_inv levels st"
  shows "level_inv levels st'"
proof -
  obtain st1 st2 to_close where f: "fill_levels (entry_qty_pct cfg) ts price (enumerate 0 levels) st = Inr st1"
    and c: "close_scan (close_markup cfg) ts price (positions st1) st1 [] = (st2, to_close)"
    and e: "st' = st2\<lparr>positions := remove_closed to_close (positions st2)\<rparr>"
    using assms(1) by (rule grid_step_cases)
  have "\<forall>x \<in> set (enumerate 0 levels). fst x < length levels \<and> snd x = levels ! fst x"
    by (auto simp: in_set_enumerate_eq)
  then have "level_inv levels st1" using fill_levels_level[OF f assms(2)] by blast
  moreover have "set (positions st') \<subseteq> set (positions st1)"
    using close_scan_spec[OF c] by (simp add: e remove_closed_def remove_simps)
  ultimately show ?thesis by (auto simp: level_inv_def)
qed

lemma init_state_level: "level_inv levels (init_state b)"
  by (simp add: init_state_def level_inv_def)

lemma grid_run_level:
  "grid_run cfg levels (init_state b) bars = Inr st \<Longrightarrow> level_inv levels st"
  by (rule grid_run_preserves[where I = "level_inv levels"])
     (auto intro: grid_step_level simp: init_state_level)

lemma length_grid_prices [simp]: "length (grid_prices p0 s n) = nat n"
  by (simp add: grid_prices_def)

lemmas grid_eval = simple_grid_strategy_backtest_def read_grid_config_def grid_prices_def upt_rec
  grid_step_def Let_def init_state_def remove_closed_def backtest_summary_def mark_to_market_def
  realized_profit_def target_price_def

subsection \<open>Properties of the backtest\<close>

text \<open>C1: after any run of the grid loop from a starting balance b, the mark-to-market value at any price p (the balance plus every open quantity times p) equals b plus the realised profit of the sell trades plus the unrealised profit of the open positions at p.\<close>

theorem grid_run_accounting:
  assumes "grid_run cfg levels (init_state b) bars = Inr st"
  shows "mark_to_market st p = b + realized_profit (trades st) + unrealized_pnl (positions st) p"
proof -
  have "ledger_inv b st" using assms by (rule grid_run_ledger)
  then show ?thesis
    by (simp add: ledger_inv_def mark_to_market_def unrealized_pnl_def open_cost_def
        algebra_simps sum_list_subtractf)
qed

text \<open>C4: in every result of the backtest the number of buy trades is the number of sell trades plus the number of positions still open, and the total is buys plus sells.\<close>

theorem backtest_trade_counts:
  assumes "simple_grid_strategy_backtest bars config = Inr r"
  shows "r_buy_trades r = r_sell_trades r + r_remaining_positions r \<and>
         r_total_trades r = r_buy_trades r + r_sell_trades r"
proof -
  obtain cfg ts0 p0 rest st where run: "grid_run cfg (grid_prices p0 (entry_spacing cfg) (max_positions cfg))
      (init_state (initial_balance cfg)) bars = Inr st"
    and sm: "backtest_summary cfg bars st = Inr r"
    using assms by (rule backtest_cases)
  have "count_inv st" using run by (rule grid_run_count)
  then show ?thesis using backtest_summary_fields[OF sm] length_trades_split[of "trades st"]
    by (simp add: count_inv_def)
qed

text \<open>C3: after any run of the grid loop, no two open positions share a grid level, every open position belongs to an existing level, and it was filled at or below that level.\<close>

theorem grid_run_positions_at_levels:
  assumes "grid_run cfg levels (init_state b) bars = Inr st"
  shows "distinct (map grid_index (positions st)) \<and>
    (\<forall>q \<in> set (positions st). grid_index q < length levels \<and> pos_entry_price q \<le> levels ! grid_index q)"
  using grid_run_index[OF assms] grid_run_level[OF assms] by (simp add: index_inv_def level_inv_def)

text \<open>The backtest never reports more remaining positions than n_positions.\<close>

theorem backtest_positions_bounded:
  assumes "read_grid_config config = Inr cfg" "simple_grid_strategy_backtest bars config = Inr r"
  shows "r_remaining_positions r \<le> nat (max_positions cfg)"
proof -
  obtain cfg' ts0 p0 rest st where c: "read_grid_config config = Inr cfg'"
    and run: "grid_run cfg' (grid_prices p0 (entry_spacing cfg') (max_positions cfg'))
      (init_state (initial_balance cfg')) bars = Inr st"
    and sm: "backtest_summary cfg' bars st = Inr r"
    using assms(2) by (rule backtest_cases)
  have cfg: "cfg' = cfg" using c assms(1) by simp
  have i: "index_inv (nat (max_positions cfg)) st" using grid_run_index[OF run] cfg by simp
  then have "set (map grid_index (positions st)) \<subseteq> {..<nat (max_positions cfg)}"
    by (auto simp: index_inv_def)
  then have "card (set (map grid_index (positions st))) \<le> nat (max_positions cfg)"
    by (metis card_lessThan card_mono finite_lessThan)
  moreover have "card (set (map grid_index (positions st))) = length (positions st)"
    using i by (metis distinct_card index_inv_def length_map)
  ultimately show ?thesis using backtest_summary_fields(7)[OF sm] by simp
qed

text \<open>C15: with an entry fraction between 0 and 1, a non-negative starting balance and non-negative closes, no balance recorded in the trade log and no final balance is negative.\<close>

theorem backtest_solvent:
  assumes "read_grid_config config = Inr cfg"
    and "0 \<le> entry_qty_pct cfg" "entry_qty_pct cfg \<le> 1" "0 \<le> initial_balance cfg"
    and "\<forall>x \<in> set bars. 0 \<le> snd x"
    and "simple_grid_strategy_backtest bars config = Inr r"
  shows "(\<forall>t \<in> set (r_trades r). 0 \<le> tr_balance t) \<and> 0 \<le> r_final_balance r"
proof -
  obtain cfg' ts0 p0 rest st where c: "read_grid_config config = Inr cfg'" and b: "bars = (ts0, p0) # rest"
    and run: "grid_run cfg' (grid_prices p0 (entry_spacing cfg') (max_positions cfg'))
      (init_state (initial_balance cfg')) bars = Inr st"
    and sm: "backtest_summary cfg' bars st = Inr r"
    using assms(6) by (rule backtest_cases)
  have cfg: "cfg' = cfg" using c assms(1) by simp
  have s: "solvent st" using grid_run_solvent[OF run] assms(2-5) cfg by simp
  have "0 \<le> snd (last bars)" using assms(5) b by simp
  then have "0 \<le> sum_list (map (\<lambda>q. pos_qty q * snd (last bars)) (positions st))"
    using s by (auto simp: solvent_def intro!: sum_list_nonneg)
  then show ?thesis using s backtest_summary_fields(2,8)[OF sm]
    by (simp add: solvent_def mark_to_market_def)
qed

text \<open>C5: one bar of the loop keeps exactly the positions (after the entry scan) whose target is above the close, and logs one sell per position whose target the close reached: the source's collect-then-remove loop equals a filter.\<close>

theorem grid_step_closes_reached:
  assumes "index_inv (length levels) st" "grid_step cfg levels st (ts, price) = Inr st'"
  shows "\<exists>st1. fill_levels (entry_qty_pct cfg) ts price (enumerate 0 levels) st = Inr st1 \<and>
    positions st' = filter (\<lambda>q. price < target_price (close_markup cfg) q) (positions st1) \<and>
    length (filter (\<lambda>t. tr_type t = Sell) (trades st')) = length (filter (\<lambda>t. tr_type t = Sell) (trades st1))
      + length (filter (\<lambda>q. target_price (close_markup cfg) q \<le> price) (positions st1))"
proof -
  obtain st1 st2 to_close where f: "fill_levels (entry_qty_pct cfg) ts price (enumerate 0 levels) st = Inr st1"
    and c: "close_scan (close_markup cfg) ts price (positions st1) st1 [] = (st2, to_close)"
    and e: "st' = st2\<lparr>positions := remove_closed to_close (positions st2)\<rparr>"
    using assms(2) by (rule grid_step_cases)
  have "\<forall>x \<in> set (enumerate 0 levels). fst x < length levels"
    by (auto simp: in_set_enumerate_eq)
  then have "index_inv (length levels) st1" using fill_levels_index[OF f assms(1)] by blast
  then show ?thesis using f grid_step_removes_closed[OF c] close_scan_spec[OF c]
    by (simp add: e index_inv_def)
qed

text \<open>The entry scan of one bar only appends positions, in strictly ascending level order, with levels of the scanned range.\<close>

theorem fill_levels_ascending:
  assumes "fill_levels q ts price (enumerate k levels) st = Inr st'"
  shows "\<exists>new. positions st' = positions st @ new \<and> sorted_wrt (<) (map grid_index new) \<and>
    (\<forall>j \<in> set (map grid_index new). k \<le> j \<and> j < k + length levels)"
proof -
  have "map fst (enumerate k levels) = [k..<k + length levels]"
    by (simp add: map_fst_enumerate)
  then have "sorted_wrt (<) (map fst (enumerate k levels))" by simp
  then obtain new where "positions st' = positions st @ new" "sorted_wrt (<) (map grid_index new)"
    "set (map grid_index new) \<subseteq> set (map fst (enumerate k levels))"
    using fill_levels_appends[OF assms] by blast
  moreover have "set (map fst (enumerate k levels)) = {k..<k + length levels}"
    by (simp add: map_fst_enumerate)
  ultimately show ?thesis by auto
qed

text \<open>C38: Consecutive grid levels differ by the same amount first_close * spacing: the levels are arithmetically, not geometrically, spaced.\<close>

theorem grid_levels_equally_spaced:
  assumes "Suc i < nat n"
  shows "grid_prices p0 s n ! i - grid_prices p0 s n ! Suc i = p0 * s"
  using assms by (simp add: grid_prices_def algebra_simps)

text \<open>On an empty price series with a readable configuration the backtest raises IndexError.\<close>

theorem backtest_empty_series:
  assumes "read_grid_config config = Inr cfg"
  shows "simple_grid_strategy_backtest [] config = Inl IndexError"
  using assms by (simp add: simple_grid_strategy_backtest_def)


theorem grid_run_accounting_witness:
  "case grid_run example_cfg (grid_prices 50000 (1/100) 5) (init_state 10000) example_bars of
     Inl _ \<Rightarrow> False
   | Inr st \<Rightarrow> mark_to_market st 48700 = 10000 + realized_profit (trades st) + unrealized_pnl (positions st) 48700"
  by (rule case_sum_InrI[OF grid_run_accounting[where cfg = example_cfg and
      levels = "grid_prices 50000 (1/100) 5" and b = 10000 and bars = example_bars]]) (simp_all add: grid_eval)

theorem backtest_trade_counts_witness:
  "case simple_grid_strategy_backtest example_bars example_grid_config of
     Inl _ \<Rightarrow> False
   | Inr r \<Rightarrow> r_buy_trades r = r_sell_trades r + r_remaining_positions r \<and>
              r_total_trades r = r_buy_trades r + r_sell_trades r"
  by (rule case_sum_InrI[OF backtest_trade_counts[where bars = example_bars and
      config = example_grid_config]]) (simp_all add: grid_eval)

text \<open>On the demo configuration (spacing 1%, markup 0.5%, 10% per entry, five levels) the closes 50000, 49400, 48400, 48700 give three buys (levels 0, 1, 2), two sells at 48700 and one open position.\<close>

theorem backtest_dip_scenario:
  "case simple_grid_strategy_backtest example_bars example_grid_config of
     Inl _ \<Rightarrow> False
   | Inr r \<Rightarrow> r_buy_trades r = 3 \<and> r_sell_trades r = 2 \<and> r_remaining_positions r = 1 \<and>
       map tr_price (r_trades r) = [49400, 48400, 48400, 48700, 48700]"
  by (simp add: grid_eval)

theorem grid_run_positions_at_levels_witness:
  "case grid_run example_cfg (grid_prices 50000 (1/100) 5) (init_state 10000) example_bars of
     Inl _ \<Rightarrow> False
   | Inr st \<Rightarrow> distinct (map grid_index (positions st)) \<and>
       (\<forall>q \<in> set (positions st). grid_index q < length (grid_prices 50000 (1/100) 5) \<and>
          pos_entry_price q \<le> grid_prices 50000 (1/100) 5 ! grid_index q)"
  by (rule case_sum_InrI[OF grid_run_positions_at_levels[where cfg = example_cfg and
      levels = "grid_prices 50000 (1/100) 5" and b = 10000 and bars = example_bars]]) (simp_all add: grid_eval)

theorem backtest_positions_bounded_witness:
  "read_grid_config example_grid_config = Inr example_cfg \<and>
   (case simple_grid_strategy_backtest example_bars example_grid_config of
      Inl _ \<Rightarrow> False
    | Inr r \<Rightarrow> r_remaining_positions r \<le> nat (max_positions example_cfg))"
proof
  show c: "read_grid_config example_grid_config = Inr example_cfg" by (simp add: grid_eval)
  show "case simple_grid_strategy_backtest example_bars example_grid_config of
      Inl _ \<Rightarrow> False | Inr r \<Rightarrow> r_remaining_positions r \<le> nat (max_positions example_cfg)"
    by (rule case_sum_InrI[OF backtest_positions_bounded[OF c, where bars = example_bars]])
       (simp_all add: grid_eval)
qed

theorem backtest_solvent_witness:
  "read_grid_config example_grid_config = Inr example_cfg \<and> 0 \<le> entry_qty_pct example_cfg \<and>
   entry_qty_pct example_cfg \<le> 1 \<and> 0 \<le> initial_balance example_cfg \<and> list_all (\<lambda>x. 0 \<le> snd x) example_bars \<and>
   (case simple_grid_strategy_backtest example_bars example_grid_config of
      Inl _ \<Rightarrow> False
    | Inr r \<Rightarrow> (\<forall>t \<in> set (r_trades r). 0 \<le> tr_balance t) \<and> 0 \<le> r_final_balance r)"
proof -
  have c: "read_grid_config example_grid_config = Inr example_cfg" by (simp add: grid_eval)
  have "case simple_grid_strategy_backtest example_bars example_grid_config of
      Inl _ \<Rightarrow> False | Inr r \<Rightarrow> (\<forall>t \<in> set (r_trades r). 0 \<le> tr_balance t) \<and> 0 \<le> r_final_balance r"
    by (rule case_sum_InrI[OF backtest_solvent[OF c, where bars = example_bars]]) (simp_all add: grid_eval)
  then show ?thesis using c by simp
qed

theorem grid_step_closes_reached_witness:
  "index_inv (length (grid_prices 50000 (1/100) 5)) (init_state 10000) \<and>
   (case grid_step example_cfg (grid_prices 50000 (1/100) 5) (init_state 10000) (0, 48700) of
      Inl _ \<Rightarrow> False
    | Inr st' \<Rightarrow> \<exists>st1. fill_levels (entry_qty_pct example_cfg) 0 48700
          (enumerate 0 (grid_prices 50000 (1/100) 5)) (init_state 10000) = Inr st1 \<and>
        positions st' = filter (\<lambda>q. 48700 < target_price (close_markup example_cfg) q) (positions st1) \<and>
        length (filter (\<lambda>t. tr_type t = Sell) (trades st')) = length (filter (\<lambda>t. tr_type t = Sell) (trades st1))
          + length (filter (\<lambda>q. target_price (close_markup example_cfg) q \<le> 48700) (positions st1)))"
proof
  show i: "index_inv (length (grid_prices 50000 (1/100) 5)) (init_state 10000)"
    by (simp add: index_inv_def init_state_def)
  show "case grid_step example_cfg (grid_prices 50000 (1/100) 5) (init_state 10000) (0, 48700) of
      Inl _ \<Rightarrow> False
    | Inr st' \<Rightarrow> \<exists>st1. fill_levels (entry_qty_pct example_cfg) 0 48700
          (enumerate 0 (grid_prices 50000 (1/100) 5)) (init_state 10000) = Inr st1 \<and>
        positions st' = filter (\<lambda>q. 48700 < target_price (close_markup example_cfg) q) (positions st1) \<and>
        length (filter (\<lambda>t. tr_type t = Sell) (trades st')) = length (filter (\<lambda>t. tr_type t = Sell) (trades st1))
          + length (filter (\<lambda>q. target_price (close_markup example_cfg) q \<le> 48700) (positions st1))"
    by (rule case_sum_InrI[OF grid_step_closes_reached[OF i]]) (simp_all add: grid_eval)
qed

theorem grid_levels_equally_spaced_witness:
  "Suc 0 < nat 3 \<and> grid_prices 50000 (1/100) 3 = [49500, 49000, 48500] \<and>
   grid_prices 50000 (1/100) 3 ! 0 - grid_prices 50000 (1/100) 3 ! Suc 0 = 50000 * (1/100)"
  using grid_levels_equally_spaced[of 0 3 50000 "1/100"] by (simp add: grid_prices_def upt_rec)

theorem backtest_empty_series_witness:
  "read_grid_config example_grid_config = Inr example_cfg \<and>
   simple_grid_strategy_backtest [] example_grid_config = Inl IndexError"
proof -
  have c: "read_grid_config example_grid_config = Inr example_cfg" by (simp add: grid_eval)
  show ?thesis using c backtest_empty_series[OF c] by simp
qed


theorem fill_levels_ascending_witness:
  "case fill_levels (1/10) 0 48400 (enumerate 0 (grid_prices 50000 (1/100) 5)) (init_state 10000) of
     Inl _ \<Rightarrow> False
   | Inr st' \<Rightarrow> \<exists>new. positions st' = positions (init_state 10000) @ new \<and> sorted_wrt (<) (map grid_index new) \<and>
       (\<forall>j \<in> set (map grid_index new). 0 \<le> j \<and> j < 0 + length (grid_prices 50000 (1/100) 5))"
proof -
  have "\<exists>r. fill_levels (1/10) 0 48400 (enumerate 0 (grid_prices 50000 (1/100) 5)) (init_state 10000) = Inr r"
    by (simp add: init_state_def Let_def grid_prices_def upt_rec)
  then obtain st' where r: "fill_levels (1/10) 0 48400 (enumerate 0 (grid_prices 50000 (1/100) 5)) (init_state 10000) = Inr st'"
    by blast
  show ?thesis using fill_levels_ascending[OF r] by (simp only: r sum.case)
qed

end
