(* ===== verification/Demo_Configs.thy ===== *)
theory Demo_Configs
  imports Base_Strategy
begin

text \<open>
  The configurations the demo scripts build as Python dict literals, as \<open>jval\<close>
  values, key for key and in the source's key order: the backtest configuration of
  \<open>simple_backtest_demo.py\<close> (\<open>create_simple_backtest_config\<close>) and the one of
  \<open>fix_backtest.py\<close> (\<open>create_simple_config\<close>, which also writes it to a file; the
  file write is not modelled). Float literals are the exact decimals of the source.
\<close>

text \<open>\<open>create_simple_backtest_config\<close> (\<open>simple_backtest_demo.py\<close>, lines 107--211).\<close>

definition create_simple_backtest_config :: jval where
  "create_simple_backtest_config =
    JObj [
      (''backtest'', JObj [
        (''base_dir'', JStr ''backtests''),
        (''combine_ohlcvs'', JBool True),
        (''compress_cache'', JBool False),
        (''end_date'', JStr ''2024-01-31''),
        (''exchanges'', JList [JStr ''binance'']),
        (''gap_tolerance_ohlcvs_minutes'', JInt 120),
        (''start_date'', JStr ''2024-01-01''),
        (''starting_balance'', JInt 10000),
        (''use_btc_collateral'', JBool True)]),
      (''bot'', JObj [(''long'', JObj [
          (''close_grid_markup_end'', JFloat (3/1000)),
          (''close_grid_markup_start'', JFloat (6/1000)),
          (''close_grid_qty_pct'', JFloat (94/100)),
          (''close_trailing_grid_ratio'', JFloat (-6/1000)),
          (''close_trailing_qty_pct'', JFloat (27/100)),
          (''close_trailing_retracement_pct'', JFloat (7/10000)),
          (''close_trailing_threshold_pct'', JFloat (51/1000)),
          (''ema_span_0'', JInt 279),
          (''ema_span_1'', JInt 476),
          (''enforce_exposure_limit'', JBool True),
          (''entry_grid_double_down_factor'', JFloat (85/100)),
          (''entry_grid_spacing_pct'', JFloat (27/1000)),
          (''entry_grid_spacing_weight'', JFloat (31/100)),
          (''entry_initial_ema_dist'', JFloat (-4/1000)),
          (''entry_initial_qty_pct'', JFloat (16/1000)),
          (''entry_trailing_double_down_factor'', JFloat (304/100)),
          (''entry_trailing_grid_ratio'', JFloat (7/1000)),
          (''entry_trailing_retracement_pct'', JFloat (14/1000)),
          (''entry_trailing_threshold_pct'', JFloat (65/1000)),
          (''filter_noisiness_rolling_window'', JInt 40),
          (''filter_volume_drop_pct'', JFloat (51/100)),
          (''filter_volume_rolling_window'', JInt 1886),
          (''n_positions'', JInt 7),
          (''total_wallet_exposure_limit'', JInt 2),
          (''unstuck_close_pct'', JFloat (41/1000)),
          (''unstuck_ema_dist'', JFloat (3/1000)),
          (''unstuck_loss_allowance_pct'', JFloat (2/1000)),
          (''unstuck_threshold'', JFloat (68/100))]), (''short'', JObj [
          (''close_grid_markup_end'', JFloat (2/1000)),
          (''close_grid_markup_start'', JFloat (20/1000)),
          (''close_grid_qty_pct'', JFloat (52/1000)),
          (''close_trailing_grid_ratio'', JFloat (-127/1000)),
          (''close_trailing_qty_pct'', JFloat (74/1000)),
          (''close_trailing_retracement_pct'', JFloat (4/1000)),
          (''close_trailing_threshold_pct'', JFloat (-9/1000)),
          (''ema_span_0'', JInt 1365),
          (''ema_span_1'', JInt 985),
          (''enforce_exposure_limit'', JBool True),
          (''entry_grid_double_down_factor'', JFloat (341/100)),
          (''entry_grid_spacing_pct'', JFloat (37/1000)),
          (''entry_grid_spacing_weight'', JFloat (166/100)),
          (''entry_initial_ema_dist'', JFloat (4/1000)),
          (''entry_initial_qty_pct'', JFloat (16/1000)),
          (''entry_trailing_double_down_factor'', JFloat (304/100)),
          (''entry_trailing_grid_ratio'', JFloat (7/1000)),
          (''entry_trailing_retracement_pct'', JFloat (14/1000)),
          (''entry_trailing_threshold_pct'', JFloat (65/1000)),
          (''filter_noisiness_rolling_window'', JInt 40),
          (''filter_volume_drop_pct'', JFloat (51/100)),
          (''filter_volume_rolling_window'', JInt 1886),
          (''n_positions'', JInt 7),
          (''total_wallet_exposure_limit'', JInt 2),
          (''unstuck_close_pct'', JFloat (41/1000)),
          (''unstuck_ema_dist'', JFloat (3/1000)),
          (''unstuck_loss_allowance_pct'', JFloat (2/1000)),
          (''unstuck_threshold'', JFloat (68/100))])]),
      (''live'', JObj [
        (''approved_coins'', JList [JStr ''BTCUSDT'']),
        (''auto_gs'', JBool False),
        (''empty_means_all_approved'', JBool False),
        (''execution_delay_seconds'', JFloat 0),
        (''filter_by_min_effective_cost'', JBool False),
        (''forced_mode_long'', JStr ''n''),
        (''forced_mode_short'', JStr ''n''),
        (''ignored_coins'', JObj [(''long'', JList []), (''short'', JList [])]),
        (''leverage'', JFloat (1)),
        (''market_orders_allowed'', JBool False),
        (''max_n_cancellations_per_batch'', JInt 100),
        (''max_n_creations_per_batch'', JInt 100),
        (''max_n_restarts_per_day'', JInt 10),
        (''mimic_backtest_1m_delay'', JBool False),
        (''minimum_coin_age_days'', JInt 30),
        (''ohlcvs_1m_rolling_window_days'', JInt 7),
        (''ohlcvs_1m_update_after_minutes'', JInt 1),
        (''pnls_max_lookback_days'', JInt 30),
        (''price_distance_threshold'', JFloat (2/1000)),
        (''time_in_force'', JStr ''GTC''),
        (''user'', JStr ''test_user'')])]"

text \<open>\<open>create_simple_config\<close> (\<open>fix_backtest.py\<close>, lines 33--132).\<close>

definition create_simple_config :: jval where
  "create_simple_config =
    JObj [
      (''backtest'', JObj [
        (''base_dir'', JStr ''backtests''),
        (''combine_ohlcvs'', JBool True),
        (''compress_cache'', JBool True),
        (''start_date'', JStr ''2024-01-01''),
        (''end_date'', JStr ''2024-01-31''),
        (''starting_balance'', JInt 10000),
        (''exchanges'', JList [JStr ''binance'']),
        (''gap_tolerance_ohlcvs_minutes'', JInt 120),
        (''use_btc_collateral'', JBool True)]),
      (''bot'', JObj [(''long'', JObj [
          (''close_grid_markup_end'', JFloat (1/1000)),
          (''close_grid_markup_start'', JFloat (2/1000)),
          (''close_grid_qty_pct'', JFloat (5/10)),
          (''close_trailing_grid_ratio'', JFloat 0),
          (''close_trailing_qty_pct'', JFloat 0),
          (''close_trailing_retracement_pct'', JFloat 0),
          (''close_trailing_threshold_pct'', JFloat 0),
          (''ema_span_0'', JInt 100),
          (''ema_span_1'', JInt 200),
          (''enforce_exposure_limit'', JBool True),
          (''entry_grid_double_down_factor'', JFloat (1)),
          (''entry_grid_spacing_pct'', JFloat (1/100)),
          (''entry_grid_spacing_weight'', JFloat (1)),
          (''entry_initial_ema_dist'', JFloat 0),
          (''entry_initial_qty_pct'', JFloat (1/100)),
          (''entry_trailing_double_down_factor'', JFloat (1)),
          (''entry_trailing_grid_ratio'', JFloat 0),
          (''entry_trailing_retracement_pct'', JFloat 0),
          (''entry_trailing_threshold_pct'', JFloat 0),
          (''filter_noisiness_rolling_window'', JInt 20),
          (''filter_volume_drop_pct'', JFloat 0),
          (''filter_volume_rolling_window'', JInt 100),
          (''n_positions'', JInt 3),
          (''total_wallet_exposure_limit'', JFloat (5/10)),
          (''unstuck_close_pct'', JFloat (1/100)),
          (''unstuck_ema_dist'', JFloat (1/1000)),
          (''unstuck_loss_allowance_pct'', JFloat (1/1000)),
          (''unstuck_threshold'', JFloat (5/10))]), (''short'', JObj [
          (''close_grid_markup_end'', JFloat (1/1000)),
          (''close_grid_markup_start'', JFloat (2/1000)),
          (''close_grid_qty_pct'', JFloat (5/10)),
          (''close_trailing_grid_ratio'', JFloat 0),
          (''close_trailing_qty_pct'', JFloat 0),
          (''close_trailing_retracement_pct'', JFloat 0),
          (''close_trailing_threshold_pct'', JFloat 0),
          (''ema_span_0'', JInt 100),
          (''ema_span_1'', JInt 200),
          (''enforce_exposure_limit'', JBool True),
          (''entry_grid_double_down_factor'', JFloat (1)),
          (''entry_grid_spacing_pct'', JFloat (1/100)),
          (''entry_grid_spacing_weight'', JFloat (1)),
          (''entry_initial_ema_dist'', JFloat 0),
          (''entry_initial_qty_pct'', JFloat (1/100)),
          (''entry_trailing_double_down_factor'', JFloat (1)),
          (''entry_trailing_grid_ratio'', JFloat 0),
          (''entry_trailing_retracement_pct'', JFloat 0),
          (''entry_trailing_threshold_pct'', JFloat 0),
          (''filter_noisiness_rolling_window'', JInt 20),
          (''filter_volume_drop_pct'', JFloat 0),
          (''filter_volume_rolling_window'', JInt 100),
          (''n_positions'', JInt 3),
          (''total_wallet_exposure_limit'', JFloat (5/10)),
          (''unstuck_close_pct'', JFloat (1/100)),
          (''unstuck_ema_dist'', JFloat (1/1000)),
          (''unstuck_loss_allowance_pct'', JFloat (1/1000)),
          (''unstuck_threshold'', JFloat (5/10))])]),
      (''live'', JObj [
        (''approved_coins'', JList [JStr ''BTCUSDT'']),
        (''auto_gs'', JBool False),
        (''empty_means_all_approved'', JBool False),
        (''execution_delay_seconds'', JInt 0),
        (''filter_by_min_effective_cost'', JBool False),
        (''forced_mode_long'', JStr ''n''),
        (''forced_mode_short'', JStr ''n''),
        (''ignored_coins'', JObj [(''long'', JList []), (''short'', JList [])]),
        (''leverage'', JFloat (1)),
        (''market_orders_allowed'', JBool False),
        (''max_n_cancellations_per_batch'', JInt 100),
        (''max_n_creations_per_batch'', JInt 100),
        (''max_n_restarts_per_day'', JInt 10),
        (''mimic_backtest_1m_delay'', JBool False),
        (''minimum_coin_age_days'', JInt 30),
        (''ohlcvs_1m_rolling_window_days'', JInt 7),
        (''ohlcvs_1m_update_after_minutes'', JInt 1),
        (''pnls_max_lookback_days'', JInt 30),
        (''price_distance_threshold'', JFloat (2/1000)),
        (''time_in_force'', JStr ''GTC''),
        (''user'', JStr ''test_user'')])]"

end
