(* ===== verification/Config_Tools.thy ===== *)
theory Config_Tools
  imports Base_Strategy
begin

text \<open>
  The configuration tools outside the strategy package: \<open>fix_trading_config\<close> of
  \<open>src/fix_trading_config.py\<close>, which repairs the live-trading configuration against
  the API-key file, and \<open>extract_config_summary\<close> of
  \<open>src/web_config/enhanced_server.py\<close>, which the web server uses to summarise a
  configuration. Both work on values loaded from JSON, so this theory first gives the
  Python semantics they rely on: \<open>==\<close>, truthiness, \<open>x in c\<close>, \<open>c[k]\<close>,
  \<open>d[k] = v\<close> and \<open>x > 10\<close>, each with the exceptions Python raises. File reads are
  the loaded value or an exception (\<open>None\<close> when the file does not exist); the file
  write is the value written. Console output is not modelled; the fix and issue messages
  are values of the datatypes \<open>config_fix\<close> and \<open>config_issue\<close> carrying the values the
  messages print.
\<close>

subsection \<open>Python value semantics\<close>

text \<open>Numbers compare by value across \<open>bool\<close>, \<open>int\<close> and \<open>float\<close>.\<close>

fun num_val :: "jval \<Rightarrow> real option" where
  "num_val (JBool b) = Some (of_bool b)"
| "num_val (JInt i) = Some (of_int i)"
| "num_val (JFloat r) = Some r"
| "num_val _ = None"

text \<open>
  \<open>==\<close>: numbers by value, strings and \<open>None\<close> by identity, lists element-wise, dicts
  as maps (the same keys, equal values per key; a dict is read through \<open>map_of\<close>
  throughout the model). Values of different kinds are unequal.
\<close>

fun py_eq :: "jval \<Rightarrow> jval \<Rightarrow> bool" where
  "py_eq JNull JNull = True"
| "py_eq (JStr a) (JStr b) = (a = b)"
| "py_eq (JList xs) (JList ys) = list_all2 py_eq xs ys"
| "py_eq (JObj a) (JObj b) =
     (set (map fst a) = set (map fst b) \<and>
      list_all (\<lambda>(k, v). map_of a k = Some v \<longrightarrow>
                   (case map_of b k of None \<Rightarrow> False | Some w \<Rightarrow> py_eq v w)) a)"
| "py_eq x y = (case (num_val x, num_val y) of (Some p, Some q) \<Rightarrow> p = q | _ \<Rightarrow> False)"

fun py_truthy :: "jval \<Rightarrow> bool" where
  "py_truthy JNull = False"
| "py_truthy (JBool b) = b"
| "py_truthy (JInt i) = (i \<noteq> 0)"
| "py_truthy (JFloat r) = (r \<noteq> 0)"
| "py_truthy (JStr s) = (s \<noteq> [])"
| "py_truthy (JList xs) = (xs \<noteq> [])"
| "py_truthy (JObj kvs) = (kvs \<noteq> [])"

fun py_hashable :: "jval \<Rightarrow> bool" where
  "py_hashable (JList xs) = False"
| "py_hashable (JObj kvs) = False"
| "py_hashable _ = True"

definition is_substring :: "string \<Rightarrow> string \<Rightarrow> bool" where
  "is_substring t s = list_ex (\<lambda>i. take (length t) (drop i s) = t) [0..<Suc (length s)]"

text \<open>
  \<open>x in c\<close>: a dict tests its keys (an unhashable \<open>x\<close> raises), a list its elements,
  a string its substrings (a non-string \<open>x\<close> raises); any other value is not iterable.
\<close>

fun py_contains :: "jval \<Rightarrow> jval \<Rightarrow> py_error + bool" where
  "py_contains x (JObj kvs) =
     (if \<not> py_hashable x then Inl (TypeError ''unhashable type'')
      else Inr (case x of JStr k \<Rightarrow> k \<in> set (map fst kvs) | _ \<Rightarrow> False))"
| "py_contains x (JList xs) = Inr (list_ex (py_eq x) xs)"
| "py_contains x (JStr s) =
     (case x of JStr t \<Rightarrow> Inr (is_substring t s)
      | _ \<Rightarrow> Inl (TypeError ''requires string as left operand''))"
| "py_contains x _ = Inl (TypeError ''argument is not iterable'')"

text \<open>Indexing a sequence with a Python int, negative indices counting from the end.\<close>

definition py_index :: "'a list \<Rightarrow> int \<Rightarrow> py_error + 'a" where
  "py_index xs i =
     (let n = int (length xs); j = (if i < 0 then i + n else i)
      in if 0 \<le> j \<and> j < n then Inr (xs ! nat j) else Inl IndexError)"

text \<open>\<open>c[k]\<close> for any key. The argument of a key error for a non-string key is not
  modelled.\<close>

fun py_getitem :: "jval \<Rightarrow> jval \<Rightarrow> py_error + jval" where
  "py_getitem (JObj kvs) k =
     (if \<not> py_hashable k then Inl (TypeError ''unhashable type'')
      else case k of
        JStr s \<Rightarrow> (case map_of kvs s of None \<Rightarrow> Inl (KeyError s) | Some v \<Rightarrow> Inr v)
      | _ \<Rightarrow> Inl (KeyError ''''))"
| "py_getitem (JList xs) k =
     (case k of JInt i \<Rightarrow> py_index xs i | JBool b \<Rightarrow> py_index xs (of_bool b)
      | _ \<Rightarrow> Inl (TypeError ''list indices must be integers''))"
| "py_getitem (JStr s) k =
     (case k of JInt i \<Rightarrow> sbind (py_index s i) (\<lambda>c. Inr (JStr [c]))
      | JBool b \<Rightarrow> sbind (py_index s (of_bool b)) (\<lambda>c. Inr (JStr [c]))
      | _ \<Rightarrow> Inl (TypeError ''string indices must be integers''))"
| "py_getitem _ k = Inl (TypeError ''not subscriptable'')"

text \<open>\<open>d.keys()\<close>, \<open>d[k] = v\<close> (an existing key keeps its position, a new one is
  appended), and \<open>config[section][key] = v\<close> on a loaded configuration, whose nested dicts
  are not shared.\<close>

fun py_keys :: "jval \<Rightarrow> py_error + string list" where
  "py_keys (JObj kvs) = Inr (map fst kvs)"
| "py_keys _ = Inl (AttributeError ''keys'')"

fun dict_set :: "jval \<Rightarrow> string \<Rightarrow> jval \<Rightarrow> py_error + jval" where
  "dict_set (JObj kvs) k v = Inr (JObj (AList.update k v kvs))"
| "dict_set _ k v = Inl (TypeError ''does not support item assignment'')"

definition set_in :: "jval \<Rightarrow> string \<Rightarrow> string \<Rightarrow> jval \<Rightarrow> py_error + jval" where
  "set_in config sect key v =
     sbind (dict_index config sect) (\<lambda>d. sbind (dict_set d key v) (\<lambda>d'. dict_set config sect d'))"

text \<open>\<open>x > 10\<close>: a number compares, anything else raises.\<close>

definition py_gt_num :: "jval \<Rightarrow> real \<Rightarrow> py_error + bool" where
  "py_gt_num x r = (case num_val x of Some a \<Rightarrow> Inr (r < a) | None \<Rightarrow> Inl (TypeError ''>''))"

text \<open>The placeholder \<open>'\<close>not set\<open>'\<close> of the sources, as its UTF-8 bytes.\<close>

definition not_set :: jval where
  "not_set = JStr (map char_of [230, 156, 170, 232, 174, 190, 231, 189, 174 :: nat])"

subsection \<open>\<open>fix_trading_config\<close>\<close>

datatype config_fix = UserFix jval string | ExchangeFix jval jval | DelayFix

datatype config_issue = NoApiKeyUser | ExchangeUnverified

text \<open>The loaded configuration as the fixes mutate it, and the two lists of messages.\<close>

record fix_state =
  fx_config :: jval
  fx_fixes :: "config_fix list"
  fx_issues :: "config_issue list"

text \<open>Check 1 (lines 42--60): a user that has no API key is replaced by the first key
  of the key file other than \<open>referrals\<close>.\<close>

definition fix_user :: "jval \<Rightarrow> fix_state \<Rightarrow> py_error + fix_state" where
  "fix_user api_keys st =
     (let config = fx_config st in
      sbind (py_contains (JStr ''live'') config) (\<lambda>has_live.
      if \<not> has_live then Inr st else
      sbind (dict_index config ''live'') (\<lambda>live.
      sbind (dict_get live ''user'' (JStr '''')) (\<lambda>user.
      sbind (py_contains user api_keys) (\<lambda>known.
      if known then Inr st else
      sbind (py_keys api_keys) (\<lambda>ks.
      let available = filter (\<lambda>k. k \<noteq> ''referrals'') ks in
      if available \<noteq> [] then
        sbind (set_in config ''live'' ''user'' (JStr (hd available))) (\<lambda>config'.
        Inr (st\<lparr>fx_config := config', fx_fixes := fx_fixes st @ [UserFix user (hd available)]\<rparr>))
      else Inr (st\<lparr>fx_issues := fx_issues st @ [NoApiKeyUser]\<rparr>)))))))"

text \<open>Check 2 (lines 62--76): the first backtest exchange must be the exchange of the
  user's API key.\<close>

definition fix_exchange :: "jval \<Rightarrow> fix_state \<Rightarrow> py_error + fix_state" where
  "fix_exchange api_keys st =
     (let config = fx_config st in
      sbind (py_contains (JStr ''backtest'') config) (\<lambda>has_bt.
      sbind (if has_bt then sbind (dict_index config ''backtest'') (py_contains (JStr ''exchanges''))
             else Inr False) (\<lambda>has_ex.
      if \<not> has_ex then Inr st else
      sbind (sbind (dict_index config ''backtest'') (\<lambda>bt. dict_index bt ''exchanges'')) (\<lambda>exs.
      sbind (if py_truthy exs then py_getitem exs (JInt 0) else Inr (JStr '''')) (\<lambda>exchange.
      sbind (sbind (dict_get config ''live'' (JObj [])) (\<lambda>live. dict_get live ''user'' (JStr ''''))) (\<lambda>user.
      sbind (py_contains user api_keys) (\<lambda>known.
      if \<not> known then Inr (st\<lparr>fx_issues := fx_issues st @ [ExchangeUnverified]\<rparr>) else
      sbind (sbind (py_getitem api_keys user) (\<lambda>entry. dict_get entry ''exchange'' (JStr ''''))) (\<lambda>api_exchange.
      if \<not> py_eq exchange api_exchange then
        sbind (set_in config ''backtest'' ''exchanges'' (JList [api_exchange])) (\<lambda>config'.
        Inr (st\<lparr>fx_config := config', fx_fixes := fx_fixes st @ [ExchangeFix exchange api_exchange]\<rparr>))
      else Inr st))))))))"

text \<open>Check 3 (lines 78--86): a missing or null execution delay becomes 0.\<close>

definition fix_delay :: "fix_state \<Rightarrow> py_error + fix_state" where
  "fix_delay st =
     (let config = fx_config st in
      sbind (py_contains (JStr ''live'') config) (\<lambda>has_live.
      if \<not> has_live then Inr st else
      sbind (sbind (dict_index config ''live'') (\<lambda>live. dict_get live ''execution_delay_seconds'' JNull)) (\<lambda>delay.
      if delay = JNull then
        sbind (set_in config ''live'' ''execution_delay_seconds'' (JInt 0)) (\<lambda>config'.
        Inr (st\<lparr>fx_config := config', fx_fixes := fx_fixes st @ [DelayFix]\<rparr>))
      else Inr st)))"

text \<open>Check 4 (lines 88--95): the leverage is compared with 10 and only reported, so
  it changes nothing unless the comparison raises.\<close>

definition check_leverage :: "fix_state \<Rightarrow> py_error + fix_state" where
  "check_leverage st =
     (let config = fx_config st in
      sbind (py_contains (JStr ''live'') config) (\<lambda>has_live.
      if \<not> has_live then Inr st else
      sbind (sbind (dict_index config ''live'') (\<lambda>live. dict_get live ''leverage'' (JFloat 1))) (\<lambda>lev.
      sbind (py_gt_num lev 10) (\<lambda>_. Inr st))))"

text \<open>The four checks in order (lines 39--95).\<close>

definition fix_steps :: "jval \<Rightarrow> jval \<Rightarrow> py_error + fix_state" where
  "fix_steps api_keys config =
     sbind (fix_user api_keys \<lparr>fx_config = config, fx_fixes = [], fx_issues = []\<rparr>) (\<lambda>s1.
     sbind (fix_exchange api_keys s1) (\<lambda>s2.
     sbind (fix_delay s2) check_leverage))"

text \<open>The summary printed after the save (lines 106--118); only its exceptions matter.\<close>

definition final_summary :: "jval \<Rightarrow> py_error + unit" where
  "final_summary config =
     sbind (py_contains (JStr ''live'') config) (\<lambda>has_live.
     sbind (if has_live then
              sbind (dict_index config ''live'') (\<lambda>live.
              sbind (dict_get live ''user'' not_set) (\<lambda>_.
              sbind (dict_get live ''approved_coins'' (JList [])) (\<lambda>_.
              sbind (dict_get live ''leverage'' not_set) (\<lambda>_.
              sbind (dict_get live ''execution_delay_seconds'' not_set) (\<lambda>_. Inr ())))))
            else Inr ()) (\<lambda>_.
     sbind (py_contains (JStr ''backtest'') config) (\<lambda>has_bt.
     if has_bt then
       sbind (dict_index config ''backtest'') (\<lambda>bt.
       sbind (dict_get bt ''exchanges'' (JList [])) (\<lambda>_.
       sbind (dict_get bt ''starting_balance'' not_set) (\<lambda>_. Inr ())))
     else Inr ())))"

text \<open>
  \<open>fix_trading_config\<close> (lines 10--130): the two files are \<open>None\<close> when missing, else
  their loaded content or the exception of loading. The result is the returned boolean
  and the configuration written back to \<open>my_config.json\<close>, if any. The file is written
  when some fix was applied, before the summary, whose exception still makes the
  function return \<open>False\<close>.
\<close>

definition fix_trading_config ::
  "(py_error + jval) option \<Rightarrow> (py_error + jval) option \<Rightarrow> bool \<times> jval option" where
  "fix_trading_config config_file keys_file =
     (case (config_file, keys_file) of
        (None, _) \<Rightarrow> (False, None)
      | (_, None) \<Rightarrow> (False, None)
      | (Some cf, Some kf) \<Rightarrow>
          (case sbind cf (\<lambda>config. sbind kf (\<lambda>api_keys. fix_steps api_keys config)) of
             Inl e \<Rightarrow> (False, None)
           | Inr st \<Rightarrow>
               (let written = (if fx_fixes st \<noteq> [] then Some (fx_config st) else None)
                in (case final_summary (fx_config st) of
                      Inl e \<Rightarrow> (False, written)
                    | Inr _ \<Rightarrow> (True, written)))))"

subsection \<open>\<open>extract_config_summary\<close>\<close>

text \<open>
  \<open>PassivbotHandler.extract_config_summary\<close> (\<open>enhanced_server.py\<close>, lines 456--518).
  The summary starts with empty sections; each section is filled by one assignment whose
  right-hand side is evaluated first. The first exception ends the \<open>try\<close> block and
  the summary built so far is returned.
\<close>

definition initial_summary :: jval where
  "initial_summary =
     JObj [(''backtest'', JObj []), (''bot'', JObj [(''long'', JObj []), (''short'', JObj [])]),
           (''live'', JObj [])]"

text \<open>A dict literal of \<open>d.get(k, default)\<close> values, evaluated left to right.\<close>

fun gets :: "jval \<Rightarrow> (string \<times> jval) list \<Rightarrow> py_error + (string \<times> jval) list" where
  "gets d [] = Inr []"
| "gets d ((k, dflt) # kds) = sbind (dict_get d k dflt) (\<lambda>v. sbind (gets d kds) (\<lambda>vs. Inr ((k, v) # vs)))"

definition summary_backtest :: "jval \<Rightarrow> jval \<Rightarrow> py_error + jval" where
  "summary_backtest config summary =
     sbind (py_contains (JStr ''backtest'') config) (\<lambda>has_bt.
     if \<not> has_bt then Inr summary else
     sbind (dict_index config ''backtest'') (\<lambda>bt.
     sbind (gets bt [(''start_date'', not_set), (''end_date'', not_set),
                     (''starting_balance'', not_set), (''exchanges'', JList [])]) (\<lambda>kvs.
     dict_set summary ''backtest'' (JObj kvs))))"

definition side_summary_keys :: "string list" where
  "side_summary_keys =
     [''entry_grid_spacing_pct'', ''entry_initial_qty_pct'', ''n_positions'', ''close_grid_markup_start'',
      ''close_grid_markup_end'', ''total_wallet_exposure_limit'', ''ema_span_0'', ''ema_span_1'']"

definition summary_side :: "string \<Rightarrow> jval \<Rightarrow> jval \<Rightarrow> py_error + jval" where
  "summary_side pside config summary =
     sbind (py_contains (JStr ''bot'') config) (\<lambda>has_bot.
     sbind (if has_bot then sbind (dict_index config ''bot'') (py_contains (JStr pside)) else Inr False)
       (\<lambda>has_side.
     if \<not> has_side then Inr summary else
     sbind (sbind (dict_index config ''bot'') (\<lambda>b. dict_index b pside)) (\<lambda>side.
     sbind (gets side (map (\<lambda>k. (k, not_set)) side_summary_keys)) (\<lambda>kvs.
     set_in summary ''bot'' pside (JObj kvs)))))"

definition summary_live :: "jval \<Rightarrow> jval \<Rightarrow> py_error + jval" where
  "summary_live config summary =
     sbind (py_contains (JStr ''live'') config) (\<lambda>has_live.
     if \<not> has_live then Inr summary else
     sbind (dict_index config ''live'') (\<lambda>live.
     sbind (gets live [(''approved_coins'', JList []), (''leverage'', not_set), (''user'', not_set),
                       (''time_in_force'', not_set), (''execution_delay_seconds'', not_set),
                       (''minimum_coin_age_days'', not_set)]) (\<lambda>kvs.
     dict_set summary ''live'' (JObj kvs))))"

text \<open>Statements run one after another inside a \<open>try\<close> whose handler only prints: the
  first exception stops the run and keeps the state reached.\<close>

fun run_until_error :: "('s \<Rightarrow> 'e + 's) list \<Rightarrow> 's \<Rightarrow> 's" where
  "run_until_error [] s = s"
| "run_until_error (f # fs) s = (case f s of Inl _ \<Rightarrow> s | Inr s' \<Rightarrow> run_until_error fs s')"

definition extract_config_summary :: "jval \<Rightarrow> jval" where
  "extract_config_summary config =
     run_until_error [summary_backtest config, summary_side ''long'' config,
                      summary_side ''short'' config, summary_live config] initial_summary"

subsection \<open>Example inputs\<close>

text \<open>A key file with a \<open>referrals\<close> entry and one user, and a live configuration whose
  user has no key, whose backtest exchange differs from the key's and whose execution
  delay is null.\<close>

abbreviation example_api_keys :: jval where
  "example_api_keys \<equiv> JObj [(''referrals'', JObj []),
     (''bybit_01'', JObj [(''exchange'', JStr ''bybit''), (''key'', JStr ''k'')])]"

abbreviation example_live_config :: jval where
  "example_live_config \<equiv> JObj [
     (''backtest'', JObj [(''exchanges'', JList [JStr ''binance'']), (''starting_balance'', JInt 10000)]),
     (''live'', JObj [(''user'', JStr ''test_user''), (''execution_delay_seconds'', JNull), (''leverage'', JFloat 1)])]"

subsection \<open>What each check reads\<close>

text \<open>What checks 1, 3 and 4 read: a key of a section, when the section exists.\<close>

definition sect_read :: "jval \<Rightarrow> string \<Rightarrow> string \<Rightarrow> jval \<Rightarrow> py_error + jval option" where
  "sect_read c s k dflt = sbind (py_contains (JStr s) c) (\<lambda>h. if \<not> h then Inr None else
     sbind (dict_index c s) (\<lambda>d. sbind (dict_get d k dflt) (\<lambda>v. Inr (Some v))))"

text \<open>What check 2 reads: the first exchange, when the backtest section lists exchanges,
  and the user through \<open>config.get("live", {})\<close>.\<close>

definition exch_read :: "jval \<Rightarrow> py_error + jval option" where
  "exch_read c =
     sbind (py_contains (JStr ''backtest'') c) (\<lambda>has_bt.
     sbind (if has_bt then sbind (dict_index c ''backtest'') (py_contains (JStr ''exchanges''))
            else Inr False) (\<lambda>has_ex.
     if \<not> has_ex then Inr None else
     sbind (sbind (dict_index c ''backtest'') (\<lambda>bt. dict_index bt ''exchanges'')) (\<lambda>exs.
     sbind (if py_truthy exs then py_getitem exs (JInt 0) else Inr (JStr [])) (\<lambda>ex. Inr (Some ex)))))"

definition user_get :: "jval \<Rightarrow> py_error + jval" where
  "user_get c = sbind (dict_get c ''live'' (JObj [])) (\<lambda>live. dict_get live ''user'' (JStr []))"

subsection \<open>Lemmas\<close>

lemma set_in_Inr:
  assumes "set_in c sect key v = Inr c'"
  obtains kvs d where "c = JObj kvs" "map_of kvs sect = Some (JObj d)"
    "c' = JObj (AList.update sect (JObj (AList.update key v d)) kvs)"
proof -
  obtain sd where sd: "dict_index c sect = Inr sd" and r: "sbind (dict_set sd key v) (\<lambda>d'. dict_set c sect d') = Inr c'"
    using assms by (auto simp: set_in_def sbind_eq_Inr)
  obtain kvs where c: "c = JObj kvs" using sd by (cases c) auto
  obtain d where d: "sd = JObj d" using r by (cases sd) auto
  show ?thesis
    using that[OF c] sd r c d by (auto split: option.splits)
qed


lemma fix_user_read:
  "fix_user k st =
     (case sect_read (fx_config st) ''live'' ''user'' (JStr []) of
        Inl e \<Rightarrow> Inl e
      | Inr None \<Rightarrow> Inr st
      | Inr (Some u) \<Rightarrow> sbind (py_contains u k) (\<lambda>known. if known then Inr st else
          sbind (py_keys k) (\<lambda>ks. let available = filter (\<lambda>x. x \<noteq> ''referrals'') ks in
          if available \<noteq> [] then
            sbind (set_in (fx_config st) ''live'' ''user'' (JStr (hd available))) (\<lambda>c'.
            Inr (st\<lparr>fx_config := c', fx_fixes := fx_fixes st @ [UserFix u (hd available)]\<rparr>))
          else Inr (st\<lparr>fx_issues := fx_issues st @ [NoApiKeyUser]\<rparr>))))"
  by (simp add: fix_user_def sect_read_def sbind_def Let_def split: sum.splits)

lemma fix_exchange_read:
  "fix_exchange k st =
     (case exch_read (fx_config st) of
        Inl e \<Rightarrow> Inl e
      | Inr None \<Rightarrow> Inr st
      | Inr (Some ex) \<Rightarrow> sbind (user_get (fx_config st)) (\<lambda>user.
          sbind (py_contains user k) (\<lambda>known.
          if \<not> known then Inr (st\<lparr>fx_issues := fx_issues st @ [ExchangeUnverified]\<rparr>) else
          sbind (sbind (py_getitem k user) (\<lambda>entry. dict_get entry ''exchange'' (JStr []))) (\<lambda>api.
          if \<not> py_eq ex api then
            sbind (set_in (fx_config st) ''backtest'' ''exchanges'' (JList [api])) (\<lambda>c'.
            Inr (st\<lparr>fx_config := c', fx_fixes := fx_fixes st @ [ExchangeFix ex api]\<rparr>))
          else Inr st))))"
  by (simp add: fix_exchange_def exch_read_def user_get_def sbind_def Let_def split: sum.splits)

lemma fix_delay_read:
  "fix_delay st =
     (case sect_read (fx_config st) ''live'' ''execution_delay_seconds'' JNull of
        Inl e \<Rightarrow> Inl e
      | Inr None \<Rightarrow> Inr st
      | Inr (Some d) \<Rightarrow>
          if d = JNull then
            sbind (set_in (fx_config st) ''live'' ''execution_delay_seconds'' (JInt 0)) (\<lambda>c'.
            Inr (st\<lparr>fx_config := c', fx_fixes := fx_fixes st @ [DelayFix]\<rparr>))
          else Inr st)"
  by (simp add: fix_delay_def sect_read_def sbind_def Let_def split: sum.splits)

lemma check_leverage_read:
  "check_leverage st =
     (case sect_read (fx_config st) ''live'' ''leverage'' (JFloat 1) of
        Inl e \<Rightarrow> Inl e
      | Inr None \<Rightarrow> Inr st
      | Inr (Some lev) \<Rightarrow> sbind (py_gt_num lev 10) (\<lambda>_. Inr st))"
  by (simp add: check_leverage_def sect_read_def sbind_def Let_def split: sum.splits)


lemma py_contains_JStr_update:
  "py_contains (JStr x) (JObj (AList.update s v kvs)) = Inr (x = s \<or> x \<in> set (map fst kvs))"
  by (simp add: dom_update)

lemma map_of_Some_key: "map_of kvs k = Some v \<Longrightarrow> k \<in> set (map fst kvs)"
  by (induction kvs) (auto split: if_splits)

lemma sect_read_set_in:
  assumes "set_in c sect key v = Inr c'"
  shows "sect_read c' s k d = (if s = sect \<and> k = key then Inr (Some v) else sect_read c s k d)"
proof -
  obtain kvs dd where c: "c = JObj kvs" and m: "map_of kvs sect = Some (JObj dd)"
    and c': "c' = JObj (AList.update sect (JObj (AList.update key v dd)) kvs)"
    using assms by (rule set_in_Inr)
  have "sect \<in> set (map fst kvs)" using m by (rule map_of_Some_key)
  then show ?thesis
    using m by (auto simp: c c' sect_read_def py_contains_JStr_update update_conv' dom_update)
qed

lemma exch_read_set_in:
  assumes "set_in c sect key v = Inr c'" "(sect, key) \<noteq> (''backtest'', ''exchanges'')"
  shows "exch_read c' = exch_read c"
proof -
  obtain kvs dd where c: "c = JObj kvs" and m: "map_of kvs sect = Some (JObj dd)"
    and c': "c' = JObj (AList.update sect (JObj (AList.update key v dd)) kvs)"
    using assms(1) by (rule set_in_Inr)
  have top: "py_contains (JStr ''backtest'') c' = py_contains (JStr ''backtest'') c"
    using map_of_Some_key[OF m] by (auto simp: c c' dom_update)
  have sec: "sbind (dict_index c' ''backtest'') f = sbind (dict_index c ''backtest'') f"
    if "\<And>b. f (JObj (AList.update key v b)) = f (JObj b)" for f
    using m that by (cases "sect = ''backtest''") (simp_all add: c c' update_conv')
  have ex1: "py_contains (JStr ''exchanges'') (JObj (AList.update key v b)) = py_contains (JStr ''exchanges'') (JObj b)"
    if "sect = ''backtest''" for b
    using assms(2) that by (simp add: py_contains_JStr_update dom_update)
  have ex2: "dict_index (JObj (AList.update key v b)) ''exchanges'' = dict_index (JObj b) ''exchanges''"
    if "sect = ''backtest''" for b
    using assms(2) that by (simp add: update_conv')
  show ?thesis
  proof (cases "sect = ''backtest''")
    case True
    have s1: "sbind (dict_index c' ''backtest'') (py_contains (JStr ''exchanges'')) =
              sbind (dict_index c ''backtest'') (py_contains (JStr ''exchanges''))"
      by (rule sec) (rule ex1[OF True])
    have s2: "sbind (dict_index c' ''backtest'') (\<lambda>bt. dict_index bt ''exchanges'') =
              sbind (dict_index c ''backtest'') (\<lambda>bt. dict_index bt ''exchanges'')"
      by (rule sec) (rule ex2[OF True])
    show ?thesis unfolding exch_read_def top s1 s2 ..
  next
    case False
    then have "dict_index c' ''backtest'' = dict_index c ''backtest''" by (simp add: c c' update_conv')
    then show ?thesis unfolding exch_read_def top by (simp only:)
  qed
qed

lemma exch_read_set_in_self:
  "set_in c ''backtest'' ''exchanges'' (JList [a]) = Inr c' \<Longrightarrow> exch_read c' = Inr (Some a)"
  by (erule set_in_Inr) (auto simp: exch_read_def py_contains_JStr_update py_index_def update_conv' dom_update dest: map_of_Some_key)

lemma user_get_set_in:
  assumes "set_in c sect key v = Inr c'" "(sect, key) \<noteq> (''live'', ''user'')"
  shows "user_get c' = user_get c"
proof -
  obtain kvs dd where c: "c = JObj kvs" and m: "map_of kvs sect = Some (JObj dd)"
    and c': "c' = JObj (AList.update sect (JObj (AList.update key v dd)) kvs)"
    using assms(1) by (rule set_in_Inr)
  then show ?thesis using assms(2) by (auto simp: user_get_def update_conv')
qed

lemma fix_user_writes:
  "fix_user k st = Inr st' \<Longrightarrow>
   fx_config st' = fx_config st \<or> (\<exists>v. set_in (fx_config st) ''live'' ''user'' v = Inr (fx_config st'))"
  by (auto simp: fix_user_read sbind_eq_Inr Let_def split: sum.splits option.splits if_splits)

lemma fix_exchange_writes:
  "fix_exchange k st = Inr st' \<Longrightarrow>
   fx_config st' = fx_config st \<or> (\<exists>v. set_in (fx_config st) ''backtest'' ''exchanges'' v = Inr (fx_config st'))"
  by (auto simp: fix_exchange_read sbind_eq_Inr split: sum.splits option.splits if_splits)

lemma fix_delay_writes:
  "fix_delay st = Inr st' \<Longrightarrow>
   fx_config st' = fx_config st \<or> (\<exists>v. set_in (fx_config st) ''live'' ''execution_delay_seconds'' v = Inr (fx_config st'))"
  by (auto simp: fix_delay_read sbind_eq_Inr split: sum.splits option.splits if_splits)

lemma check_leverage_id: "check_leverage st = Inr st' \<Longrightarrow> st' = st"
  by (auto simp: check_leverage_read sbind_eq_Inr split: sum.splits option.splits)


lemma py_eq_refl: "py_eq v v"
proof (induction v)
  case (JList xs)
  then show ?case by (simp add: list.rel_refl_strong)
next
  case (JObj kvs)
  then show ?case by (fastforce simp: list_all_iff)
qed simp_all

lemma py_keys_contains:
  "py_keys k = Inr ks \<Longrightarrow> a \<in> set ks \<Longrightarrow> py_contains (JStr a) k = Inr True"
  by (cases k) auto

lemma fix_user_stable:
  assumes "fix_user k st = Inr st'"
    and "sect_read c ''live'' ''user'' (JStr []) = sect_read (fx_config st') ''live'' ''user'' (JStr [])"
  shows "fix_user k \<lparr>fx_config = c, fx_fixes = fs, fx_issues = is\<rparr> =
         Inr \<lparr>fx_config = c, fx_fixes = fs, fx_issues = is @ drop (length (fx_issues st)) (fx_issues st')\<rparr>"
proof (cases "sect_read (fx_config st) ''live'' ''user'' (JStr [])")
  case (Inl e)
  then show ?thesis using assms(1) by (simp add: fix_user_read)
next
  case (Inr r)
  show ?thesis
  proof (cases r)
    case None
    then show ?thesis using assms Inr by (simp add: fix_user_read)
  next
    case (Some u)
    obtain known where kn: "py_contains u k = Inr known"
      using assms(1) Inr Some by (cases "py_contains u k") (simp_all add: fix_user_read)
    show ?thesis
    proof (cases known)
      case True
      then show ?thesis using assms Inr Some kn by (simp add: fix_user_read)
    next
      case False
      obtain ks where ks: "py_keys k = Inr ks"
        using assms(1) Inr Some kn False by (cases "py_keys k") (simp_all add: fix_user_read)
      show ?thesis
      proof (cases "filter (\<lambda>x. x \<noteq> ''referrals'') ks = []")
        case True
        then have st': "st' = st\<lparr>fx_issues := fx_issues st @ [NoApiKeyUser]\<rparr>"
          using assms(1) Inr Some kn False ks by (simp add: fix_user_read)
        then have "sect_read c ''live'' ''user'' (JStr []) = Inr (Some u)"
          using assms(2) Inr Some by simp
        then show ?thesis using st' kn False ks True by (simp add: fix_user_read)
      next
        case ne: False
        let ?a = "hd (filter (\<lambda>x. x \<noteq> ''referrals'') ks)"
        obtain c' where c': "set_in (fx_config st) ''live'' ''user'' (JStr ?a) = Inr c'"
          and st': "st' = st\<lparr>fx_config := c', fx_fixes := fx_fixes st @ [UserFix u ?a]\<rparr>"
          using assms(1) Inr Some kn False ks ne
          by (cases "set_in (fx_config st) ''live'' ''user'' (JStr ?a)") (simp_all add: fix_user_read Let_def)
        have "sect_read c ''live'' ''user'' (JStr []) = Inr (Some (JStr ?a))"
          using assms(2) st' sect_read_set_in[OF c'] by simp
        moreover have "?a \<in> set ks" using hd_in_set[OF ne] by simp
        ultimately show ?thesis using st' py_keys_contains[OF ks] by (simp add: fix_user_read)
      qed
    qed
  qed
qed


lemma fix_exchange_stable:
  assumes "fix_exchange k st = Inr st'"
    and "exch_read c = exch_read (fx_config st')" "user_get c = user_get (fx_config st)"
  shows "fix_exchange k \<lparr>fx_config = c, fx_fixes = fs, fx_issues = is\<rparr> =
         Inr \<lparr>fx_config = c, fx_fixes = fs, fx_issues = is @ drop (length (fx_issues st)) (fx_issues st')\<rparr>"
proof (cases "exch_read (fx_config st)")
  case (Inl e)
  then show ?thesis using assms(1) by (simp add: fix_exchange_read)
next
  case (Inr r)
  show ?thesis
  proof (cases r)
    case None
    then show ?thesis using assms Inr by (simp add: fix_exchange_read)
  next
    case (Some ex)
    obtain u where u: "user_get (fx_config st) = Inr u"
      using assms(1) Inr Some by (cases "user_get (fx_config st)") (simp_all add: fix_exchange_read)
    obtain known where kn: "py_contains u k = Inr known"
      using assms(1) Inr Some u by (cases "py_contains u k") (simp_all add: fix_exchange_read)
    show ?thesis
    proof (cases known)
      case False
      then have st': "st' = st\<lparr>fx_issues := fx_issues st @ [ExchangeUnverified]\<rparr>"
        using assms(1) Inr Some u kn by (simp add: fix_exchange_read)
      then show ?thesis using assms(2,3) Inr Some u kn False by (simp add: fix_exchange_read)
    next
      case True
      obtain api where api: "sbind (py_getitem k u) (\<lambda>entry. dict_get entry ''exchange'' (JStr [])) = Inr api"
        using assms(1) Inr Some u kn True
        by (cases "sbind (py_getitem k u) (\<lambda>entry. dict_get entry ''exchange'' (JStr []))")
           (simp_all add: fix_exchange_read)
      show ?thesis
      proof (cases "py_eq ex api")
        case True
        then have "st' = st" using assms(1) Inr Some u kn \<open>known\<close> api by (simp add: fix_exchange_read)
        then show ?thesis using assms(2,3) Inr Some u kn \<open>known\<close> api True by (simp add: fix_exchange_read)
      next
        case False
        obtain c' where c': "set_in (fx_config st) ''backtest'' ''exchanges'' (JList [api]) = Inr c'"
          and st': "st' = st\<lparr>fx_config := c', fx_fixes := fx_fixes st @ [ExchangeFix ex api]\<rparr>"
          using assms(1) Inr Some u kn \<open>known\<close> api False
          by (cases "set_in (fx_config st) ''backtest'' ''exchanges'' (JList [api])")
             (simp_all add: fix_exchange_read)
        have "exch_read c = Inr (Some api)" using assms(2) st' exch_read_set_in_self[OF c'] by simp
        then show ?thesis using st' assms(3) u kn \<open>known\<close> api by (simp add: fix_exchange_read py_eq_refl)
      qed
    qed
  qed
qed

lemma fix_delay_stable:
  assumes "fix_delay st = Inr st'"
    and "sect_read c ''live'' ''execution_delay_seconds'' JNull =
         sect_read (fx_config st') ''live'' ''execution_delay_seconds'' JNull"
  shows "fix_delay \<lparr>fx_config = c, fx_fixes = fs, fx_issues = is\<rparr> = Inr \<lparr>fx_config = c, fx_fixes = fs, fx_issues = is\<rparr>"
proof (cases "sect_read (fx_config st) ''live'' ''execution_delay_seconds'' JNull")
  case (Inl e)
  then show ?thesis using assms(1) by (simp add: fix_delay_read)
next
  case (Inr r)
  show ?thesis
  proof (cases r)
    case None
    then show ?thesis using assms Inr by (simp add: fix_delay_read)
  next
    case (Some d)
    show ?thesis
    proof (cases "d = JNull")
      case True
      obtain c' where c': "set_in (fx_config st) ''live'' ''execution_delay_seconds'' (JInt 0) = Inr c'"
        and st': "st' = st\<lparr>fx_config := c', fx_fixes := fx_fixes st @ [DelayFix]\<rparr>"
        using assms(1) Inr Some True
        by (cases "set_in (fx_config st) ''live'' ''execution_delay_seconds'' (JInt 0)") (simp_all add: fix_delay_read)
      have "sect_read c ''live'' ''execution_delay_seconds'' JNull = Inr (Some (JInt 0))"
        using assms(2) st' sect_read_set_in[OF c'] by simp
      then show ?thesis by (simp add: fix_delay_read)
    next
      case False
      then show ?thesis using assms Inr Some by (simp add: fix_delay_read)
    qed
  qed
qed

lemma check_leverage_stable:
  assumes "check_leverage st = Inr st'"
    and "sect_read c ''live'' ''leverage'' (JFloat 1) = sect_read (fx_config st) ''live'' ''leverage'' (JFloat 1)"
  shows "check_leverage \<lparr>fx_config = c, fx_fixes = fs, fx_issues = is\<rparr> = Inr \<lparr>fx_config = c, fx_fixes = fs, fx_issues = is\<rparr>"
  using assms by (auto simp: check_leverage_read sbind_eq_Inr split: sum.splits option.splits)

lemma fix_user_issues: "fix_user k st = Inr st' \<Longrightarrow> \<exists>xs. fx_issues st' = fx_issues st @ xs"
  by (auto simp: fix_user_read sbind_eq_Inr Let_def split: sum.splits option.splits if_splits)

lemma fix_exchange_issues: "fix_exchange k st = Inr st' \<Longrightarrow> \<exists>xs. fx_issues st' = fx_issues st @ xs"
  by (auto simp: fix_exchange_read sbind_eq_Inr split: sum.splits option.splits if_splits)

lemma fix_delay_issues: "fix_delay st = Inr st' \<Longrightarrow> fx_issues st' = fx_issues st"
  by (auto simp: fix_delay_read sbind_eq_Inr split: sum.splits option.splits if_splits)


lemma writes_sect_read:
  "c' = c \<or> (\<exists>v. set_in c sect key v = Inr c') \<Longrightarrow> (s, k) \<noteq> (sect, key) \<Longrightarrow>
   sect_read c' s k d = sect_read c s k d"
  by (auto simp: sect_read_set_in)

lemma writes_exch_read:
  "c' = c \<or> (\<exists>v. set_in c sect key v = Inr c') \<Longrightarrow> (sect, key) \<noteq> (''backtest'', ''exchanges'') \<Longrightarrow>
   exch_read c' = exch_read c"
  using exch_read_set_in by blast

lemma writes_user_get:
  "c' = c \<or> (\<exists>v. set_in c sect key v = Inr c') \<Longrightarrow> (sect, key) \<noteq> (''live'', ''user'') \<Longrightarrow>
   user_get c' = user_get c"
  using user_get_set_in by blast

lemma fix_steps_idempotent:
  assumes "fix_steps k c = Inr st"
  shows "fix_steps k (fx_config st) = Inr \<lparr>fx_config = fx_config st, fx_fixes = [], fx_issues = fx_issues st\<rparr>"
proof -
  obtain s1 s2 s3 where r1: "fix_user k \<lparr>fx_config = c, fx_fixes = [], fx_issues = []\<rparr> = Inr s1"
    and r2: "fix_exchange k s1 = Inr s2" and r3: "fix_delay s2 = Inr s3" and r4: "check_leverage s3 = Inr st"
    using assms by (auto simp: fix_steps_def sbind_eq_Inr)
  have st: "st = s3" using check_leverage_id[OF r4] .
  note w2 = fix_exchange_writes[OF r2] and w3 = fix_delay_writes[OF r3]
  have u: "sect_read (fx_config st) ''live'' ''user'' (JStr []) = sect_read (fx_config s1) ''live'' ''user'' (JStr [])"
    using writes_sect_read[OF w3] writes_sect_read[OF w2] st by simp
  have e: "exch_read (fx_config st) = exch_read (fx_config s2)"
    using writes_exch_read[OF w3] st by simp
  have g: "user_get (fx_config st) = user_get (fx_config s1)"
    using writes_user_get[OF w3] writes_user_get[OF w2] st by simp
  obtain x1 where i1: "fx_issues s1 = x1" using fix_user_issues[OF r1] by simp
  obtain x2 where i2: "fx_issues s2 = fx_issues s1 @ x2" using fix_exchange_issues[OF r2] by blast
  have i3: "fx_issues st = fx_issues s2" using fix_delay_issues[OF r3] st by simp
  have t1: "fix_user k \<lparr>fx_config = fx_config st, fx_fixes = [], fx_issues = []\<rparr> =
            Inr \<lparr>fx_config = fx_config st, fx_fixes = [], fx_issues = fx_issues s1\<rparr>"
    using fix_user_stable[OF r1 u] by simp
  have t2: "fix_exchange k \<lparr>fx_config = fx_config st, fx_fixes = [], fx_issues = fx_issues s1\<rparr> =
            Inr \<lparr>fx_config = fx_config st, fx_fixes = [], fx_issues = fx_issues s2\<rparr>"
    using fix_exchange_stable[OF r2 e g] i2 by simp
  have t3: "fix_delay \<lparr>fx_config = fx_config st, fx_fixes = [], fx_issues = fx_issues s2\<rparr> =
            Inr \<lparr>fx_config = fx_config st, fx_fixes = [], fx_issues = fx_issues s2\<rparr>"
    using fix_delay_stable[OF r3] st by simp
  have t4: "check_leverage \<lparr>fx_config = fx_config st, fx_fixes = [], fx_issues = fx_issues s2\<rparr> =
            Inr \<lparr>fx_config = fx_config st, fx_fixes = [], fx_issues = fx_issues s2\<rparr>"
    using check_leverage_stable[OF r4] st by simp
  show ?thesis using t1 t2 t3 t4 i3 by (simp add: fix_steps_def)
qed


lemma sect_read_present:
  "dict_index c s = Inr (JObj d) \<Longrightarrow> map_of d k = Some v \<Longrightarrow> sect_read c s k dflt = Inr (Some v)"
  by (cases c) (auto simp: sect_read_def split: option.splits dest: map_of_Some_key)

subsection \<open>Properties\<close>

text \<open>C24: running \<open>fix_trading_config\<close> again on the configuration it wrote back, with
  the same key file, applies no fix and writes nothing: the repair is idempotent.\<close>

theorem fix_rerun_writes_nothing:
  assumes "snd (fix_trading_config (Some (Inr c)) (Some (Inr k))) = Some c'"
  shows "snd (fix_trading_config (Some (Inr c')) (Some (Inr k))) = None"
proof -
  obtain st where r: "fix_steps k c = Inr st" and c': "c' = fx_config st"
    using assms by (cases "fix_steps k c")
      (auto simp: fix_trading_config_def Let_def split: sum.splits if_splits)
  show ?thesis using fix_steps_idempotent[OF r]
    by (simp add: fix_trading_config_def c' Let_def split: sum.splits)
qed

text \<open>C32: a leverage that is not a number makes the comparison with 10 raise, so
  \<open>fix_trading_config\<close> returns \<open>False\<close> and writes nothing, whatever the other
  checks repaired.\<close>

theorem fix_non_numeric_leverage_aborts:
  assumes "dict_index c ''live'' = Inr (JObj live)" "map_of live ''leverage'' = Some lev"
    and "num_val lev = None"
  shows "fix_trading_config (Some (Inr c)) (Some (Inr k)) = (False, None)"
proof -
  have lev: "sect_read c ''live'' ''leverage'' (JFloat 1) = Inr (Some lev)"
    using sect_read_present[OF assms(1,2)] .
  have "fix_steps k c \<noteq> Inr st" for st
  proof
    assume "fix_steps k c = Inr st"
    then obtain s1 s2 s3 where r1: "fix_user k \<lparr>fx_config = c, fx_fixes = [], fx_issues = []\<rparr> = Inr s1"
      and r2: "fix_exchange k s1 = Inr s2" and r3: "fix_delay s2 = Inr s3" and r4: "check_leverage s3 = Inr st"
      by (auto simp: fix_steps_def sbind_eq_Inr)
    have "sect_read (fx_config s3) ''live'' ''leverage'' (JFloat 1) = Inr (Some lev)"
      using writes_sect_read[OF fix_delay_writes[OF r3]] writes_sect_read[OF fix_exchange_writes[OF r2]]
        writes_sect_read[OF fix_user_writes[OF r1]] lev by simp
    then show False using r4 assms(3) by (simp add: check_leverage_read py_gt_num_def)
  qed
  then obtain e where "fix_steps k c = Inl e" by (cases "fix_steps k c") auto
  then show ?thesis by (simp add: fix_trading_config_def)
qed


text \<open>C36: when the backtest section of a configuration is not a dict,
  \<open>extract_config_summary\<close> returns the empty summary: the exception of its first
  section ends the \<open>try\<close> block, so the bot and live sections are not summarised either.\<close>

theorem summary_bad_backtest_blanks_all:
  assumes "map_of kvs ''backtest'' = Some bt" "\<forall>d. bt \<noteq> JObj d"
  shows "extract_config_summary (JObj kvs) = initial_summary"
proof -
  have "summary_backtest (JObj kvs) initial_summary = Inl (AttributeError ''get'')"
    using assms map_of_Some_key[OF assms(1)] by (cases bt) (simp_all add: summary_backtest_def)
  then show ?thesis by (simp add: extract_config_summary_def)
qed

subsection \<open>Witnesses\<close>

theorem fix_rerun_writes_nothing_witness:
  "snd (fix_trading_config (Some (Inr example_live_config)) (Some (Inr example_api_keys))) =
     Some (JObj [(''backtest'', JObj [(''exchanges'', JList [JStr ''bybit'']), (''starting_balance'', JInt 10000)]),
       (''live'', JObj [(''user'', JStr ''bybit_01''), (''execution_delay_seconds'', JInt 0), (''leverage'', JFloat 1)])]) \<and>
   snd (fix_trading_config (Some (Inr (JObj [(''backtest'', JObj [(''exchanges'', JList [JStr ''bybit'']), (''starting_balance'', JInt 10000)]),
       (''live'', JObj [(''user'', JStr ''bybit_01''), (''execution_delay_seconds'', JInt 0), (''leverage'', JFloat 1)])])))
     (Some (Inr example_api_keys))) = None"
proof -
  have w: "snd (fix_trading_config (Some (Inr example_live_config)) (Some (Inr example_api_keys))) =
     Some (JObj [(''backtest'', JObj [(''exchanges'', JList [JStr ''bybit'']), (''starting_balance'', JInt 10000)]),
       (''live'', JObj [(''user'', JStr ''bybit_01''), (''execution_delay_seconds'', JInt 0), (''leverage'', JFloat 1)])])"
    by (simp add: fix_trading_config_def fix_steps_def fix_user_def fix_exchange_def fix_delay_def
        check_leverage_def final_summary_def set_in_def py_index_def py_gt_num_def)
  show ?thesis using w fix_rerun_writes_nothing[OF w] by simp
qed

theorem fix_non_numeric_leverage_aborts_witness:
  "dict_index (JObj [(''live'', JObj [(''user'', JStr ''bybit_01''), (''leverage'', JStr ''5'')])]) ''live'' =
     Inr (JObj [(''user'', JStr ''bybit_01''), (''leverage'', JStr ''5'')]) \<and>
   map_of [(''user'', JStr ''bybit_01''), (''leverage'', JStr ''5'')] ''leverage'' = Some (JStr ''5'') \<and>
   num_val (JStr ''5'') = None \<and>
   fix_trading_config (Some (Inr (JObj [(''live'', JObj [(''user'', JStr ''bybit_01''), (''leverage'', JStr ''5'')])])))
     (Some (Inr example_api_keys)) = (False, None)"
  using fix_non_numeric_leverage_aborts[of "JObj [(''live'', JObj [(''user'', JStr ''bybit_01''), (''leverage'', JStr ''5'')])]"
      "[(''user'', JStr ''bybit_01''), (''leverage'', JStr ''5'')]" "JStr ''5''" example_api_keys]
  by simp

theorem summary_bad_backtest_blanks_all_witness:
  "map_of [(''backtest'', JList []), (''live'', JObj [(''user'', JStr ''x'')])] ''backtest'' = Some (JList []) \<and>
   (\<forall>d. JList [] \<noteq> JObj d) \<and>
   extract_config_summary (JObj [(''backtest'', JList []), (''live'', JObj [(''user'', JStr ''x'')])]) = initial_summary"
  using summary_bad_backtest_blanks_all[of "[(''backtest'', JList []), (''live'', JObj [(''user'', JStr ''x'')])]" "JList []"]
  by simp

end
