(* ===== verification/Web_Server.thy ===== *)
theory Web_Server
  imports Config_Tools "HOL-Library.List_Lexorder" "HOL-Library.Char_ord"
begin

text \<open>
  The configuration web server of \<open>web_config/enhanced_server.py\<close> and its two launchers
  \<open>web_config/start_server.py\<close> and \<open>web_config/start_enhanced.py\<close>.
  The state is the project directory as a file store: an association list from paths
  relative to the project root to file contents, updated the way \<open>open(p, 'w')\<close> and
  \<open>shutil.copy2\<close> update a directory (\<open>AList.update\<close>), together with the number of
  background backtest threads still running and the process's working directory. Every HTTP route of
  \<open>PassivbotHandler.do_GET\<close>/\<open>do_POST\<close> is one handler returning a response and the new
  store; the end of a background backtest thread is an event of its own, so that a run of
  the server is an interleaving of requests and thread completions. The facts the
  operating system supplies and the model does not compute (file modification times and
  sizes, the newest backtest directory by creation time, the outcome of the backtest
  subprocess, the outcome of binding a port) are inputs.
\<close>

section \<open>Files\<close>

text \<open>A file holds either a JSON document (what \<open>json.dump\<close> wrote and \<open>json.load\<close>
  reads back) or text that is not JSON (a page, or a file edited by hand).\<close>

datatype fcontent = JsonDoc jval | OpaqueDoc string

type_synonym store = "(string \<times> fcontent) list"

definition exists :: "store \<Rightarrow> string \<Rightarrow> bool" where
  "exists fs p = (p \<in> set (map fst fs))"

text \<open>\<open>shutil.copy2(src, dst)\<close>, called only after \<open>src.exists()\<close> was checked.\<close>

definition copy2 :: "store \<Rightarrow> string \<Rightarrow> string \<Rightarrow> store" where
  "copy2 fs src dst = (case map_of fs src of None \<Rightarrow> fs | Some c \<Rightarrow> AList.update dst c fs)"

text \<open>\<open>json.load(f)\<close> of an existing file.\<close>

fun json_load :: "fcontent \<Rightarrow> py_error + jval" where
  "json_load (JsonDoc v) = Inr v"
| "json_load (OpaqueDoc t) = Inl (ValueError ''Expecting value'')"

definition read_json :: "store \<Rightarrow> string \<Rightarrow> py_error + jval" where
  "read_json fs p = (case map_of fs p of None \<Rightarrow> Inl (OSError 2) | Some c \<Rightarrow> json_load c)"

text \<open>\<open>str(n)\<close> of a natural number, as used in \<open>f"config_backup_{int(time.time())}.json"\<close>.\<close>

fun string_of_nat :: "nat \<Rightarrow> string" where
  "string_of_nat n =
     (if n < 10 then [''0123456789'' ! n] else string_of_nat (n div 10) @ [''0123456789'' ! (n mod 10)])"

declare string_of_nat.simps [simp del]

text \<open>\<open>str(e)\<close> of the modelled exceptions.\<close>

fun py_error_str :: "py_error \<Rightarrow> string" where
  "py_error_str (KeyError k) = [CHR 0x27] @ k @ [CHR 0x27]"
| "py_error_str IndexError = ''list index out of range''"
| "py_error_str ZeroDivisionError = ''division by zero''"
| "py_error_str (AttributeError a) = a"
| "py_error_str (TypeError t) = t"
| "py_error_str (ValueError v) = v"
| "py_error_str (OSError n) = ''[Errno '' @ string_of_nat n @ '']''"
| "py_error_str (OverflowError m) = m"
| "py_error_str (ImportError m) = m"

text \<open>The paths the handlers use, relative to \<open>self.project_root\<close>. \<open>time.time()\<close> is
  a positive real; \<open>int\<close> truncates it to whole seconds.\<close>

definition local_config_path :: string where "local_config_path = ''my_config.json''"
definition web_config_path :: string where "web_config_path = ''web_config/my_config.json''"
definition result_file_path :: string where
  "result_file_path = ''web_config/last_backtest_result.json''"

definition backup_path :: "real \<Rightarrow> string" where
  "backup_path now = ''config_backup_'' @ string_of_nat (nat \<lfloor>now\<rfloor>) @ ''.json''"

text \<open>The glob \<open>config_backup_*.json\<close> in the project root (\<open>*\<close> matches no \<open>/\<close>).\<close>

definition is_backup_name :: "string \<Rightarrow> bool" where
  "is_backup_name p =
     (take 14 p = ''config_backup_'' \<and> 19 \<le> length p \<and> drop (length p - 5) p = ''.json''
      \<and> CHR ''/'' \<notin> set p)"

text \<open>UTF-8 text of the Chinese messages the model stores in files.\<close>

definition utf8 :: "nat list \<Rightarrow> string" where "utf8 bs = map char_of bs"

definition msg_timeout :: string where
  "msg_timeout = utf8 [229, 155, 158, 230, 181, 139, 232, 182, 133, 230, 151, 182]"
definition msg_run_failed :: string where
  "msg_run_failed = utf8 [229, 155, 158, 230, 181, 139, 230, 137, 167, 232, 161, 140, 229, 164,
                          177, 232, 180, 165, 58, 32]"
definition msg_no_result :: string where
  "msg_no_result = utf8 [230, 154, 130, 230, 151, 160, 229, 155, 158, 230, 181, 139, 231, 187,
                         147, 230, 158, 156]"
definition msg_results_failed :: string where
  "msg_results_failed = utf8 [232, 142, 183, 229, 143, 150, 231, 187, 147, 230, 158, 156, 229,
                              164, 177, 232, 180, 165, 58, 32]"

section \<open>Server state and responses\<close>

record server_state =
  project_root :: string
  files :: store
  threads :: nat
  cwd :: string

text \<open>\<open>cwd\<close> is the process's working directory as a prefix of project-relative paths:
  \<open>''web_config/''\<close> after \<open>start_enhanced_server\<close>'s \<open>os.chdir(web_config_dir)\<close>,
  \<open>''''\<close> once a backtest thread has run \<open>os.chdir(self.project_root)\<close>.\<close>

definition server_init :: "string \<Rightarrow> store \<Rightarrow> server_state" where
  "server_init project_dir fs = \<lparr>project_root = project_dir, files = fs, threads = 0, cwd = ''web_config/''\<rparr>"

definition abs_path :: "server_state \<Rightarrow> string \<Rightarrow> string" where
  "abs_path s p = project_root s @ ''/'' @ p"

text \<open>The JSON responses of the handlers carry \<open>success\<close>, \<open>message\<close> and further
  fields; the message is named by the handler line that sends it (its Chinese text is not
  reproduced; the messages built with \<open>f"...{e}"\<close> keep the exception).\<close>

datatype srv_msg =
    ConfigSaved | SaveConfigFailed py_error
  | NoConfigToRun | BacktestStarted
  | WebConfigMissing | WebConfigUsed
  | NothingToBackUp | ConfigBackedUp
  | WebConfigActivated | UnsupportedSource | SetActiveFailed py_error

datatype http_response =
    JsonResponse nat bool srv_msg "(string \<times> jval) list"
  | DataResponse nat jval
  | FileResponse nat fcontent
  | ErrorResponse nat string
  | StaticFile string string
  | NoResponse

text \<open>What the operating system answers: \<open>stat\<close> (modification time, size) of a path,
  and the newest subdirectory of \<open>backtests/combined\<close> by creation time, if any.\<close>

record os_view =
  stat_of :: "string \<Rightarrow> real \<times> nat"
  newest_run :: "string option"

section \<open>Handlers\<close>

text \<open>\<open>serve_file\<close> (lines 63--77): \<open>Path(filename)\<close> is relative to the working
  directory.\<close>

definition serve_file :: "server_state \<Rightarrow> string \<Rightarrow> http_response" where
  "serve_file s filename =
     (case map_of (files s) (cwd s @ filename) of
        None \<Rightarrow> ErrorResponse 404 ''File not found''
      | Some c \<Rightarrow> FileResponse 200 c)"

text \<open>\<open>handle_status\<close> (lines 79--91).\<close>

definition handle_status :: "server_state \<Rightarrow> http_response" where
  "handle_status s =
     DataResponse 200 (JObj [(''status'', JStr ''running''), (''project_root'', JStr (project_root s)),
       (''config_exists'', JBool (exists (files s) local_config_path)),
       (''backtest_dir'', JStr (abs_path s ''backtests/combined''))])"

text \<open>\<open>handle_save_config\<close> (lines 93--118). The request body, after
  \<open>int(self.headers['Content-Length'])\<close>, reading and \<open>json.loads\<close>, is the input
  \<open>body\<close>: the parsed document or the exception one of these steps raised.\<close>

definition handle_save_config ::
  "py_error + jval \<Rightarrow> server_state \<Rightarrow> http_response \<times> server_state" where
  "handle_save_config body s =
     (case body of
        Inl e \<Rightarrow> (JsonResponse 500 False (SaveConfigFailed e) [], s)
      | Inr config_data \<Rightarrow>
          (JsonResponse 200 True ConfigSaved [(''path'', JStr (abs_path s local_config_path))],
           s\<lparr>files := AList.update local_config_path (JsonDoc config_data) (files s)\<rparr>))"

text \<open>\<open>handle_run_backtest\<close> (lines 120--176). The thread started at line 163 first runs
  \<open>os.chdir(self.project_root)\<close> (line 137); the model performs that statement when the
  thread starts and counts the thread as running until its end event.\<close>

definition handle_run_backtest :: "server_state \<Rightarrow> http_response \<times> server_state" where
  "handle_run_backtest s =
     (if \<not> exists (files s) local_config_path then (JsonResponse 400 False NoConfigToRun [], s)
      else (JsonResponse 200 True BacktestStarted [], s\<lparr>threads := Suc (threads s), cwd := []\<rparr>))"

text \<open>\<open>save_backtest_result\<close> (lines 186--203): \<open>result\<close> is the completed process
  (return code, captured stdout and stderr) or \<open>None\<close>.\<close>

definition save_backtest_result ::
  "real \<Rightarrow> (int \<times> string \<times> string) option \<Rightarrow> string option \<Rightarrow> store \<Rightarrow> store" where
  "save_backtest_result now result error_msg fs =
     AList.update result_file_path (JsonDoc (JObj [
       (''timestamp'', JFloat now),
       (''success'', JBool (case result of None \<Rightarrow> False | Some (rc, _, _) \<Rightarrow> rc = 0)),
       (''error'', (case error_msg of None \<Rightarrow> JNull | Some m \<Rightarrow> JStr m)),
       (''stdout'', JStr (case result of None \<Rightarrow> [] | Some (_, out, _) \<Rightarrow> out)),
       (''stderr'', JStr (case result of None \<Rightarrow> [] | Some (_, _, err) \<Rightarrow> err))])) fs"

text \<open>The outcome of \<open>subprocess.run(cmd, capture_output=True, text=True, timeout=300)\<close>:
  a completed process, \<open>TimeoutExpired\<close>, or another exception.\<close>

datatype run_outcome = Completed int string string | TimedOut | RunFailed py_error

text \<open>The rest of \<open>run_backtest_thread\<close> (lines 133--157).\<close>

definition run_backtest_thread :: "real \<Rightarrow> run_outcome \<Rightarrow> store \<Rightarrow> store" where
  "run_backtest_thread now oc fs =
     (case oc of
        Completed rc out err \<Rightarrow> save_backtest_result now (Some (rc, out, err)) None fs
      | TimedOut \<Rightarrow> save_backtest_result now None (Some msg_timeout) fs
      | RunFailed e \<Rightarrow> save_backtest_result now None (Some (msg_run_failed @ py_error_str e)) fs)"

text \<open>\<open>get_backtest_results\<close> (lines 205--247) and \<open>handle_backtest_results\<close>
  (lines 178--184); the body of the \<open>try\<close> first, then its handler.\<close>

definition default_result :: jval where
  "default_result = JObj [(''timestamp'', JInt 0), (''success'', JBool False),
     (''error'', JStr msg_no_result), (''stdout'', JStr []), (''stderr'', JStr [])]"

definition read_backtest_results :: "os_view \<Rightarrow> server_state \<Rightarrow> py_error + jval" where
  "read_backtest_results env s =
     sbind (if exists (files s) result_file_path then read_json (files s) result_file_path
            else Inr default_result) (\<lambda>result_data.
     case newest_run env of
       None \<Rightarrow> Inr (JObj [(''execution'', result_data), (''latest_backtest'', JNull), (''analysis'', JNull)])
     | Some d \<Rightarrow>
         sbind (if exists (files s) (d @ ''/analysis.json'') then read_json (files s) (d @ ''/analysis.json'')
                else Inr JNull) (\<lambda>analysis_data.
         Inr (JObj [(''execution'', result_data), (''latest_backtest'', JStr (abs_path s d)),
                    (''analysis'', analysis_data)])))"

definition get_backtest_results :: "os_view \<Rightarrow> server_state \<Rightarrow> jval" where
  "get_backtest_results env s =
     (case read_backtest_results env s of
        Inr r \<Rightarrow> r
      | Inl e \<Rightarrow> JObj [(''execution'', JObj [(''error'', JStr (msg_results_failed @ py_error_str e))]),
                      (''latest_backtest'', JNull), (''analysis'', JNull)])"

definition handle_backtest_results :: "os_view \<Rightarrow> server_state \<Rightarrow> http_response" where
  "handle_backtest_results env s = DataResponse 200 (get_backtest_results env s)"

text \<open>\<open>handle_config_status\<close> (lines 249--302) and \<open>parse_config_details\<close>
  (lines 429--454). The backups are the glob's matches sorted in reverse string order,
  at most ten.\<close>

definition config_file_info :: "os_view \<Rightarrow> server_state \<Rightarrow> string \<Rightarrow> jval" where
  "config_file_info env s p =
     (let ex = exists (files s) p; (mtime, size) = stat_of env p in
      JObj [(''exists'', JBool ex), (''path'', JStr (abs_path s p)),
            (''modified'', if ex then JFloat mtime else JNull), (''size'', JInt (if ex then int size else 0))])"

definition backup_info :: "os_view \<Rightarrow> server_state \<Rightarrow> string \<Rightarrow> jval" where
  "backup_info env s p =
     JObj [(''name'', JStr p), (''path'', JStr (abs_path s p)),
           (''modified'', JFloat (fst (stat_of env p))), (''size'', JInt (int (snd (stat_of env p))))]"

definition list_backups :: "store \<Rightarrow> string list" where
  "list_backups fs = take 10 (rev (sort (filter is_backup_name (map fst fs))))"

definition detail_step :: "store \<Rightarrow> string \<Rightarrow> string \<Rightarrow> (string \<times> jval) list \<Rightarrow>
                           py_error + (string \<times> jval) list" where
  "detail_step fs key p details =
     (if exists fs p then sbind (read_json fs p) (\<lambda>c. Inr (AList.update key (extract_config_summary c) details))
      else Inr details)"

definition parse_config_details :: "store \<Rightarrow> jval" where
  "parse_config_details fs =
     JObj (run_until_error [detail_step fs ''local_config'' local_config_path,
                            detail_step fs ''web_config'' web_config_path]
            [(''local_config'', JNull), (''web_config'', JNull)])"

definition handle_config_status :: "os_view \<Rightarrow> server_state \<Rightarrow> http_response" where
  "handle_config_status env s =
     DataResponse 200 (JObj [(''local_config'', config_file_info env s local_config_path),
       (''web_config'', config_file_info env s web_config_path),
       (''backups'', JList (map (backup_info env s) (list_backups (files s)))),
       (''config_details'', parse_config_details (files s))])"

text \<open>The backup statement shared by \<open>handle_use_web_config\<close> (lines 318--322) and
  \<open>handle_set_active_config\<close> (lines 398--402).\<close>

definition backup_local :: "real \<Rightarrow> store \<Rightarrow> store" where
  "backup_local now fs =
     (if exists fs local_config_path then copy2 fs local_config_path (backup_path now) else fs)"

text \<open>\<open>handle_use_web_config\<close> (lines 304--341).\<close>

definition handle_use_web_config :: "real \<Rightarrow> server_state \<Rightarrow> http_response \<times> server_state" where
  "handle_use_web_config now s =
     (if \<not> exists (files s) web_config_path then (JsonResponse 400 False WebConfigMissing [], s)
      else let fs' = copy2 (backup_local now (files s)) web_config_path local_config_path in
        (JsonResponse 200 True WebConfigUsed [(''backup_created'', JBool (exists fs' local_config_path))],
         s\<lparr>files := fs'\<rparr>))"

text \<open>\<open>handle_backup_config\<close> (lines 343--374).\<close>

definition handle_backup_config :: "real \<Rightarrow> server_state \<Rightarrow> http_response \<times> server_state" where
  "handle_backup_config now s =
     (if \<not> exists (files s) local_config_path then (JsonResponse 400 False NothingToBackUp [], s)
      else (JsonResponse 200 True ConfigBackedUp [(''backup_file'', JStr (abs_path s (backup_path now)))],
            s\<lparr>files := copy2 (files s) local_config_path (backup_path now)\<rparr>))"

text \<open>\<open>handle_set_active_config\<close> (lines 376--427): \<open>data.get('source', 'web')\<close>, then
  Python's \<open>==\<close> against \<open>'web'\<close>.\<close>

definition handle_set_active_config ::
  "py_error + jval \<Rightarrow> real \<Rightarrow> server_state \<Rightarrow> http_response \<times> server_state" where
  "handle_set_active_config body now s =
     (case sbind body (\<lambda>data. dict_get data ''source'' (JStr ''web'')) of
        Inl e \<Rightarrow> (JsonResponse 500 False (SetActiveFailed e) [], s)
      | Inr config_source \<Rightarrow>
          if py_eq config_source (JStr ''web'') then
            (if \<not> exists (files s) web_config_path then (JsonResponse 400 False WebConfigMissing [], s)
             else (JsonResponse 200 True WebConfigActivated [],
                   s\<lparr>files := copy2 (backup_local now (files s)) web_config_path local_config_path\<rparr>))
          else (JsonResponse 400 False UnsupportedSource [], s))"

section \<open>Routing and runs\<close>

text \<open>\<open>urlparse(self.path).path\<close> of a request path (which starts with one \<open>/\<close>):
  the text before the query and the fragment.\<close>

definition url_path :: "string \<Rightarrow> string" where
  "url_path p = takeWhile (\<lambda>c. c \<noteq> CHR ''?'' \<and> c \<noteq> CHR ''#'') p"

text \<open>\<open>do_GET\<close> (lines 29--47); the last branch is
  \<open>SimpleHTTPRequestHandler.do_GET\<close>, which serves the path from the working directory.\<close>

definition do_GET :: "os_view \<Rightarrow> real \<Rightarrow> string \<Rightarrow> server_state \<Rightarrow> http_response \<times> server_state" where
  "do_GET env now raw s =
     (let path = url_path raw in
      if path = ''/'' then (serve_file s ''index.html'', s)
      else if path = ''/api/status'' then (handle_status s, s)
      else if path = ''/api/backtest/results'' then (handle_backtest_results env s, s)
      else if path = ''/api/config/status'' then (handle_config_status env s, s)
      else if path = ''/api/config/use-web'' then handle_use_web_config now s
      else if path = ''/api/config/backup'' then handle_backup_config now s
      else (StaticFile (cwd s) path, s))"

text \<open>\<open>do_POST\<close> (lines 49--61).\<close>

definition do_POST ::
  "real \<Rightarrow> string \<Rightarrow> py_error + jval \<Rightarrow> server_state \<Rightarrow> http_response \<times> server_state" where
  "do_POST now raw body s =
     (let path = url_path raw in
      if path = ''/api/save-config'' then handle_save_config body s
      else if path = ''/api/run-backtest'' then handle_run_backtest s
      else if path = ''/api/config/set-active'' then handle_set_active_config body now s
      else (ErrorResponse 404 ''Not Found'', s))"

text \<open>\<open>socketserver.TCPServer\<close> handles one request at a time; the only concurrency is
  the backtest threads, whose ends interleave with the requests.\<close>

datatype request = GET string | POST string "py_error + jval"

datatype server_event = Request real request | ThreadEnds real run_outcome

fun server_step :: "os_view \<Rightarrow> server_state \<Rightarrow> server_event \<Rightarrow> http_response \<times> server_state" where
  "server_step env s (Request now (GET p)) = do_GET env now p s"
| "server_step env s (Request now (POST p body)) = do_POST now p body s"
| "server_step env s (ThreadEnds now oc) =
     (if threads s = 0 then (NoResponse, s)
      else (NoResponse, s\<lparr>files := run_backtest_thread now oc (files s), threads := threads s - 1\<rparr>))"

fun server_run ::
  "os_view \<Rightarrow> server_state \<Rightarrow> server_event list \<Rightarrow> http_response list \<times> server_state" where
  "server_run env s [] = ([], s)"
| "server_run env s (ev # evs) =
     (let (r, s') = server_step env s ev; (rs, s'') = server_run env s' evs in (r # rs, s''))"

section \<open>Launchers\<close>

text \<open>What happens when \<open>socketserver.TCPServer(("", port), ...)\<close> is created and served:
  the server runs until Ctrl+C (\<open>KeyboardInterrupt\<close>), or an \<open>OSError\<close> with an errno.
  A port above 65535 makes \<open>bind\<close> raise \<open>OverflowError\<close>, which is not an \<open>OSError\<close>
  and leaves the function.\<close>

datatype bind_outcome = ServedUntilInterrupt | BindFailed nat

text \<open>\<open>start_server\<close> of \<open>start_server.py\<close> (lines 14--68). The result is the
  returned value or the escaping exception, and the ports reported busy on the console
  (line 61). Only errno 48, \<open>EADDRINUSE\<close> on macOS, retries with the next port.\<close>

function start_server ::
  "bool \<Rightarrow> (nat \<Rightarrow> bind_outcome) \<Rightarrow> nat \<Rightarrow> (py_error + bool) \<times> nat list" where
  "start_server has_index bind port =
     (if \<not> has_index then (Inr False, [])
      else if 65535 < port then (Inl (OverflowError ''bind(): port must be 0-65535.''), [])
      else case bind port of
             ServedUntilInterrupt \<Rightarrow> (Inr True, [])
           | BindFailed errno \<Rightarrow>
               if errno = 48 then (let (r, busy) = start_server has_index bind (port + 1) in (r, port # busy))
               else (Inr False, []))"
  by pat_completeness auto
termination
  by (relation "measure (\<lambda>(_, _, port). 65536 - port)") auto

declare start_server.simps [simp del]

text \<open>\<open>start_enhanced_server\<close> (\<open>enhanced_server.py\<close>, lines 530--578) has the control
  flow of \<open>start_server\<close> statement for statement (it serves \<open>PassivbotHandler\<close> instead
  of \<open>SimpleHTTPRequestHandler\<close>, and prints other text).\<close>

definition start_enhanced_server ::
  "bool \<Rightarrow> (nat \<Rightarrow> bind_outcome) \<Rightarrow> nat \<Rightarrow> (py_error + bool) \<times> nat list" where
  "start_enhanced_server = start_server"

text \<open>\<open>main\<close> of \<open>enhanced_server.py\<close> (lines 581--594), on a Python of version 3.6 or
  later: the exit code, or the escaping exception.\<close>

definition enhanced_main :: "bool \<Rightarrow> (nat \<Rightarrow> bind_outcome) \<Rightarrow> py_error + int" where
  "enhanced_main has_index bind =
     sbind (fst (start_enhanced_server has_index bind 8080)) (\<lambda>ok. Inr (if ok then 0 else 1))"

text \<open>\<open>main\<close> of \<open>start_server.py\<close> (lines 70--84), with the same shape.\<close>

definition start_server_main :: "bool \<Rightarrow> (nat \<Rightarrow> bind_outcome) \<Rightarrow> py_error + int" where
  "start_server_main has_index bind =
     sbind (fst (start_server has_index bind 8080)) (\<lambda>ok. Inr (if ok then 0 else 1))"

text \<open>\<open>setup_enhanced_server\<close> and \<open>main\<close> of \<open>start_enhanced.py\<close> (lines 11--59), on
  the files of the \<open>web_config\<close> directory; \<open>start_server\<close> there turns every exception
  into exit code 1.\<close>

definition setup_enhanced_server :: "store \<Rightarrow> bool \<times> store" where
  "setup_enhanced_server fs =
     (if exists fs ''web_config/enhanced_index.html'' \<and> exists fs ''web_config/enhanced_server.py'' then
        (True, copy2 (if exists fs ''web_config/index.html''
                      then copy2 fs ''web_config/index.html'' ''web_config/index_backup.html'' else fs)
                     ''web_config/enhanced_index.html'' ''web_config/index.html'')
      else (False, fs))"

definition start_enhanced_main :: "(nat \<Rightarrow> bind_outcome) \<Rightarrow> store \<Rightarrow> int \<times> store" where
  "start_enhanced_main bind fs =
     (case setup_enhanced_server fs of
        (False, fs') \<Rightarrow> (1, fs')
      | (True, fs') \<Rightarrow>
          ((case enhanced_main (exists fs' ''web_config/index.html'') bind of Inl _ \<Rightarrow> 1 | Inr rc \<Rightarrow> rc), fs'))"

section \<open>Reachable states\<close>

text \<open>The states a started server can reach, one event at a time.\<close>

inductive server_reach :: "os_view \<Rightarrow> server_state \<Rightarrow> server_state \<Rightarrow> bool" for env s0 where
  reach_init: "server_reach env s0 s0"
| reach_step: "server_reach env s0 s \<Longrightarrow> server_reach env s0 (snd (server_step env s ev))"

text \<open>Example project: a page and a web configuration in \<open>web_config\<close>, and a local
  configuration with another leverage.\<close>

abbreviation example_env :: os_view where
  "example_env \<equiv> \<lparr>stat_of = (\<lambda>p. (0, 0)), newest_run = None\<rparr>"

abbreviation web_cfg :: jval where "web_cfg \<equiv> JObj [(''live'', JObj [(''leverage'', JInt 5)])]"
abbreviation local_cfg :: jval where "local_cfg \<equiv> JObj [(''live'', JObj [(''leverage'', JInt 1)])]"

abbreviation example_files :: store where
  "example_files \<equiv> [(''web_config/index.html'', OpaqueDoc ''<html>''),
     (''web_config/my_config.json'', JsonDoc web_cfg), (''my_config.json'', JsonDoc local_cfg)]"

abbreviation example_server :: server_state where
  "example_server \<equiv> server_init ''/srv/passivbot'' example_files"

section \<open>Properties\<close>

lemma exists_update [simp]: "exists (AList.update k v fs) p = (p = k \<or> exists fs p)"
  by (simp add: exists_def dom_update)

lemma exists_copy2: "exists fs p \<Longrightarrow> exists (copy2 fs a b) p"
  by (simp add: copy2_def split: option.split)

lemma distinct_copy2: "distinct (map fst fs) \<Longrightarrow> distinct (map fst (copy2 fs a b))"
  by (simp add: copy2_def distinct_update split: option.split)

lemma exists_backup_local: "exists fs p \<Longrightarrow> exists (backup_local now fs) p"
  by (simp add: backup_local_def exists_copy2)

lemma distinct_backup_local: "distinct (map fst fs) \<Longrightarrow> distinct (map fst (backup_local now fs))"
  by (simp add: backup_local_def distinct_copy2)

lemma map_of_copy2: "map_of (copy2 fs a b) = (case map_of fs a of None \<Rightarrow> map_of fs | Some c \<Rightarrow> (map_of fs)(b \<mapsto> c))"
  by (simp add: copy2_def update_conv' split: option.split)

lemma run_backtest_thread_update: "\<exists>c. run_backtest_thread now oc fs = AList.update result_file_path c fs"
  by (auto simp: run_backtest_thread_def save_backtest_result_def split: run_outcome.split)

lemma server_step_exists:
  assumes "exists (files s) p" shows "exists (files (snd (server_step env s ev))) p"
proof (cases ev)
  case (Request now req)
  then show ?thesis
    using assms
    by (cases req)
       (auto simp: do_GET_def do_POST_def Let_def handle_save_config_def handle_run_backtest_def
          handle_use_web_config_def handle_backup_config_def handle_set_active_config_def
          exists_copy2 exists_backup_local split: sum.split)
next
  case (ThreadEnds now oc)
  then show ?thesis using assms run_backtest_thread_update[of now oc "files s"] by auto
qed

lemma backup_path_ne [simp]:
  "backup_path now \<noteq> local_config_path" "backup_path now \<noteq> web_config_path"
  "backup_path now \<noteq> result_file_path" "local_config_path \<noteq> backup_path now"
  "web_config_path \<noteq> backup_path now" "result_file_path \<noteq> backup_path now"
  by (simp_all add: backup_path_def local_config_path_def web_config_path_def result_file_path_def)

lemma config_paths_ne [simp]: "web_config_path \<noteq> local_config_path" "result_file_path \<noteq> local_config_path"
  "local_config_path \<noteq> web_config_path" "local_config_path \<noteq> result_file_path"
  by (simp_all add: local_config_path_def web_config_path_def result_file_path_def)

lemma map_of_backup_local:
  "map_of (backup_local now fs) = (if exists fs local_config_path
     then (map_of fs)(backup_path now := map_of fs local_config_path) else map_of fs)"
  by (auto simp: backup_local_def copy2_def update_conv' exists_def split: option.split
           dest: weak_map_of_SomeI intro!: ext)

lemma snd_server_run_Cons [simp]:
  "snd (server_run env s (ev # evs)) = snd (server_run env (snd (server_step env s ev)) evs)"
  by (simp add: split_def Let_def)

lemma exists_map_of: "exists fs p = (map_of fs p \<noteq> None)"
  by (simp add: exists_def map_of_eq_None_iff)

lemma use_web_files:
  assumes "exists (files s) web_config_path"
  shows "map_of (files (snd (handle_use_web_config now s))) =
           (map_of (backup_local now (files s)))(local_config_path := map_of (files s) web_config_path)"
  using assms
  by (auto simp: handle_use_web_config_def Let_def map_of_copy2 map_of_backup_local exists_map_of
           split: option.split)

text \<open>C11: no request and no backtest thread deletes a file: a path of the project directory before a run of the server is still there after it.\<close>

theorem server_run_keeps_files:
  "exists (files s) p \<Longrightarrow> exists (files (snd (server_run env s evs))) p"
proof (induction evs arbitrary: s)
  case (Cons ev evs)
  then show ?case
    using Cons.IH[OF server_step_exists[OF Cons.prems]] by (simp del: server_run.simps)
qed auto

lemma server_step_distinct:
  assumes "distinct (map fst (files s))" shows "distinct (map fst (files (snd (server_step env s ev))))"
proof (cases ev)
  case (Request now req)
  then show ?thesis
    using assms
    by (cases req)
       (auto simp: do_GET_def do_POST_def Let_def handle_save_config_def handle_run_backtest_def
          handle_use_web_config_def handle_backup_config_def handle_set_active_config_def
          distinct_copy2 distinct_backup_local distinct_update split: sum.split)
next
  case (ThreadEnds now oc)
  then show ?thesis using assms run_backtest_thread_update[of now oc "files s"] by (auto simp: distinct_update)
qed


text \<open>GET /api/config/backup stores the current configuration under the backup name of this second and leaves it in place; reading the backup gives what reading the configuration gave.\<close>

theorem backup_roundtrip:
  assumes "exists (files s) local_config_path" and "handle_backup_config now s = (r, s')"
  shows "map_of (files s') (backup_path now) = map_of (files s) local_config_path
       \<and> map_of (files s') local_config_path = map_of (files s) local_config_path
       \<and> read_json (files s') (backup_path now) = read_json (files s) local_config_path"
  using assms
  by (auto simp: handle_backup_config_def copy2_def update_conv' read_json_def exists_def
           split: option.split dest: weak_map_of_SomeI)

text \<open>C19: two uses of the web configuration within one second write the same backup file, so the second backup holds the web configuration and the configuration the first one saved is lost.\<close>

theorem use_web_same_second_overwrites_backup:
  assumes "exists (files s) web_config_path" and "exists (files s) local_config_path"
    and "\<lfloor>now'\<rfloor> = \<lfloor>now\<rfloor>"
    and "s2 = snd (handle_use_web_config now' (snd (handle_use_web_config now s)))"
  shows "map_of (files s2) (backup_path now) = map_of (files s) web_config_path"
proof -
  let ?s1 = "snd (handle_use_web_config now s)"
  have m1: "map_of (files ?s1) = (map_of (files s))(backup_path now := map_of (files s) local_config_path,
                                   local_config_path := map_of (files s) web_config_path)"
    using assms(1,2) by (simp add: use_web_files map_of_backup_local)
  have "exists (files ?s1) web_config_path" "exists (files ?s1) local_config_path"
    using assms(1) by (simp_all add: m1 exists_map_of)
  moreover have "backup_path now' = backup_path now"
    using assms(3) by (simp add: backup_path_def)
  ultimately show ?thesis
    using assms(4) by (simp add: use_web_files map_of_backup_local m1)
qed

lemma url_path_literal [simp]:
  "url_path ''/'' = ''/''" "url_path ''/api/config/use-web'' = ''/api/config/use-web''"
  "url_path ''/api/config/set-active'' = ''/api/config/set-active''"
  "url_path ''/api/run-backtest'' = ''/api/run-backtest''"
  by (simp_all add: url_path_def)

text \<open>C13: POST /api/config/set-active with source 'web' (or none) changes the files exactly as GET /api/config/use-web does, and answers with the same status and success flag.\<close>

theorem set_active_web_is_use_web:
  assumes "dict_get data ''source'' (JStr ''web'') = Inr src" and "py_eq src (JStr ''web'')"
  shows "snd (do_POST now ''/api/config/set-active'' (Inr data) s) = snd (do_GET env now ''/api/config/use-web'' s)
       \<and> (\<exists>c b m m' f f'. fst (do_POST now ''/api/config/set-active'' (Inr data) s) = JsonResponse c b m f
                        \<and> fst (do_GET env now ''/api/config/use-web'' s) = JsonResponse c b m' f')"
  using assms
  by (auto simp: do_POST_def do_GET_def handle_set_active_config_def handle_use_web_config_def Let_def)

text \<open>POST /api/config/set-active with any source other than 'web' (its comment also allows 'local') is answered with 400 and leaves the state unchanged.\<close>

theorem set_active_other_source_rejected:
  assumes "dict_get data ''source'' (JStr ''web'') = Inr src" and "\<not> py_eq src (JStr ''web'')"
  shows "handle_set_active_config (Inr data) now s = (JsonResponse 400 False UnsupportedSource [], s)"
  using assms by (simp add: handle_set_active_config_def)

text \<open>C20: use-web reports backup_created true even when there was no local configuration and no backup file was written.\<close>

theorem use_web_reports_backup_always:
  assumes "exists (files s) web_config_path" and "\<not> exists (files s) local_config_path"
    and "\<not> exists (files s) (backup_path now)"
  shows "handle_use_web_config now s =
           (JsonResponse 200 True WebConfigUsed [(''backup_created'', JBool True)],
            snd (handle_use_web_config now s))
       \<and> \<not> exists (files (snd (handle_use_web_config now s))) (backup_path now)"
  using assms by (simp add: use_web_files map_of_backup_local exists_map_of)
    (simp add: handle_use_web_config_def Let_def exists_map_of map_of_copy2 map_of_backup_local split: option.split)


text \<open>C14: once a backtest has been started, GET / reads index.html from the project root instead of web_config, and every other path is served from the project root.\<close>

theorem run_backtest_moves_cwd:
  assumes "exists (files s) local_config_path"
    and "s' = snd (do_POST now ''/api/run-backtest'' body s)"
  shows "fst (do_GET env t ''/'' s') =
           (case map_of (files s) ''index.html'' of None \<Rightarrow> ErrorResponse 404 ''File not found''
            | Some c \<Rightarrow> FileResponse 200 c)
       \<and> do_GET env t ''/api-keys.json'' s' = (StaticFile [] ''/api-keys.json'', s')"
  using assms
  by (simp add: do_POST_def do_GET_def handle_run_backtest_def serve_file_def url_path_def)

text \<open>C27: the port-retry recursion of the launchers reports a run of consecutive busy ports starting at the requested one, and tries at most 65536 - port ports before it stops.\<close>

theorem start_server_busy_ports:
  "snd (start_server has_index bind port) = [port ..< port + length (snd (start_server has_index bind port))]
   \<and> length (snd (start_server has_index bind port)) \<le> 65536 - port"
proof (induction has_index bind port rule: start_server.induct)
  case (1 has_index bind port)
  show ?case
  proof (cases "has_index \<and> port \<le> 65535 \<and> bind port = BindFailed 48")
    case True
    obtain r busy where rec: "start_server has_index bind (port + 1) = (r, busy)" by fastforce
    have run: "start_server has_index bind port = (r, port # busy)"
      using True rec by (subst start_server.simps) simp
    have IH: "busy = [port + 1 ..< port + 1 + length busy]" "length busy \<le> 65536 - (port + 1)"
      using "1" True rec by fastforce+
    have "Suc (length busy) \<le> 65536 - port"
      using IH(2) True by arith
    moreover have "port # busy = [port ..< port + Suc (length busy)]"
      by (subst IH(1)) (simp add: upt_conv_Cons del: upt_Suc)
    ultimately show ?thesis
      by (simp add: run del: upt_Suc)
  next
    case False
    then show ?thesis
      by (subst (1 2 3) start_server.simps) (auto split: bind_outcome.split)
  qed
qed

lemma server_step_threads:
  "threads (snd (server_step env s ev)) \<le> Suc (threads s) \<and>
   (threads s < threads (snd (server_step env s ev)) \<longrightarrow>
      cwd (snd (server_step env s ev)) = [] \<and> exists (files s) local_config_path) \<and>
   (cwd (snd (server_step env s ev)) = cwd s \<or> cwd (snd (server_step env s ev)) = [])"
proof (cases ev)
  case (Request now req)
  then show ?thesis
    by (cases req)
       (auto simp: do_GET_def do_POST_def Let_def handle_save_config_def handle_run_backtest_def
          handle_use_web_config_def handle_backup_config_def handle_set_active_config_def split: sum.split)
qed auto

lemma server_step_running_inv:
  assumes "0 < threads s \<longrightarrow> cwd s = [] \<and> exists (files s) local_config_path"
  shows "0 < threads (snd (server_step env s ev)) \<longrightarrow>
           cwd (snd (server_step env s ev)) = [] \<and> exists (files (snd (server_step env s ev))) local_config_path"
  using assms server_step_threads[of env s ev] server_step_exists[of s local_config_path env ev]
  by (cases "threads s < threads (snd (server_step env s ev))") auto

text \<open>C25: in every state reachable from the started server, a running backtest thread implies a saved local configuration and a working directory moved to the project root.\<close>

theorem server_reach_running_thread:
  assumes "server_reach env (server_init d fs) s" and "0 < threads s"
  shows "cwd s = [] \<and> exists (files s) local_config_path"
proof -
  have "0 < threads s \<longrightarrow> cwd s = [] \<and> exists (files s) local_config_path"
    using assms(1)
    by (induction rule: server_reach.induct) (simp_all add: server_init_def server_step_running_inv)
  then show ?thesis using assms(2) by blast
qed

lemma run_backtest_thread_result:
  "map_of (run_backtest_thread t oc fs) result_file_path = map_of (run_backtest_thread t oc fs') result_file_path"
  by (cases oc) (simp_all add: run_backtest_thread_def save_backtest_result_def update_conv')

text \<open>C26: when the running backtest threads end, no thread is left running and the result file holds the record of the last one to end.\<close>

theorem running_backtests_drain:
  assumes "length ocs = threads s" and "ocs \<noteq> []"
  shows "threads (snd (server_run env s (map (\<lambda>(t, oc). ThreadEnds t oc) ocs))) = 0
       \<and> map_of (files (snd (server_run env s (map (\<lambda>(t, oc). ThreadEnds t oc) ocs)))) result_file_path
         = map_of (run_backtest_thread (fst (last ocs)) (snd (last ocs)) []) result_file_path"
  using assms
proof (induction ocs arbitrary: s)
  case (Cons toc ocs)
  obtain t oc where toc: "toc = (t, oc)" by fastforce
  let ?s1 = "snd (server_step env s (ThreadEnds t oc))"
  have f1: "files ?s1 = run_backtest_thread t oc (files s)"
    using Cons.prems(1) by simp
  have s1: "threads ?s1 = length ocs"
    "map_of (files ?s1) result_file_path = map_of (run_backtest_thread t oc []) result_file_path"
    using Cons.prems(1) unfolding f1 by (simp_all only: run_backtest_thread_result[of t oc "files s" "[]"]) simp
  show ?case
  proof (cases "ocs = []")
    case True
    then show ?thesis using s1 toc by (simp del: server_step.simps server_run.simps(2))
  next
    case False
    then show ?thesis using Cons.IH[OF s1(1)[symmetric] False] toc by (simp del: server_run.simps(2) server_step.simps)
  qed
qed simp

text \<open>A bind error with any errno other than 48, the macOS EADDRINUSE (Linux reports 98), ends the launcher with False at once, without trying another port.\<close>

theorem start_server_other_errno:
  "port \<le> 65535 \<Longrightarrow> bind port = BindFailed errno \<Longrightarrow> errno \<noteq> 48 \<Longrightarrow>
     start_server True bind port = (Inr False, [])"
  by (subst start_server.simps) simp

lemma start_server_served:
  "port \<le> 65535 \<Longrightarrow> bind port = ServedUntilInterrupt \<Longrightarrow> start_server True bind port = (Inr True, [])"
  by (subst start_server.simps) simp

text \<open>Start_enhanced.py installs enhanced_index.html as index.html (keeping the old page as index_backup.html), after which the server's own index check passes and a served port gives exit code 0.\<close>

theorem start_enhanced_launch:
  assumes "exists fs ''web_config/enhanced_index.html''" and "exists fs ''web_config/enhanced_server.py''"
    and "bind 8080 = ServedUntilInterrupt"
  shows "fst (start_enhanced_main bind fs) = 0
       \<and> map_of (snd (start_enhanced_main bind fs)) ''web_config/index.html''
           = map_of fs ''web_config/enhanced_index.html''
       \<and> map_of (snd (start_enhanced_main bind fs)) ''web_config/index_backup.html''
           = (if exists fs ''web_config/index.html'' then map_of fs ''web_config/index.html''
              else map_of fs ''web_config/index_backup.html'')"
  using assms
  by (auto simp: start_enhanced_main_def setup_enhanced_server_def enhanced_main_def start_enhanced_server_def
        start_server_served map_of_copy2 exists_map_of split: option.split)

section \<open>Witnesses\<close>

lemma server_run_keeps_files_witness:
  "exists (files example_server) local_config_path \<and>
   exists (files (snd (server_run example_env example_server
     [Request 100 (POST ''/api/save-config'' (Inr JNull)), Request 101 (GET ''/api/config/use-web'')])))
     local_config_path"
  using server_run_keeps_files[of example_server local_config_path example_env
      "[Request 100 (POST ''/api/save-config'' (Inr JNull)), Request 101 (GET ''/api/config/use-web'')]"]
  by (simp add: server_init_def exists_def local_config_path_def)


lemma set_active_web_is_use_web_witness:
  "dict_get (JObj [(''source'', JStr ''web'')]) ''source'' (JStr ''web'') = Inr (JStr ''web'') \<and>
   py_eq (JStr ''web'') (JStr ''web'') \<and>
   snd (do_POST 100 ''/api/config/set-active'' (Inr (JObj [(''source'', JStr ''web'')])) example_server)
     = snd (do_GET example_env 100 ''/api/config/use-web'' example_server)"
  using set_active_web_is_use_web[of "JObj [(''source'', JStr ''web'')]" "JStr ''web''" 100 example_server example_env]
  by simp

lemma backup_roundtrip_witness:
  "exists (files example_server) local_config_path \<and>
   read_json (files (snd (handle_backup_config 100 example_server))) (backup_path 100) = Inr local_cfg"
  using backup_roundtrip[of example_server 100 "fst (handle_backup_config 100 example_server)"
      "snd (handle_backup_config 100 example_server)"]
  by (simp add: server_init_def exists_def local_config_path_def read_json_def)

lemma use_web_same_second_overwrites_backup_witness:
  "exists (files example_server) web_config_path \<and> exists (files example_server) local_config_path \<and>
   map_of (files (snd (handle_use_web_config 100 (snd (handle_use_web_config 100 example_server)))))
     (backup_path 100) = Some (JsonDoc web_cfg) \<and> web_cfg \<noteq> local_cfg"
  using use_web_same_second_overwrites_backup[of example_server 100 100
      "snd (handle_use_web_config 100 (snd (handle_use_web_config 100 example_server)))"]
  by (simp add: server_init_def exists_def local_config_path_def web_config_path_def)

lemma use_web_reports_backup_always_witness:
  "handle_use_web_config 100 (server_init ''/srv/passivbot'' [(''web_config/my_config.json'', JsonDoc web_cfg)]) =
     (JsonResponse 200 True WebConfigUsed [(''backup_created'', JBool True)],
      snd (handle_use_web_config 100 (server_init ''/srv/passivbot'' [(''web_config/my_config.json'', JsonDoc web_cfg)])))
   \<and> \<not> exists (files (snd (handle_use_web_config 100
         (server_init ''/srv/passivbot'' [(''web_config/my_config.json'', JsonDoc web_cfg)])))) (backup_path 100)"
  using use_web_reports_backup_always[of
      "server_init ''/srv/passivbot'' [(''web_config/my_config.json'', JsonDoc web_cfg)]" 100]
  by (simp add: server_init_def exists_def local_config_path_def web_config_path_def backup_path_def
                string_of_nat.simps)


lemma run_backtest_moves_cwd_witness:
  "exists (files example_server) local_config_path \<and>
   fst (do_GET example_env 101 ''/'' (snd (do_POST 100 ''/api/run-backtest'' (Inr JNull) example_server)))
     = ErrorResponse 404 ''File not found''"
  using run_backtest_moves_cwd[of example_server "snd (do_POST 100 ''/api/run-backtest'' (Inr JNull) example_server)"
      100 "Inr JNull" example_env 101]
  by (simp add: server_init_def exists_def local_config_path_def)

lemma server_reach_running_thread_witness:
  "server_reach example_env example_server
     (snd (server_step example_env example_server (Request 100 (POST ''/api/run-backtest'' (Inr JNull))))) \<and>
   cwd (snd (server_step example_env example_server (Request 100 (POST ''/api/run-backtest'' (Inr JNull))))) = []"
proof -
  have r: "server_reach example_env example_server
     (snd (server_step example_env example_server (Request 100 (POST ''/api/run-backtest'' (Inr JNull)))))"
    by (rule server_reach.reach_step[OF server_reach.reach_init])
  show ?thesis
    using r server_reach_running_thread[OF r]
    by (simp add: server_init_def do_POST_def url_path_def handle_run_backtest_def exists_def local_config_path_def)
qed

lemma running_backtests_drain_witness:
  "threads (snd (server_run example_env (example_server\<lparr>threads := 1\<rparr>) [ThreadEnds 200 TimedOut])) = 0 \<and>
   map_of (files (snd (server_run example_env (example_server\<lparr>threads := 1\<rparr>) [ThreadEnds 200 TimedOut])))
     result_file_path = map_of (run_backtest_thread 200 TimedOut []) result_file_path"
  using running_backtests_drain[of "[(200, TimedOut)]" "example_server\<lparr>threads := 1\<rparr>" example_env]
  by (simp add: server_init_def)

lemma start_enhanced_launch_witness:
  "fst (start_enhanced_main (\<lambda>p. ServedUntilInterrupt)
     [(''web_config/enhanced_index.html'', OpaqueDoc ''new''), (''web_config/enhanced_server.py'', OpaqueDoc ''py''),
      (''web_config/index.html'', OpaqueDoc ''old'')]) = 0 \<and>
   map_of (snd (start_enhanced_main (\<lambda>p. ServedUntilInterrupt)
     [(''web_config/enhanced_index.html'', OpaqueDoc ''new''), (''web_config/enhanced_server.py'', OpaqueDoc ''py''),
      (''web_config/index.html'', OpaqueDoc ''old'')])) ''web_config/index_backup.html'' = Some (OpaqueDoc ''old'')"
  using start_enhanced_launch[of "[(''web_config/enhanced_index.html'', OpaqueDoc ''new''),
      (''web_config/enhanced_server.py'', OpaqueDoc ''py''), (''web_config/index.html'', OpaqueDoc ''old'')]"
      "\<lambda>p. ServedUntilInterrupt"]
  by (simp add: exists_def)

lemma set_active_other_source_rejected_witness:
  "dict_get (JObj [(''source'', JStr ''local'')]) ''source'' (JStr ''web'') = Inr (JStr ''local'') \<and>
   \<not> py_eq (JStr ''local'') (JStr ''web'') \<and>
   handle_set_active_config (Inr (JObj [(''source'', JStr ''local'')])) 100 example_server =
     (JsonResponse 400 False UnsupportedSource [], example_server)"
  using set_active_other_source_rejected[of "JObj [(''source'', JStr ''local'')]" "JStr ''local''" 100 example_server]
  by simp

lemma start_server_other_errno_witness:
  "(8080::nat) \<le> 65535 \<and> (\<lambda>p::nat. BindFailed 98) 8080 = BindFailed 98 \<and> (98::nat) \<noteq> 48 \<and>
   start_server True (\<lambda>p. BindFailed 98) 8080 = (Inr False, [])"
  using start_server_other_errno[of 8080 "\<lambda>p. BindFailed 98" 98]
  by simp

end
