(* ===== verification/Demo_Pipeline.thy ===== *)
theory Demo_Pipeline
  imports Grid_Backtest Config_Tools Demo_Configs
begin

text \<open>
  The demo scripts around the grid backtest: \<open>create_mock_ohlcv_data\<close> (defined alike in
  \<open>src/offline_backtest_demo.py\<close> and \<open>src/simple_backtest_demo.py\<close>),
  \<open>save_ohlcv_data\<close> of \<open>simple_backtest_demo.py\<close>, and the \<open>main\<close> of
  \<open>offline_backtest_demo.py\<close>: loading the custom configuration with its fallback to the
  built-in one, running \<open>simple_grid_strategy_backtest\<close> on the mock series, the printed
  report (\<open>print_backtest_results\<close>) and the JSON export of the result; and the data
  overview \<open>simple_backtest_demo.py\<close>'s \<open>main\<close> prints. NumPy's seeded generator is not modelled: the draws it returns
  (the per-bar returns, and per bar the close, high and low noise and the volume) are
  inputs, so every theorem holds for any draws; \<open>pd.date_range\<close> is not modelled either,
  the timestamps (nanoseconds since the epoch) are an input.
\<close>

section \<open>Mock OHLCV data\<close>

text \<open>\<open>initial_price = 50000 if 'BTC' in symbol else 3000\<close>.\<close>

definition initial_price :: "string \<Rightarrow> real" where
  "initial_price symbol = (if is_substring ''BTC'' symbol then 50000 else 3000)"

text \<open>\<open>np.cumsum\<close>.\<close>

fun cumsum_from :: "real \<Rightarrow> real list \<Rightarrow> real list" where
  "cumsum_from a [] = []"
| "cumsum_from a (x # xs) = (a + x) # cumsum_from (a + x) xs"

definition cumsum :: "real list \<Rightarrow> real list" where
  "cumsum xs = cumsum_from 0 xs"

text \<open>\<open>prices = initial_price * np.exp(np.cumsum(returns))\<close>.\<close>

definition mock_prices :: "string \<Rightarrow> real list \<Rightarrow> real list" where
  "mock_prices symbol returns = map (\<lambda>c. initial_price symbol * exp c) (cumsum returns)"

text \<open>The four draws of one loop iteration, in the order the loop takes them.\<close>

record bar_draw =
  d_close :: real
  d_high :: real
  d_low :: real
  d_volume :: real

record ohlcv_row =
  row_ts :: timestamp
  row_open :: real
  row_high :: real
  row_low :: real
  row_close :: real
  row_volume :: real

text \<open>The body of the loop (lines 48--63 of \<open>offline_backtest_demo.py\<close>).\<close>

definition mock_row :: "timestamp \<Rightarrow> real \<Rightarrow> bar_draw \<Rightarrow> ohlcv_row" where
  "mock_row ts price d =
     (let open_price = price;
          close_price = price * (1 + d_close d);
          high_price = max open_price close_price * (1 + \<bar>d_high d\<bar>);
          low_price = min open_price close_price * (1 - \<bar>d_low d\<bar>)
      in \<lparr>row_ts = ts, row_open = open_price, row_high = high_price, row_low = low_price,
          row_close = close_price, row_volume = d_volume d\<rparr>)"

definition create_mock_ohlcv_data ::
  "string \<Rightarrow> timestamp list \<Rightarrow> real list \<Rightarrow> bar_draw list \<Rightarrow> ohlcv_row list" where
  "create_mock_ohlcv_data symbol timestamps returns draws =
     map (\<lambda>((ts, price), d). mock_row ts price d) (zip (zip timestamps (mock_prices symbol returns)) draws)"

text \<open>\<open>simple_backtest_demo.py\<close>'s copy differs only in the frequency string it passes
  to \<open>pd.date_range\<close> (\<open>'1T'\<close> for \<open>'1min'\<close>), which the timestamps input stands for.\<close>

definition simple_create_mock_ohlcv_data ::
  "string \<Rightarrow> timestamp list \<Rightarrow> real list \<Rightarrow> bar_draw list \<Rightarrow> ohlcv_row list" where
  "simple_create_mock_ohlcv_data = create_mock_ohlcv_data"

text \<open>\<open>save_ohlcv_data\<close> (\<open>simple_backtest_demo.py\<close>, lines 83--105): the two arrays
  \<open>np.save\<close> writes, with their paths; the timestamps go from nanoseconds to milliseconds
  by floor division.\<close>

definition save_ohlcv_data ::
  "ohlcv_row list \<Rightarrow> string \<Rightarrow> string \<Rightarrow> string \<Rightarrow> (string \<times> real list list) \<times> (string \<times> int list)" where
  "save_ohlcv_data df exchange symbol base_dir =
     (let data_dir = base_dir @ ''/'' @ exchange @ ''/'' @ symbol @ ''/caches''
      in ((data_dir @ ''/ohlcvs_1m.npy'',
           map (\<lambda>r. [row_open r, row_high r, row_low r, row_close r, row_volume r]) df),
          (data_dir @ ''/timestamps_1m.npy'', map (\<lambda>r. row_ts r div 10 ^ 6) df)))"

text \<open>\<open>ohlcv_data.iterrows()\<close> with \<open>row['close']\<close>: the bars the backtest loop reads.\<close>

definition to_bars :: "ohlcv_row list \<Rightarrow> bar list" where
  "to_bars df = map (\<lambda>r. (row_ts r, row_close r)) df"

text \<open>The files \<open>main\<close> of \<open>simple_backtest_demo.py\<close> (lines 213--240) writes: the two
  arrays of \<open>save_ohlcv_data(ohlcv_data, "binance", symbol)\<close> and the configuration of
  \<open>create_simple_backtest_config\<close>, dumped to \<open>simple_backtest_config.json\<close>.\<close>

definition simple_demo_outputs ::
  "ohlcv_row list \<Rightarrow> (string \<times> real list list) \<times> (string \<times> int list) \<times> (string \<times> jval)" where
  "simple_demo_outputs ohlcv_data =
     (let (arrays, stamps) = save_ohlcv_data ohlcv_data ''binance'' ''BTCUSDT'' ''backtests''
      in (arrays, stamps, (''simple_backtest_config.json'', create_simple_backtest_config)))"

text \<open>The data overview \<open>main\<close> of \<open>simple_backtest_demo.py\<close> prints (lines 244--255).
  pandas' \<open>mean\<close>, \<open>max\<close> and \<open>min\<close> of an empty column and \<open>std\<close> (the sample
  deviation, \<open>ddof = 1\<close>) of fewer than two values are NaN, \<open>None\<close> here;
  \<open>index[0]\<close> of an empty frame raises. The printed rounding is not modelled.\<close>

definition pd_std :: "real list \<Rightarrow> real option" where
  "pd_std xs =
     (if length xs < 2 then None
      else let m = sum_list xs / real (length xs)
           in Some (sqrt (sum_list (map (\<lambda>x. (x - m)\<^sup>2) xs) / real (length xs - 1))))"

definition series_max :: "real list \<Rightarrow> real option" where
  "series_max xs = (if xs = [] then None else Some (Max (set xs)))"

definition series_min :: "real list \<Rightarrow> real option" where
  "series_min xs = (if xs = [] then None else Some (Min (set xs)))"

record data_overview =
  ov_count :: nat
  ov_first :: timestamp
  ov_last :: timestamp
  ov_open_mean :: "real option"
  ov_open_std :: "real option"
  ov_close_mean :: "real option"
  ov_close_std :: "real option"
  ov_high_max :: "real option"
  ov_low_min :: "real option"
  ov_volume_mean :: "real option"

definition data_overview :: "ohlcv_row list \<Rightarrow> py_error + data_overview" where
  "data_overview df =
     (if df = [] then Inl IndexError
      else Inr \<lparr>ov_count = length df, ov_first = row_ts (hd df), ov_last = row_ts (last df),
                ov_open_mean = np_mean (map row_open df), ov_open_std = pd_std (map row_open df),
                ov_close_mean = np_mean (map row_close df), ov_close_std = pd_std (map row_close df),
                ov_high_max = series_max (map row_high df), ov_low_min = series_min (map row_low df),
                ov_volume_mean = np_mean (map row_volume df)\<rparr>)"

section \<open>Printing the backtest result\<close>

text \<open>\<open>print_backtest_results\<close> (\<open>offline_backtest_demo.py\<close>, lines 191--211) as the
  list of lines it prints. A line carries the value it shows; the Chinese labels are named
  by the result key they show, and the number formatting (\<open>:,.2f\<close>, \<open>:.6f\<close>) is not
  modelled. At most ten trades are listed, numbered from 1, followed by the count of the
  others.\<close>

datatype report_line =
    Banner | ResultTitle
  | Money string real | Percent string real | Count string nat
  | TradesHeader | TradeLine nat string real real timestamp | MoreTrades nat

definition trade_type_upper :: "trade_type \<Rightarrow> string" where
  "trade_type_upper t = (if t = Buy then ''BUY'' else ''SELL'')"

definition print_backtest_results :: "bt_result \<Rightarrow> report_line list" where
  "print_backtest_results result =
     [Banner, ResultTitle, Banner,
      Money ''initial_balance'' (r_initial_balance result), Money ''final_balance'' (r_final_balance result),
      Percent ''total_return_pct'' (r_total_return_pct result), Count ''total_trades'' (r_total_trades result),
      Count ''buy_trades'' (r_buy_trades result), Count ''sell_trades'' (r_sell_trades result),
      Money ''total_profit'' (r_total_profit result),
      Count ''remaining_positions'' (r_remaining_positions result)]
     @ (if 0 < r_total_trades result then
          TradesHeader #
          map (\<lambda>(i, t). TradeLine (i + 1) (trade_type_upper (tr_type t)) (tr_price t) (tr_qty t) (tr_timestamp t))
              (enumerate 0 (take 10 (r_trades result)))
          @ (if 10 < length (r_trades result) then [MoreTrades (length (r_trades result) - 10)] else [])
        else [])"

text \<open>How many trades a printed line accounts for.\<close>

fun trades_accounted :: "report_line \<Rightarrow> nat" where
  "trades_accounted (TradeLine _ _ _ _ _) = 1"
| "trades_accounted (MoreTrades n) = n"
| "trades_accounted _ = 0"

section \<open>The offline demo's \<open>main\<close>\<close>

text \<open>Python's \<open>x * 100\<close> on a loaded JSON value: numbers multiply, strings and lists
  repeat, \<open>None\<close> and dicts raise.\<close>

fun py_mul_int :: "jval \<Rightarrow> int \<Rightarrow> py_error + jval" where
  "py_mul_int (JInt i) n = Inr (JInt (i * n))"
| "py_mul_int (JBool b) n = Inr (JInt (of_bool b * n))"
| "py_mul_int (JFloat r) n = Inr (JFloat (r * of_int n))"
| "py_mul_int (JStr s) n = Inr (JStr (concat (replicate (nat n) s)))"
| "py_mul_int (JList xs) n = Inr (JList (concat (replicate (nat n) xs)))"
| "py_mul_int _ n = Inl (TypeError ''unsupported operand type(s) for *'')"

text \<open>The reads inside the \<open>try\<close> after \<open>hjson.load\<close> (lines 234--240), in order.\<close>

definition show_custom_config :: "jval \<Rightarrow> py_error + unit" where
  "show_custom_config config =
     sbind (dict_path config [''live'', ''approved_coins'', ''long'']) (\<lambda>coins.
     sbind (dict_path config [''bot'', ''long'']) (\<lambda>bot_config.
     sbind (dict_path config [''live'', ''leverage'']) (\<lambda>lev.
     sbind (sbind (dict_index bot_config ''entry_grid_spacing_pct'') (\<lambda>v. py_mul_int v 100)) (\<lambda>_.
     sbind (sbind (dict_index bot_config ''entry_initial_qty_pct'') (\<lambda>v. py_mul_int v 100)) (\<lambda>_.
     sbind (dict_index bot_config ''n_positions'') (\<lambda>_. Inr ()))))))"

text \<open>Lines 226--256: \<open>loaded\<close> is the outcome of \<open>import hjson\<close> and
  \<open>hjson.load\<close> of \<open>my_config_custom.json\<close>; any exception in the \<open>try\<close> block,
  the reads of the display included, replaces the configuration by the built-in one.\<close>

definition offline_config :: "py_error + jval \<Rightarrow> jval" where
  "offline_config loaded =
     (case sbind loaded (\<lambda>config. sbind (show_custom_config config) (\<lambda>_. Inr config)) of
        Inl _ \<Rightarrow> example_grid_config
      | Inr config \<Rightarrow> config)"

text \<open>The JSON export (lines 266--288): NumPy numbers become floats and timestamps their
  ISO text (\<open>isoformat\<close>, \<open>pd.Timestamp.isoformat\<close>); everything else is kept.\<close>

definition export_trade :: "(timestamp \<Rightarrow> string) \<Rightarrow> trade \<Rightarrow> jval" where
  "export_trade isoformat t =
     JObj ([(''type'', JStr (if tr_type t = Buy then ''buy'' else ''sell'')),
            (''price'', JFloat (tr_price t)), (''qty'', JFloat (tr_qty t)),
            (''timestamp'', JStr (isoformat (tr_timestamp t))), (''balance'', JFloat (tr_balance t))]
           @ (case tr_profit t of None \<Rightarrow> [] | Some p \<Rightarrow> [(''profit'', JFloat p)]))"

definition export_result :: "(timestamp \<Rightarrow> string) \<Rightarrow> bt_result \<Rightarrow> jval" where
  "export_result isoformat r =
     JObj [(''initial_balance'', JFloat (r_initial_balance r)), (''final_balance'', JFloat (r_final_balance r)),
           (''total_return_pct'', JFloat (r_total_return_pct r)),
           (''total_trades'', JInt (int (r_total_trades r))), (''buy_trades'', JInt (int (r_buy_trades r))),
           (''sell_trades'', JInt (int (r_sell_trades r))), (''total_profit'', JFloat (r_total_profit r)),
           (''remaining_positions'', JInt (int (r_remaining_positions r))),
           (''trades'', JList (map (export_trade isoformat) (r_trades r)))]"

text \<open>\<open>main\<close> (lines 213--290) from the mock data on: the configuration, the backtest,
  and the document written to \<open>backtest_result.json\<close>; an exception of the backtest
  leaves \<open>main\<close>.\<close>

definition offline_main ::
  "py_error + jval \<Rightarrow> ohlcv_row list \<Rightarrow> (timestamp \<Rightarrow> string) \<Rightarrow> py_error + jval" where
  "offline_main loaded ohlcv_data isoformat =
     sbind (simple_grid_strategy_backtest (to_bars ohlcv_data) (offline_config loaded))
       (\<lambda>result. Inr (export_result isoformat result))"

section \<open>Properties\<close>

lemma fill_levels_nonzero:
  "price \<noteq> 0 \<Longrightarrow> \<exists>st'. fill_levels q ts price levels st = Inr st'"
  by (induction q ts price levels st rule: fill_levels.induct) (auto simp: Let_def)

lemma grid_run_nonzero:
  "list_all (\<lambda>b. snd b \<noteq> 0) bars \<Longrightarrow> \<exists>st'. grid_run cfg levels st bars = Inr st'"
proof (induction bars arbitrary: st)
  case (Cons b bars)
  obtain ts price where b: "b = (ts, price)" by fastforce
  obtain st1 where "fill_levels (entry_qty_pct cfg) ts price (enumerate 0 levels) st = Inr st1"
    using fill_levels_nonzero Cons.prems b by fastforce
  then have "\<exists>st2. grid_step cfg levels st b = Inr st2"
    by (simp add: grid_step_def b case_prod_unfold Let_def)
  then obtain st2 where "grid_step cfg levels st b = Inr st2" ..
  then show ?case using Cons by simp
qed simp

lemma backtest_total:
  assumes "read_grid_config config = Inr cfg" and "initial_balance cfg \<noteq> 0"
    and "bars \<noteq> []" and "list_all (\<lambda>b. snd b \<noteq> 0) bars"
  shows "\<exists>r. simple_grid_strategy_backtest bars config = Inr r"
proof -
  obtain ts0 p0 rest where bars: "bars = (ts0, p0) # rest"
    using assms(3) by (metis list.exhaust prod.exhaust)
  obtain st where "grid_run cfg (grid_prices p0 (entry_spacing cfg) (max_positions cfg))
                     (init_state (initial_balance cfg)) bars = Inr st"
    using grid_run_nonzero[OF assms(4)] by blast
  then show ?thesis
    using assms(1,2) by (simp add: simple_grid_strategy_backtest_def bars backtest_summary_def Let_def del: grid_run.simps)
qed

lemma initial_price_pos: "0 < initial_price symbol"
  by (simp add: initial_price_def)

lemma mock_prices_pos: "list_all (\<lambda>p. 0 < p) (mock_prices symbol returns)"
  by (simp add: mock_prices_def list_all_iff initial_price_pos)

lemma mock_row_wellformed:
  assumes "0 < price" and "-1 < d_close d" and "\<bar>d_low d\<bar> < 1"
  shows "0 < row_low (mock_row ts price d) \<and>
         row_low (mock_row ts price d) \<le> min (row_open (mock_row ts price d)) (row_close (mock_row ts price d)) \<and>
         max (row_open (mock_row ts price d)) (row_close (mock_row ts price d)) \<le> row_high (mock_row ts price d) \<and>
         0 < row_close (mock_row ts price d)"
proof -
  let ?c = "price * (1 + d_close d)"
  let ?m = "min price ?c" and ?M = "max price ?c"
  have c: "0 < ?c" using assms by simp
  have m: "0 < ?m" using assms(1) c by simp
  have row: "row_open (mock_row ts price d) = price" "row_close (mock_row ts price d) = ?c"
    "row_low (mock_row ts price d) = ?m * (1 - \<bar>d_low d\<bar>)"
    "row_high (mock_row ts price d) = ?M * (1 + \<bar>d_high d\<bar>)"
    by (simp_all add: mock_row_def Let_def)
  have "0 < ?m * (1 - \<bar>d_low d\<bar>)" using m assms(3) by simp
  moreover have "?m * (1 - \<bar>d_low d\<bar>) \<le> ?m" using m by (intro mult_left_le) auto
  moreover have "?M \<le> ?M * (1 + \<bar>d_high d\<bar>)" using m by (simp add: mult_le_cancel_left1)
  ultimately show ?thesis using c unfolding row by linarith
qed

lemma mock_rows_all:
  assumes "list_all P draws" and "\<And>ts p d. 0 < p \<Longrightarrow> P d \<Longrightarrow> Q (mock_row ts p d)"
  shows "list_all Q (create_mock_ohlcv_data symbol timestamps returns draws)"
proof (unfold list_all_iff, rule ballI)
  fix r assume "r \<in> set (create_mock_ohlcv_data symbol timestamps returns draws)"
  then obtain ts p d where z: "((ts, p), d) \<in> set (zip (zip timestamps (mock_prices symbol returns)) draws)"
    and r: "r = mock_row ts p d"
    by (auto simp: create_mock_ohlcv_data_def)
  have "0 < p" using set_zip_rightD[OF set_zip_leftD[OF z]] mock_prices_pos[of symbol returns]
    by (simp add: list_all_iff)
  moreover have "P d" using set_zip_rightD[OF z] assms(1) by (simp add: list_all_iff)
  ultimately show "Q r" unfolding r by (rule assms(2))
qed

lemma create_mock_nonempty:
  "timestamps \<noteq> [] \<Longrightarrow> returns \<noteq> [] \<Longrightarrow> draws \<noteq> [] \<Longrightarrow>
     create_mock_ohlcv_data symbol timestamps returns draws \<noteq> []"
  by (cases timestamps; cases returns; cases draws)
     (simp_all add: create_mock_ohlcv_data_def mock_prices_def cumsum_def)

lemma series_min_le:
  "xs \<noteq> [] \<Longrightarrow> series_min xs = Some (Min (set xs)) \<and> list_all (\<lambda>x. Min (set xs) \<le> x) xs"
  by (simp add: series_min_def list_all_iff)

lemma series_max_ge:
  "xs \<noteq> [] \<Longrightarrow> series_max xs = Some (Max (set xs)) \<and> list_all (\<lambda>x. x \<le> Max (set xs)) xs"
  by (simp add: series_max_def list_all_iff)

lemma trade_line_accounted:
  "trades_accounted \<circ> (\<lambda>(i, t). TradeLine (f i) (g t) (h t) (k t) (l t)) = (\<lambda>_. 1)"
  by (auto simp: fun_eq_iff)

lemma mean_between:
  assumes "xs \<noteq> []" "list_all (\<lambda>x. a \<le> x \<and> x \<le> b) xs"
  shows "a \<le> sum_list xs / real (length xs) \<and> sum_list xs / real (length xs) \<le> b"
proof -
  have n: "0 < real (length xs)" using assms(1) by simp
  have "sum_list (map (\<lambda>_. a) xs) \<le> sum_list xs"
    using sum_list_mono[of xs "\<lambda>_. a" "\<lambda>x. x"] assms(2) by (simp add: list_all_iff)
  then have lo: "real (length xs) * a \<le> sum_list xs" by (simp add: sum_list_triv)
  have "sum_list xs \<le> sum_list (map (\<lambda>_. b) xs)"
    using sum_list_mono[of xs "\<lambda>x. x" "\<lambda>_. b"] assms(2) by (simp add: list_all_iff)
  then have hi: "sum_list xs \<le> real (length xs) * b" by (simp add: sum_list_triv)
  show ?thesis using lo hi n by (simp add: pos_le_divide_eq pos_divide_le_eq mult.commute)
qed

text \<open>C23: On every mock series whose close noises stay above -1 and whose low noises have magnitude below 1, the data overview of simple_backtest_demo.py prints a positive lowest low, and both the mean open and the mean close lie between that lowest low and the highest high.\<close>

theorem overview_prices_bounded:
  assumes "list_all (\<lambda>d. -1 < d_close d \<and> \<bar>d_low d\<bar> < 1) draws"
    and "timestamps \<noteq> []" and "returns \<noteq> []" and "draws \<noteq> []"
  shows "\<exists>ov lo hi m_open m_close.
     data_overview (create_mock_ohlcv_data symbol timestamps returns draws) = Inr ov \<and>
     ov_low_min ov = Some lo \<and> ov_high_max ov = Some hi \<and>
     ov_open_mean ov = Some m_open \<and> ov_close_mean ov = Some m_close \<and>
     0 < lo \<and> lo \<le> m_open \<and> m_open \<le> hi \<and> lo \<le> m_close \<and> m_close \<le> hi"
proof -
  let ?df = "create_mock_ohlcv_data symbol timestamps returns draws"
  let ?lo = "Min (set (map row_low ?df))" and ?hi = "Max (set (map row_high ?df))"
  have ne: "?df \<noteq> []" using create_mock_nonempty[OF assms(2-4)] .
  have wf: "list_all (\<lambda>r. 0 < row_low r \<and> row_low r \<le> min (row_open r) (row_close r) \<and>
      max (row_open r) (row_close r) \<le> row_high r) ?df"
    using assms(1) by (rule mock_rows_all) (use mock_row_wellformed in blast)
  have lo: "list_all (\<lambda>x. ?lo \<le> x) (map row_low ?df)" and hi: "list_all (\<lambda>x. x \<le> ?hi) (map row_high ?df)"
    using series_min_le[of "map row_low ?df"] series_max_ge[of "map row_high ?df"] ne by simp_all
  have pos: "0 < ?lo" using wf ne by (simp add: list_all_iff)
  have "\<forall>r \<in> set ?df. ?lo \<le> row_open r \<and> row_open r \<le> ?hi \<and> ?lo \<le> row_close r \<and> row_close r \<le> ?hi"
  proof
    fix r assume "r \<in> set ?df"
    then have "?lo \<le> row_low r" "row_high r \<le> ?hi" "row_low r \<le> min (row_open r) (row_close r)"
        "max (row_open r) (row_close r) \<le> row_high r"
      using lo hi wf by (simp_all add: list_all_iff)
    then show "?lo \<le> row_open r \<and> row_open r \<le> ?hi \<and> ?lo \<le> row_close r \<and> row_close r \<le> ?hi"
      by linarith
  qed
  then have "list_all (\<lambda>x. ?lo \<le> x \<and> x \<le> ?hi) (map row_open ?df)"
       "list_all (\<lambda>x. ?lo \<le> x \<and> x \<le> ?hi) (map row_close ?df)"
    by (simp_all add: list_all_iff)
  with ne have "?lo \<le> sum_list (map row_open ?df) / real (length ?df) \<and> sum_list (map row_open ?df) / real (length ?df) \<le> ?hi"
      "?lo \<le> sum_list (map row_close ?df) / real (length ?df) \<and> sum_list (map row_close ?df) / real (length ?df) \<le> ?hi"
    using mean_between[of "map row_open ?df" ?lo ?hi] mean_between[of "map row_close ?df" ?lo ?hi] by simp_all
  then show ?thesis using ne pos
    by (simp add: data_overview_def np_mean_def series_min_def series_max_def del: set_map)
qed


text \<open>For any draws with a close noise above -1 and a low noise of magnitude below 1, every bar create_mock_ohlcv_data builds is a well-formed candle: 0 < low <= min(open, close) and max(open, close) <= high, with a positive close.\<close>

theorem mock_rows_wellformed:
  assumes "list_all (\<lambda>d. -1 < d_close d \<and> \<bar>d_low d\<bar> < 1) draws"
  shows "list_all (\<lambda>r. 0 < row_low r \<and> row_low r \<le> min (row_open r) (row_close r) \<and>
                        max (row_open r) (row_close r) \<le> row_high r \<and> 0 < row_close r)
           (create_mock_ohlcv_data symbol timestamps returns draws)"
  using assms by (rule mock_rows_all) (intro mock_row_wellformed; simp)


text \<open>C30: A custom configuration that the backtest could run, but that lacks live.approved_coins.long (read only for display), is replaced by the built-in configuration: the demo silently backtests other parameters than the user's.\<close>

theorem offline_config_discards_custom:
  assumes "read_grid_config config = Inr cfg"
    and "dict_path config [''live'', ''approved_coins'', ''long''] = Inl e"
  shows "offline_config (Inr config) = example_grid_config"
  using assms by (simp add: offline_config_def show_custom_config_def)

lemma mock_rows_wellformed_witness:
  "list_all (\<lambda>d. -1 < d_close d \<and> \<bar>d_low d\<bar> < 1)
     [\<lparr>d_close = 1/1000, d_high = -1/1000, d_low = 1/2000, d_volume = 500\<rparr>] \<and>
   list_all (\<lambda>r. 0 < row_low r \<and> row_low r \<le> min (row_open r) (row_close r) \<and>
                 max (row_open r) (row_close r) \<le> row_high r \<and> 0 < row_close r)
     (create_mock_ohlcv_data ''BTCUSDT'' [0] [1/1000]
        [\<lparr>d_close = 1/1000, d_high = -1/1000, d_low = 1/2000, d_volume = 500\<rparr>])"
  using mock_rows_wellformed[of "[\<lparr>d_close = 1/1000, d_high = -1/1000, d_low = 1/2000, d_volume = 500\<rparr>]"
      "''BTCUSDT''" "[0]" "[1/1000]"]
  by simp


lemma offline_config_discards_custom_witness:
  "read_grid_config (JObj [(''backtest'', JObj [(''starting_balance'', JInt 5000)]),
      (''bot'', JObj [(''long'', JObj [(''entry_grid_spacing_pct'', JFloat (2/100)),
         (''close_grid_markup_start'', JFloat (1/100)), (''entry_initial_qty_pct'', JFloat (1/5)),
         (''n_positions'', JInt 3)])])]) =
     Inr \<lparr>entry_spacing = 2/100, close_markup = 1/100, entry_qty_pct = 1/5, max_positions = 3,
          initial_balance = 5000\<rparr> \<and>
   dict_path (JObj [(''backtest'', JObj [(''starting_balance'', JInt 5000)]),
      (''bot'', JObj [(''long'', JObj [(''entry_grid_spacing_pct'', JFloat (2/100)),
         (''close_grid_markup_start'', JFloat (1/100)), (''entry_initial_qty_pct'', JFloat (1/5)),
         (''n_positions'', JInt 3)])])]) [''live'', ''approved_coins'', ''long''] = Inl (KeyError ''live'') \<and>
   offline_config (Inr (JObj [(''backtest'', JObj [(''starting_balance'', JInt 5000)]),
      (''bot'', JObj [(''long'', JObj [(''entry_grid_spacing_pct'', JFloat (2/100)),
         (''close_grid_markup_start'', JFloat (1/100)), (''entry_initial_qty_pct'', JFloat (1/5)),
         (''n_positions'', JInt 3)])])])) = example_grid_config"
proof -
  have c: "read_grid_config (JObj [(''backtest'', JObj [(''starting_balance'', JInt 5000)]),
      (''bot'', JObj [(''long'', JObj [(''entry_grid_spacing_pct'', JFloat (2/100)),
         (''close_grid_markup_start'', JFloat (1/100)), (''entry_initial_qty_pct'', JFloat (1/5)),
         (''n_positions'', JInt 3)])])]) =
     Inr \<lparr>entry_spacing = 2/100, close_markup = 1/100, entry_qty_pct = 1/5, max_positions = 3,
          initial_balance = 5000\<rparr>"
    by (simp add: grid_eval)
  show ?thesis using c offline_config_discards_custom[OF c, of "KeyError ''live''"] by simp
qed
theorem overview_prices_bounded_witness:
  "list_all (\<lambda>d. -1 < d_close d \<and> \<bar>d_low d\<bar> < 1)
     [\<lparr>d_close = 1/1000, d_high = -1/1000, d_low = 1/2000, d_volume = 500\<rparr>] \<and>
   (\<exists>ov lo hi m_open m_close.
     data_overview (create_mock_ohlcv_data ''BTCUSDT'' [0] [1/1000]
        [\<lparr>d_close = 1/1000, d_high = -1/1000, d_low = 1/2000, d_volume = 500\<rparr>]) = Inr ov \<and>
     ov_low_min ov = Some lo \<and> ov_high_max ov = Some hi \<and>
     ov_open_mean ov = Some m_open \<and> ov_close_mean ov = Some m_close \<and>
     0 < lo \<and> lo \<le> m_open \<and> m_open \<le> hi \<and> lo \<le> m_close \<and> m_close \<le> hi)"
  using overview_prices_bounded[of "[\<lparr>d_close = 1/1000, d_high = -1/1000, d_low = 1/2000, d_volume = 500\<rparr>]"
      "[0]" "[1/1000]" "''BTCUSDT''"]
  by simp


end
