(* ===== verification/Fix_Backtest.thy ===== *)
theory Fix_Backtest
  imports Web_Server Demo_Configs
begin

text \<open>
  \<open>src/fix_backtest.py\<close>: the repair script that writes a simple configuration and
  runs the backtest with up to three attempts. The working directory is the file store of
  \<open>Web_Server\<close>; \<open>os.system("cp ...")\<close> is \<open>copy2\<close>. What the operating system
  answers is an input: the outcome of the network check's request, and the outcome of each
  backtest subprocess, which may depend on the attempt and on the configuration file it
  runs with. Console output is the text \<open>print_status\<close> builds; \<open>time.sleep\<close> is
  not modelled.
\<close>

text \<open>\<open>check_network\<close> (lines 24--31): \<open>resp\<close> is the outcome of
  \<open>requests.get(".../ping", timeout=5)\<close> (after \<open>import requests\<close>), a status code or an
  exception; the bare \<open>except\<close> turns every exception into \<open>False\<close>.\<close>

definition check_network :: "py_error + nat \<Rightarrow> bool" where
  "check_network resp = (case resp of Inl _ \<Rightarrow> False | Inr status_code \<Rightarrow> status_code = 200)"

text \<open>\<open>print_status\<close> (lines 14--22): the ANSI colour of the status, or none.\<close>

definition status_color :: "string \<Rightarrow> string" where
  "status_color status =
     (if status = ''INFO'' then [CHR 0x1B] @ ''[0;32m''
      else if status = ''WARNING'' then [CHR 0x1B] @ ''[1;33m''
      else if status = ''ERROR'' then [CHR 0x1B] @ ''[0;31m''
      else if status = ''SUCCESS'' then [CHR 0x1B] @ ''[0;32m''
      else [])"

definition print_status :: "string \<Rightarrow> string \<Rightarrow> string" where
  "print_status message status =
     status_color status @ ''['' @ status @ '']'' @ [CHR 0x1B] @ ''[0m '' @ message"

definition simple_config_path :: string where "simple_config_path = ''my_config_simple.json''"

text \<open>The timeout handler (lines 170--175): load \<open>my_config.json\<close>, set
  \<open>config["backtest"]["end_date"]\<close> and write it back. It runs inside an \<open>except\<close>
  clause, so its own exceptions leave the loop.\<close>

definition shorten_end_date :: "store \<Rightarrow> py_error + store" where
  "shorten_end_date fs =
     sbind (read_json fs local_config_path) (\<lambda>config.
     sbind (set_in config ''backtest'' ''end_date'' (JStr ''2024-01-07'')) (\<lambda>config'.
     Inr (AList.update local_config_path (JsonDoc config') fs)))"

text \<open>One attempt of \<open>run_backtest_with_retry\<close> (lines 146--178) and the loop over
  \<open>range(max_retries)\<close>. The result is the returned value or the escaping exception,
  the files, and the configuration file each subprocess ran with.\<close>

type_synonym backtest_runner = "nat \<Rightarrow> fcontent option \<Rightarrow> run_outcome"

fun retry_loop ::
  "backtest_runner \<Rightarrow> nat list \<Rightarrow> store \<Rightarrow> (py_error + bool) \<times> store \<times> fcontent option list" where
  "retry_loop run [] fs = (Inr False, fs, [])"
| "retry_loop run (attempt # rest) fs =
     (let fs1 = (if exists fs simple_config_path then copy2 fs simple_config_path local_config_path else fs);
          cfg = map_of fs1 local_config_path
      in case run attempt cfg of
           Completed rc out err \<Rightarrow>
             if rc = 0 then (Inr True, fs1, [cfg])
             else (let (r, fs', used) = retry_loop run rest fs1 in (r, fs', cfg # used))
         | TimedOut \<Rightarrow>
             (case shorten_end_date fs1 of
                Inl e \<Rightarrow> (Inl e, fs1, [cfg])
              | Inr fs2 \<Rightarrow> (let (r, fs', used) = retry_loop run rest fs2 in (r, fs', cfg # used)))
         | RunFailed e \<Rightarrow> (let (r, fs', used) = retry_loop run rest fs1 in (r, fs', cfg # used)))"

definition run_backtest_with_retry ::
  "backtest_runner \<Rightarrow> store \<Rightarrow> (py_error + bool) \<times> store \<times> fcontent option list" where
  "run_backtest_with_retry run fs = retry_loop run [0..<3] fs"

text \<open>\<open>main\<close> (lines 182--206), given the answer to the network check: \<open>None\<close> when the check fails and the script
  returns early, otherwise whether the retried backtest succeeded. \<open>create_simple_config\<close>
  writes its configuration to \<open>my_config_simple.json\<close> (lines 134--135).\<close>

definition fix_backtest_main ::
  "py_error + nat \<Rightarrow> backtest_runner \<Rightarrow> store \<Rightarrow> (py_error + bool option) \<times> store \<times> fcontent option list" where
  "fix_backtest_main resp run fs =
     (if \<not> check_network resp then (Inr None, fs, [])
      else let fs1 = AList.update simple_config_path (JsonDoc create_simple_config) fs;
               (r, fs', used) = run_backtest_with_retry run fs1
           in (sbind r (\<lambda>ok. Inr (Some ok)), fs', used))"

section \<open>Properties\<close>

lemma simple_config_path_ne [simp]:
  "simple_config_path \<noteq> local_config_path" "local_config_path \<noteq> simple_config_path"
  by (simp_all add: simple_config_path_def local_config_path_def)

lemma shorten_end_date_keeps:
  "shorten_end_date fs = Inr fs' \<Longrightarrow> p \<noteq> local_config_path \<Longrightarrow> map_of fs' p = map_of fs p"
  by (auto simp: shorten_end_date_def update_conv' sbind_eq_Inr)

lemma retry_loop_runs_simple:
  assumes "map_of fs simple_config_path = Some c"
  shows "list_all (\<lambda>cfg. cfg = Some c) (snd (snd (retry_loop run attempts fs)))"
  using assms
proof (induction attempts arbitrary: fs)
  case (Cons attempt rest)
  let ?fs1 = "copy2 fs simple_config_path local_config_path"
  have ex: "exists fs simple_config_path" using Cons.prems by (simp add: exists_map_of)
  have fs1: "map_of ?fs1 local_config_path = Some c" "map_of ?fs1 simple_config_path = Some c"
    using Cons.prems by (simp_all add: map_of_copy2)
  have step: "\<And>fs'. map_of fs' simple_config_path = Some c \<Longrightarrow>
      list_all (\<lambda>cfg. cfg = Some c) (snd (snd (retry_loop run rest fs')))" using Cons.IH .
  show ?case
  proof (cases "run attempt (Some c)")
    case (Completed rc out err)
    then show ?thesis using ex fs1 step[OF fs1(2)] by (simp add: case_prod_unfold Let_def)
  next
    case TimedOut
    then show ?thesis
    proof (cases "shorten_end_date ?fs1")
      case (Inr fs2)
      then have "map_of fs2 simple_config_path = Some c" using fs1(2) shorten_end_date_keeps by simp
      then show ?thesis using TimedOut Inr ex fs1 step by (simp add: case_prod_unfold Let_def)
    qed (use ex fs1 TimedOut in simp)
  next
    case (RunFailed e)
    then show ?thesis using ex fs1 step[OF fs1(2)] by (simp add: case_prod_unfold Let_def)
  qed
qed simp

lemma retry_loop_runs:
  "attempts \<noteq> [] \<Longrightarrow> snd (snd (retry_loop run attempts fs)) \<noteq> []"
  by (cases attempts)
     (auto simp: Let_def case_prod_unfold split: run_outcome.split sum.split)

text \<open>C31: Whenever the network check passes, fix_backtest.py runs the backtest at least
  once, and every backtest subprocess it starts runs with the configuration
  create_simple_config wrote: neither the user's my_config.json nor the shortened end date
  the timeout handler writes is ever used.\<close>

theorem fix_backtest_runs_simple_config:
  "snd (snd (fix_backtest_main (Inr 200) run fs)) \<noteq> [] \<and>
   list_all (\<lambda>cfg. cfg = Some (JsonDoc create_simple_config)) (snd (snd (fix_backtest_main (Inr 200) run fs)))"
  using retry_loop_runs[of "[0..<3]" run "AList.update simple_config_path (JsonDoc create_simple_config) fs"]
    retry_loop_runs_simple[of "AList.update simple_config_path (JsonDoc create_simple_config) fs"
      "JsonDoc create_simple_config" run "[0..<3]"]
  by (simp add: fix_backtest_main_def check_network_def run_backtest_with_retry_def case_prod_unfold update_conv' Let_def)

end
