(* ===== verification/Spec2Isabelle.thy ===== *)
theory Spec2Isabelle
  imports Registry Grid_Backtest Demo_Configs Web_Server Demo_Pipeline Fix_Backtest
begin

text \<open>
  \<^bold>\<open>A verification model of the passivbot strategy plug-in system, its offline
  grid backtest, its configuration tools and its configuration web server.\<close>

  \<^bold>\<open>The program.\<close> The package \<open>src/src/strategies\<close> defines a strategy contract
  (\<open>base_strategy.py\<close>, class \<open>BaseStrategy\<close>), two strategies that implement it
  (\<open>default_strategy.py\<close>, a thin adapter around the Rust extension \<open>passivbot_rust\<close>,
  and \<open>ma_crossover_strategy.py\<close>, a self-contained moving-average crossover strategy)
  and a registry (\<open>strategy_manager.py\<close>) that maps names to strategy classes and holds
  the one active instance. Beside the package, \<open>offline_backtest_demo.py\<close> runs a grid
  backtest over a price series (\<open>simple_grid_strategy_backtest\<close>), and the scripts
  \<open>simple_backtest_demo.py\<close> and \<open>fix_backtest.py\<close> build the configurations the
  strategies read. \<open>fix_trading_config.py\<close> repairs the live configuration against the
  API-key file, and \<open>web_config/enhanced_server.py\<close> is an HTTP server that saves,
  backs up and activates \<open>my_config.json\<close> and starts backtests in a background thread;
  \<open>web_config/start_server.py\<close> and \<open>web_config/start_enhanced.py\<close> launch the
  servers. The registry constructs strategies; strategies read configurations through
  \<open>get_config_value\<close> and \<open>config.get\<close>; the backtest reads the same configuration
  shape; the web server writes the configuration file the other parts read.

  \<^bold>\<open>Theories.\<close>
  \<^item> \<open>Prelude\<close>: Python exceptions as the datatype \<open>py_error\<close> and results as
    \<open>py_error + 'a\<close> sequenced by \<open>sbind\<close> (left-to-right evaluation, first exception
    wins); Python slicing \<open>xs[-k:]\<close> (\<open>py_tail\<close>, with the \<open>k = 0\<close> case that keeps
    the whole list) and \<open>xs[:-1]\<close>; NumPy's mean with NaN as \<open>None\<close> and IEEE
    comparisons false on NaN; the multiset facts for \<open>for x in ys: xs.remove(x)\<close>.
    Collections \<open>slice_simps\<close> and \<open>remove_simps\<close>.
  \<^item> \<open>Base_Strategy\<close>: configuration values as the datatype \<open>jval\<close> (JSON-like
    nested dicts as association lists), \<open>dict.get\<close>/\<open>d[k]\<close>, \<open>get_config_value\<close>,
    \<open>BaseStrategy.__init__\<close>'s \<open>strategy\<close> section, order dicts and
    \<open>validate_order\<close>, and the record \<open>log_strategy_action\<close> sends to the logger.
  \<^item> \<open>MA_Crossover\<close>: \<open>MACrossoverStrategy\<close> as the record \<open>ma_strategy\<close> (the
    per-symbol price history is a map from symbols to lists); \<open>ma_init\<close>,
    \<open>update_price_history\<close>, \<open>calculate_ma\<close>, \<open>detect_crossover\<close>,
    \<open>ma_calc_entries\<close>, \<open>ma_calc_closes\<close>, \<open>ma_on_market_data_update\<close>,
    \<open>get_strategy_status\<close>, one definition per method; \<open>ma_step\<close>/\<open>ma_run\<close> run a
    sequence of method calls, threading the state.
  \<^item> \<open>Default_Strategy\<close>: \<open>DefaultStrategy.calc_entries\<close>/\<open>calc_closes\<close>
    (\<open>default_calc_entries\<close>, \<open>default_calc_closes\<close>) with the Rust extension as a
    parameter \<open>pbr\<close>: a module mapping function names to functions from the positional
    arguments to a list of returned objects (attribute lists) or an exception.
  \<^item> \<open>Registry\<close>: \<open>StrategyManager\<close> as the record \<open>strategy_manager\<close>, generic in
    the instance type; the dict is an insertion-ordered association list
    (\<open>AList.update\<close>, \<open>AList.delete\<close>). Each method returns its result and the
    manager after the call. The package's classes are instantiated at the datatype
    \<open>strategy\<close>. \<open>sm_step\<close>/\<open>sm_run\<close> run sequences of calls, and \<open>abs_step\<close>
    is the abstract registry of the specification, a map from names to classes.
    \<open>abc_new\<close> is Python's instantiation of an \<open>ABC\<close> subclass of \<open>BaseStrategy\<close>:
    a \<open>TypeError\<close> naming the methods still abstract (\<open>calc_closes\<close>,
    \<open>calc_entries\<close>), or the subclass's constructor (\<open>subclass_strategy\<close>).
  \<^item> \<open>Grid_Backtest\<close>: \<open>simple_grid_strategy_backtest\<close> split as the code is: the
    parameter reads (\<open>read_grid_config\<close>), the level prices (\<open>grid_prices\<close>), the entry
    scan (\<open>fill_levels\<close>), the close scan (\<open>close_scan\<close>), the removal loop
    (\<open>remove_closed\<close>), one bar (\<open>grid_step\<close>), the bar loop (\<open>grid_run\<close>) and
    the summary (\<open>backtest_summary\<close>). The state is the record \<open>bt_state\<close> (balance,
    trade log, open positions).
  \<^item> \<open>Demo_Configs\<close>: the configuration literals of \<open>create_simple_backtest_config\<close>
    and \<open>create_simple_config\<close>, key for key.
  \<^item> \<open>Config_Tools\<close>: Python's \<open>==\<close>, truthiness, \<open>in\<close>, indexing and item
    assignment on \<open>jval\<close>, each with its exceptions; \<open>fix_trading_config\<close> as its
    four checks over the record \<open>fix_state\<close> (configuration, applied fixes, issues),
    the file write and the final summary; \<open>extract_config_summary\<close> of the web server,
    whose \<open>try\<close> block keeps the summary built before the first exception
    (\<open>run_until_error\<close>).
  \<^item> \<open>Web_Server\<close>: the project directory as a file store (an association list from
    project-relative paths to contents, JSON documents or other text) in the record
    \<open>server_state\<close> together with the number of running backtest threads and the
    process's working directory. Each route of \<open>PassivbotHandler\<close> is one handler
    (\<open>handle_save_config\<close>, \<open>handle_run_backtest\<close>, \<open>handle_use_web_config\<close>,
    \<open>handle_backup_config\<close>, \<open>handle_set_active_config\<close>,
    \<open>handle_config_status\<close> with \<open>parse_config_details\<close>, \<open>get_backtest_results\<close>,
    \<open>serve_file\<close>, \<open>handle_status\<close>) returning a response and the new state;
    \<open>do_GET\<close>/\<open>do_POST\<close> route by \<open>urlparse\<close>'s path. \<open>TCPServer\<close> serves one request
    at a time, so the only interleaving is with the ends of background threads:
    \<open>server_step\<close> takes a request or a thread end, \<open>server_run\<close> a sequence of them,
    and the inductive \<open>server_reach\<close> gives the reachable states. The launchers are
    \<open>start_server\<close> (a \<open>function\<close> whose port-retry recursion terminates by the
    measure \<open>65536 - port\<close>), \<open>start_enhanced_server\<close>, \<open>enhanced_main\<close>,
    \<open>setup_enhanced_server\<close> and \<open>start_enhanced_main\<close>.
  \<^item> \<open>Demo_Pipeline\<close>: the demo scripts around the backtest:
    \<open>create_mock_ohlcv_data\<close> (both demos) with NumPy's draws and the timestamps as
    inputs, \<open>save_ohlcv_data\<close>, and \<open>main\<close> of \<open>offline_backtest_demo.py\<close>
    (\<open>offline_config\<close>: the custom configuration or the built-in fallback;
    \<open>offline_main\<close>: the backtest on the mock series and the JSON export), the data
    overview \<open>simple_backtest_demo.main\<close> prints (\<open>data_overview\<close>, with pandas'
    \<open>mean\<close>, \<open>std\<close>, \<open>max\<close>, \<open>min\<close> and NaN as \<open>None\<close>), and
    \<open>print_backtest_results\<close> as the list of lines it prints (\<open>report_line\<close>).
  \<^item> \<open>Fix_Backtest\<close>: \<open>fix_backtest.py\<close> over the same file store:
    \<open>check_network\<close> over the outcome of the ping request, \<open>print_status\<close>, the timeout handler \<open>shorten_end_date\<close>, the three-attempt
    \<open>retry_loop\<close> with the subprocess outcomes as an input, and \<open>fix_backtest_main\<close>.
  \<^item> This theory holds the properties that connect the configurations with the two
    consumers that read them.

  \<^bold>\<open>What is proved.\<close> For the backtest, the accounting identity holds after every
  run (balance plus open quantities at any price equals the starting balance plus the
  realised plus the unrealised profit), with the invariants behind it: the ledger,
  distinct level indices, one buy per sell or open position, solvency for entry fractions
  in [0, 1], and positions sitting at or below their level. One bar's collect-then-remove
  loop is proved equal to a filter. The error paths are proved too: an empty series, and a
  zero close that aborts the run. For the moving-average strategy, the price buffer stays
  bounded by \<open>2 * slow_period\<close> over any call sequence. The signal on the bounded
  buffer is proved equal to the signal on the whole feed, a refinement. The proofs also
  cover the order side and sign, the full-position closes, the take-profit scenario of the
  specification, and the divergences listed below. For the default strategy: every
  returned order validates and is tagged, the returned orders are exactly the well-formed
  extension objects in order, every failure yields \<open>[]\<close>, and the argument assembly is
  specified exactly. For the registry: a refinement of the abstract map over any call
  sequence, distinct names, failed loads that change nothing, successful loads that
  replace the active instance, and a subclass that leaves an abstract method
  unimplemented registers and then fails at load with the abstract-class \<open>TypeError\<close>. For the configuration fixer: a second run on its own
  output writes nothing, and the error paths are shown. For the web server: no
  request or thread end deletes a file; the store keeps one entry per path; set-active
  with source \<open>'web'\<close> equals use-web; the backup and the backtest result
  round-trip through the file store; the running-thread invariant holds by rule induction
  over \<open>server_reach\<close>; when the running threads end, the count returns to zero with the
  last result recorded; the retry recursion reports consecutive ports and stops; and the
  enhanced launcher installs its page and reaches the server. For the demos: every mock
  bar is a well-formed candle, and the offline demo reaches its JSON export on every mock
  series, since the backtest fails only on a bad configuration, an empty series, a zero
  balance or a zero close; the data overview prints a positive lowest low with both price
  means between it and the highest high; and the printed report accounts for every trade
  once, ten listed and the rest counted.
  For \<open>fix_backtest.py\<close>: every backtest it starts runs with the configuration it
  wrote itself.

  \<^bold>\<open>Divergences the model exhibits\<close> (each proved by a named theorem):
  \<^item> the grid levels are arithmetic, not the geometric ladder of the specification's scenario;
  \<^item> a zero close aborts the whole backtest;
  \<^item> \<open>MACrossoverStrategy\<close> reads its parameters from \<open>strategy\<close>, not
    \<open>strategy.params\<close>;
  \<^item> \<open>calc_closes\<close> appends the price a second time after \<open>calc_entries\<close>;
  \<^item> a history shorter than \<open>slow_period\<close> silences closes, stop-losses included;
  \<^item> \<open>slow_period = 0\<close> leaves the buffer unbounded;
  \<^item> the demo configurations lack \<open>wallet_exposure_limit\<close>, so the extension receives
    \<open>None\<close>;
  \<^item> the web server's backtest thread moves the process's working directory to the
    project root, after which \<open>/\<close> and all static paths are served from there;
  \<^item> use-web always reports \<open>backup_created\<close>, and backups taken within one second
    overwrite each other;
  \<^item> set-active rejects the source \<open>'local'\<close> that its comment allows;
  \<^item> the launchers retry the next port only on errno 48, the macOS \<open>EADDRINUSE\<close>.
  \<^item> the offline demo replaces a runnable custom configuration by its built-in one when
    a key it only prints is missing;
  \<^item> \<open>fix_backtest.py\<close>'s retry on a timeout shortens the end date in a file that the
    next attempt overwrites.

  \<^bold>\<open>Abstractions and bounds.\<close> Python floats are \<open>real\<close>: rounding is not
  modelled, so the identities hold exactly where the code holds them up to rounding.
  Python ints are \<open>int\<close>. No loop needs fuel: every loop of the code runs over a finite
  list (bars, levels, positions, events), so each is structural recursion and every
  operation is total; \<open>None\<close> never stands for non-termination. The one unbounded
  recursion, the launchers' retry on a busy port, ends because a port above 65535 makes
  \<open>bind\<close> raise \<open>OverflowError\<close>; its \<open>termination\<close> proof uses that measure. What
  the operating system answers (modification times, sizes, the newest backtest
  directory, the subprocess outcome, the bind outcome) is an input of the handlers.

  \<^bold>\<open>Not modelled.\<close> The Rust extension (not in the repository; a parameter); the
  logging framework (only the name and message \<open>log_strategy_action\<close> passes to it);
  NumPy's seeded random generator (its draws are inputs of the mock data generator, so
  every theorem holds for any draws); the text formatting of printed numbers
  (\<open>:,.2f\<close>, \<open>:.6f\<close>, pandas' timestamp rendering) and the Chinese console labels,
  which the printed lines name by the value they show; the byte layout of JSON and NumPy
  file output; the HTTP framing of the web server's responses (headers, the text of its
  Chinese messages, which are named by constructors), \<open>webbrowser.open\<close>, the
  backtest subprocess and the network request itself (their outcomes are inputs);
  Python's \<open>str\<close> of a keyword-argument dict. The remaining unmapped lines of the
  sources are imports, docstrings and prints of fixed text.
\<close>

subsection \<open>Properties across components\<close>


text \<open>The grid backtest reads both demo configurations without error: the long-side
  spacing, markup, entry fraction and level count, and the starting balance.\<close>

theorem demo_configs_grid_parameters:
  "read_grid_config create_simple_backtest_config =
     Inr \<lparr>entry_spacing = 27/1000, close_markup = 6/1000, entry_qty_pct = 16/1000,
          max_positions = 7, initial_balance = 10000\<rparr> \<and>
   read_grid_config create_simple_config =
     Inr \<lparr>entry_spacing = 1/100, close_markup = 2/1000, entry_qty_pct = 1/100,
          max_positions = 3, initial_balance = 10000\<rparr>"
  by (simp add: read_grid_config_def create_simple_backtest_config_def create_simple_config_def)


text \<open>The web server's summary of the demo backtest configuration reports the values of
  the literal: the long-side level count and exposure limit, the short-side spacing, the
  live user and order type, and the starting balance.\<close>

theorem demo_config_summary:
  "config_walk (extract_config_summary create_simple_backtest_config) [''bot'', ''long'', ''n_positions''] = Some (JInt 7) \<and>
   config_walk (extract_config_summary create_simple_backtest_config) [''bot'', ''long'', ''total_wallet_exposure_limit''] = Some (JInt 2) \<and>
   config_walk (extract_config_summary create_simple_backtest_config) [''bot'', ''short'', ''entry_grid_spacing_pct''] = Some (JFloat (37/1000)) \<and>
   config_walk (extract_config_summary create_simple_backtest_config) [''live'', ''user''] = Some (JStr ''test_user'') \<and>
   config_walk (extract_config_summary create_simple_backtest_config) [''live'', ''time_in_force''] = Some (JStr ''GTC'') \<and>
   config_walk (extract_config_summary create_simple_backtest_config) [''backtest'', ''starting_balance''] = Some (JInt 10000)"
  by (simp add: extract_config_summary_def summary_backtest_def summary_side_def summary_live_def
      side_summary_keys_def initial_summary_def set_in_def create_simple_backtest_config_def)

end
